theory Spec2Isabelle
  imports Complex_Main "HOL-Library.Log_Nat"
begin

section \<open>Data model\<close>

text \<open>
  The play-ahead engine of Showdex: \<open>determineMoveOrder\<close>, \<open>applyMoveEffects\<close>,
  \<open>simulateTurn\<close> and the reducers of \<open>playAheadSlice\<close>.

  JavaScript numbers are modelled as integers (\<open>int\<close>) where the engine keeps whole
  numbers: health, damage, priorities and speeds, in the data it receives and in what it
  computes from them by addition, subtraction, halving and rounding down. They are taken
  to be of magnitude below \<open>2^53\<close>, where a double holds every whole number exactly. The
  engine leaves the whole numbers in one place, the quotient of a recoil or drain fraction
  and its product with the damage; these are modelled in double precision, together with
  the infinity and the \<open>NaN\<close> that a denominator 0 gives.
  A field that may be \<open>undefined\<close> or \<open>null\<close> is an \<open>option\<close>.
\<close>

type_synonym MoveName = string

datatype CalcdexPlayerKey = P1 | P2 | P3 | P4

datatype Format = FormatName string | GenerationNum nat

record CalcdexPokemon =
  playerKey :: "CalcdexPlayerKey option"
  speciesForme :: string
  hp :: "int option"
  maxhp :: "int option"
  dirtyHp :: "int option"

record CalcdexPlayer =
  activeIndices :: "int list option"
  selectionIndex :: "int option"
  pokemon :: "CalcdexPokemon list option"

record CalcdexBattleField =
  isTrickRoom :: "bool option"

record CalcdexBattleState =
  p1 :: "CalcdexPlayer option"
  p2 :: "CalcdexPlayer option"
  p3 :: "CalcdexPlayer option"
  p4 :: "CalcdexPlayer option"
  field :: "CalcdexBattleField option"
  format :: "Format option"
  gameType :: string

text \<open>Move metadata as the engine reads it from the dex: \<open>priority\<close>, \<open>category\<close>,
  \<open>recoil\<close> and \<open>drain\<close> (a pair \<open>[numerator, denominator]\<close>). A \<open>recoil\<close> or \<open>drain\<close> that is
  set but is not an array gives the fraction 0 in the engine and so has no effect, as an
  absent one; both are \<open>None\<close> here.\<close>

datatype MoveCategory = Physical | Special | Status

record DexMove =
  priority :: "int option"
  category :: MoveCategory
  recoil :: "(int \<times> int) option"
  drain :: "(int \<times> int) option"

text \<open>The dex is an external collaborator: \<open>getDexForFormat\<close> is a parameter of the
  model, giving for a format either no dex or the lookup \<open>dex.moves.get\<close>.\<close>

type_synonym Dex = "MoveName \<Rightarrow> DexMove option"
type_synonym DexProvider = "Format option \<Rightarrow> Dex option"

text \<open>The stats calculator is external too. The parameter stands for
  \<open>calcPokemonFinalStats(format, pokemon, opponent, player, opponentPlayer, field,
  allPlayers).stats()?.spe\<close>.\<close>

type_synonym StatsCalc =
  "Format option \<Rightarrow> CalcdexPokemon \<Rightarrow> CalcdexPokemon \<Rightarrow> CalcdexPlayer option \<Rightarrow>
   CalcdexPlayer option \<Rightarrow> CalcdexBattleField option \<Rightarrow> CalcdexPlayer list option \<Rightarrow> int option"

section \<open>JavaScript idioms\<close>

text \<open>\<open>a ?? b\<close>: the left operand unless it is \<open>undefined\<close> or \<open>null\<close>.\<close>

definition nullish :: "'a option \<Rightarrow> 'a \<Rightarrow> 'a" where
  "nullish a b = (case a of None \<Rightarrow> b | Some v \<Rightarrow> v)"

text \<open>\<open>xs?.[i]\<close>: reading an array out of range (or a missing array) gives
  \<open>undefined\<close>.\<close>

definition at_index :: "'a list option \<Rightarrow> int \<Rightarrow> 'a option" where
  "at_index xs i =
     (case xs of
        None \<Rightarrow> None
      | Some ys \<Rightarrow> if 0 \<le> i \<and> i < int (length ys) then Some (ys ! nat i) else None)"

text \<open>Truthiness of a move name or format: \<open>null\<close> and the empty string are falsy.\<close>

definition truthy_string :: "string option \<Rightarrow> bool" where
  "truthy_string s = (case s of None \<Rightarrow> False | Some v \<Rightarrow> v \<noteq> [])"

definition truthy_format :: "Format option \<Rightarrow> bool" where
  "truthy_format f =
     (case f of None \<Rightarrow> False | Some (FormatName s) \<Rightarrow> s \<noteq> [] | Some (GenerationNum n) \<Rightarrow> n \<noteq> 0)"

text \<open>\<open>format || battleState.format\<close>.\<close>

definition format_or :: "Format option \<Rightarrow> Format option \<Rightarrow> Format option" where
  "format_or f g = (if truthy_format f then f else g)"

text \<open>\<open>state[playerKey]\<close>.\<close>

fun player_of :: "CalcdexBattleState \<Rightarrow> CalcdexPlayerKey \<Rightarrow> CalcdexPlayer option" where
  "player_of s P1 = p1 s"
| "player_of s P2 = p2 s"
| "player_of s P3 = p3 s"
| "player_of s P4 = p4 s"

text \<open>\<open>player.activeIndices?.[0] ?? player.selectionIndex ?? 0\<close>.\<close>

definition active_index :: "CalcdexPlayer \<Rightarrow> int" where
  "active_index pl =
     (case at_index (activeIndices pl) 0 of
        Some i \<Rightarrow> i
      | None \<Rightarrow> nullish (selectionIndex pl) 0)"

section \<open>Move order: \<open>determineMoveOrder\<close>\<close>

datatype OrderReason = ReasonPriority | ReasonSpeed | ReasonTrickRoom | ReasonRandom

record MoveOrderInfo =
  firstPlayerKey :: CalcdexPlayerKey
  secondPlayerKey :: CalcdexPlayerKey
  firstMove :: MoveName
  secondMove :: MoveName
  firstPriority :: int
  secondPriority :: int
  firstSpeed :: int
  secondSpeed :: int
  reason :: OrderReason

text \<open>\<open>dex?.moves.get(move)?.priority ?? 0\<close>: a missing dex, a missing move and a
  missing priority all give priority 0.\<close>

definition move_priority :: "Dex option \<Rightarrow> MoveName \<Rightarrow> int" where
  "move_priority dex m =
     (case dex of
        None \<Rightarrow> 0
      | Some d \<Rightarrow> (case d m of None \<Rightarrow> 0 | Some dm \<Rightarrow> nullish (priority dm) 0))"

text \<open>\<open>field?.isTrickRoom ?? false\<close>.\<close>

definition trick_room_active :: "CalcdexBattleField option \<Rightarrow> bool" where
  "trick_room_active fld = nullish (case fld of None \<Rightarrow> None | Some f \<Rightarrow> isTrickRoom f) False"

text \<open>The draw \<open>Math.random()\<close> is the parameter \<open>rnd\<close>, a number in \<open>[0, 1)\<close>.\<close>

definition determineMoveOrder ::
  "DexProvider \<Rightarrow> StatsCalc \<Rightarrow> rat \<Rightarrow> Format option \<Rightarrow> CalcdexPokemon \<Rightarrow> CalcdexPokemon \<Rightarrow>
   MoveName \<Rightarrow> MoveName \<Rightarrow> CalcdexPlayer option \<Rightarrow> CalcdexPlayer option \<Rightarrow>
   CalcdexBattleField option \<Rightarrow> CalcdexPlayer list option \<Rightarrow> MoveOrderInfo" where
  "determineMoveOrder getDexForFormat calcSpe rnd fmt p1Pokemon p2Pokemon p1Move p2Move
       p1Player p2Player fld allPlayers =
     (let dex = getDexForFormat fmt;
          p1Priority = move_priority dex p1Move;
          p2Priority = move_priority dex p2Move;
          p1Speed = nullish (calcSpe fmt p1Pokemon p2Pokemon p1Player p2Player fld allPlayers) 0;
          p2Speed = nullish (calcSpe fmt p2Pokemon p1Pokemon p2Player p1Player fld allPlayers) 0;
          p1Key = nullish (playerKey p1Pokemon) P1;
          p2Key = nullish (playerKey p2Pokemon) P2
      in if p1Priority \<noteq> p2Priority then
           \<lparr> firstPlayerKey = (if p1Priority > p2Priority then p1Key else p2Key),
             secondPlayerKey = (if p1Priority > p2Priority then p2Key else p1Key),
             firstMove = (if p1Priority > p2Priority then p1Move else p2Move),
             secondMove = (if p1Priority > p2Priority then p2Move else p1Move),
             firstPriority = max p1Priority p2Priority,
             secondPriority = min p1Priority p2Priority,
             firstSpeed = (if p1Priority > p2Priority then p1Speed else p2Speed),
             secondSpeed = (if p1Priority > p2Priority then p2Speed else p1Speed),
             reason = ReasonPriority \<rparr>
         else
           let trickRoom = trick_room_active fld
           in if p1Speed = p2Speed then
                let p1GoesFirst = (rnd < 1 / 2)
                in \<lparr> firstPlayerKey = (if p1GoesFirst then p1Key else p2Key),
                     secondPlayerKey = (if p1GoesFirst then p2Key else p1Key),
                     firstMove = (if p1GoesFirst then p1Move else p2Move),
                     secondMove = (if p1GoesFirst then p2Move else p1Move),
                     firstPriority = p1Priority,
                     secondPriority = p2Priority,
                     firstSpeed = p1Speed,
                     secondSpeed = p2Speed,
                     reason = ReasonRandom \<rparr>
              else
                let p1GoesFirst = (if trickRoom then p1Speed < p2Speed else p1Speed > p2Speed)
                in \<lparr> firstPlayerKey = (if p1GoesFirst then p1Key else p2Key),
                     secondPlayerKey = (if p1GoesFirst then p2Key else p1Key),
                     firstMove = (if p1GoesFirst then p1Move else p2Move),
                     secondMove = (if p1GoesFirst then p2Move else p1Move),
                     firstPriority = p1Priority,
                     secondPriority = p2Priority,
                     firstSpeed = (if p1GoesFirst then p1Speed else p2Speed),
                     secondSpeed = (if p1GoesFirst then p2Speed else p1Speed),
                     reason = (if trickRoom then ReasonTrickRoom else ReasonSpeed) \<rparr>)"

section \<open>Effect application: \<open>applyMoveEffects\<close>\<close>

text \<open>The matchup result of the external damage calculator, as far as the engine reads
  it. A damage range is the pair \<open>[low, high]\<close> or a single number; arrays of any other
  length are outside the model.\<close>

datatype DamageRange = Range int int | Scalar int

record CalcdexMatchupResult =
  damageRange :: "DamageRange option"
  matchupDescription :: "string option"
  koChance :: "string option"

record MoveEffectApplicationResult =
  battleState :: CalcdexBattleState
  targetFainted :: bool
  userFainted :: bool
  description :: "string option"
  errors :: "string list option"

text \<open>Decimal rendering of a number inside a template literal.\<close>

function showNat :: "nat \<Rightarrow> string" where
  "showNat n =
     (if n < 10 then [''0123456789'' ! n]
      else showNat (n div 10) @ [''0123456789'' ! (n mod 10)])"
  by pat_completeness auto
termination
  by (relation "measure id") auto

declare showNat.simps [simp del]

definition showInt :: "int \<Rightarrow> string" where
  "showInt i = (if i < 0 then CHR ''-'' # showNat (nat (- i)) else showNat (nat i))"

text \<open>\<open>parts.join(' ')\<close>.\<close>

fun join_parts :: "string list \<Rightarrow> string" where
  "join_parts [] = []"
| "join_parts [x] = x"
| "join_parts (x # y # ys) = x @ '' '' @ join_parts (y # ys)"

text \<open>Modelled from the spec: \<open>cloneBattleState\<close> is not part of the sources at hand;
  the specification says that it returns a deep copy of the snapshot. On values a deep
  copy is the value itself; the store model further down makes the copy explicit.\<close>

definition cloneBattleState :: "CalcdexBattleState \<Rightarrow> CalcdexBattleState" where
  "cloneBattleState s = s"

text \<open>\<open>state[key] = player\<close> on the snapshot value.\<close>

fun set_player :: "CalcdexBattleState \<Rightarrow> CalcdexPlayerKey \<Rightarrow> CalcdexPlayer option \<Rightarrow> CalcdexBattleState" where
  "set_player s P1 pl = s\<lparr>p1 := pl\<rparr>"
| "set_player s P2 pl = s\<lparr>p2 := pl\<rparr>"
| "set_player s P3 pl = s\<lparr>p3 := pl\<rparr>"
| "set_player s P4 pl = s\<lparr>p4 := pl\<rparr>"

text \<open>\<open>state[key].pokemon[index] = value\<close>: the assignment through the player object
  to a slot of its \<open>pokemon\<close> array. The engine only assigns to a slot it has just read
  a Pokemon from, so the index is in range; nothing is written otherwise.\<close>

definition set_pokemon ::
  "CalcdexBattleState \<Rightarrow> CalcdexPlayerKey \<Rightarrow> int \<Rightarrow> CalcdexPokemon \<Rightarrow> CalcdexBattleState" where
  "set_pokemon s k i v =
     (case player_of s k of
        None \<Rightarrow> s
      | Some pl \<Rightarrow>
          (case pokemon pl of
             None \<Rightarrow> s
           | Some xs \<Rightarrow>
               if 0 \<le> i \<and> i < int (length xs)
               then set_player s k (Some (pl\<lparr>pokemon := Some (xs[nat i := v])\<rparr>))
               else s))"

text \<open>The Pokemon in a player's active slot, and the health the engine reads from one:
  \<open>pokemon.hp ?? 100\<close> and \<open>pokemon.maxhp ?? 100\<close>.\<close>

definition active_pokemon :: "CalcdexPlayer \<Rightarrow> CalcdexPokemon option" where
  "active_pokemon pl = at_index (pokemon pl) (active_index pl)"

definition current_hp :: "CalcdexPokemon \<Rightarrow> int" where
  "current_hp pk = nullish (hp pk) 100"

definition max_hp :: "CalcdexPokemon \<Rightarrow> int" where
  "max_hp pk = nullish (maxhp pk) 100"

text \<open>Observations on a snapshot: the active Pokemon of a side, and its health as the
  engine reads it.\<close>

definition active_of :: "CalcdexBattleState \<Rightarrow> CalcdexPlayerKey \<Rightarrow> CalcdexPokemon option" where
  "active_of s k = (case player_of s k of None \<Rightarrow> None | Some pl \<Rightarrow> active_pokemon pl)"

definition health_of :: "CalcdexBattleState \<Rightarrow> CalcdexPlayerKey \<Rightarrow> int option" where
  "health_of s k = map_option current_hp (active_of s k)"

text \<open>Truthiness of \<open>matchupResult?.damageRange\<close>: an array is truthy, a number is
  truthy unless it is 0.\<close>

definition range_of :: "CalcdexMatchupResult option \<Rightarrow> DamageRange option" where
  "range_of m = (case m of None \<Rightarrow> None | Some r \<Rightarrow> damageRange r)"

definition range_present :: "CalcdexMatchupResult option \<Rightarrow> bool" where
  "range_present m =
     (case range_of m of None \<Rightarrow> False | Some (Range a b) \<Rightarrow> True | Some (Scalar n) \<Rightarrow> n \<noteq> 0)"

text \<open>The applied amount: \<open>Math.floor((low + high) / 2)\<close> for a range, the number itself
  otherwise.\<close>

definition damage_amount :: "CalcdexMatchupResult option \<Rightarrow> int" where
  "damage_amount m =
     (case range_of m of
        None \<Rightarrow> 0
      | Some (Range a b) \<Rightarrow> \<lfloor>(of_int (a + b) :: rat) / 2\<rfloor>
      | Some (Scalar n) \<Rightarrow> n)"

text \<open>Division and multiplication of doubles (IEEE 754, binary64): the exact result is
  rounded to the nearest number with a significand of 53 bits, a tie going to the even
  significand. For \<open>y > 0\<close>, \<open>binade y\<close> is the exponent \<open>e\<close> with \<open>2^e \<le> y < 2^(e+1)\<close>; the
  doubles of that binade are the multiples of \<open>2^(e-52)\<close>. The range of the exponent is not
  bounded here: whole numbers below \<open>2^53\<close>, their quotients and the products of the two
  stay far from overflow and underflow.\<close>

definition binade :: "rat \<Rightarrow> int" where
  "binade y =
     (let (a, b) = quotient_of y;
          k = bitlen a - bitlen b
      in if power_int 2 k \<le> y then k else k - 1)"

definition round_half_even :: "rat \<Rightarrow> int" where
  "round_half_even m =
     (let f = \<lfloor>m\<rfloor>;
          r = m - of_int f
      in if r < 1 / 2 then f else if 1 / 2 < r then f + 1 else if even f then f else f + 1)"

definition round_double :: "rat \<Rightarrow> rat" where
  "round_double x =
     (if x = 0 then 0
      else let y = \<bar>x\<bar>;
               u = power_int 2 (binade y - 52)
           in sgn x * of_int (round_half_even (y / u)) * u)"

text \<open>\<open>frac[0] / frac[1]\<close> for a fraction of the move metadata whose denominator is not 0:
  the double nearest to the quotient.\<close>

definition fraction :: "int \<times> int \<Rightarrow> rat" where
  "fraction f = round_double (of_int (fst f) / of_int (snd f))"

text \<open>\<open>Array.isArray(frac) ? frac[0] / frac[1] : 0\<close> for a fraction that is present, with
  the values JavaScript gives to a division by 0: \<open>Infinity\<close>, \<open>-Infinity\<close>, and \<open>NaN\<close> for
  \<open>0 / 0\<close>.\<close>

datatype Quotient = Finite rat | PlusInfinity | MinusInfinity | NotANumber

definition percent_of :: "int \<times> int \<Rightarrow> Quotient" where
  "percent_of f =
     (if snd f \<noteq> 0 then Finite (fraction f)
      else if 0 < fst f then PlusInfinity
      else if fst f < 0 then MinusInfinity
      else NotANumber)"

text \<open>\<open>percent > 0\<close>: false for \<open>-Infinity\<close> and for \<open>NaN\<close>.\<close>

fun is_positive :: "Quotient \<Rightarrow> bool" where
  "is_positive (Finite p) = (0 < p)"
| "is_positive PlusInfinity = True"
| "is_positive MinusInfinity = False"
| "is_positive NotANumber = False"

text \<open>\<open>Math.max(1, Math.floor(damageDealt * percent))\<close> for a finite percent: the product
  is rounded to a double before it is rounded down.\<close>

definition scaled_amount :: "int \<Rightarrow> rat \<Rightarrow> int" where
  "scaled_amount damageDealt percent = max 1 \<lfloor>round_double (of_int damageDealt * percent)\<rfloor>"

text \<open>The same expression for any percent. A product with an infinity is an infinity of
  the product's sign, and \<open>NaN\<close> when the damage is 0; \<open>Math.floor\<close> keeps all three;
  \<open>Math.max(1, -Infinity)\<close> is 1 and \<open>Math.max(1, NaN)\<close> is \<open>NaN\<close>.\<close>

datatype Amount = Whole int | InfiniteAmount | NaNAmount

fun amount_of :: "int \<Rightarrow> Quotient \<Rightarrow> Amount" where
  "amount_of damageDealt (Finite percent) = Whole (scaled_amount damageDealt percent)"
| "amount_of damageDealt PlusInfinity =
     (if 0 < damageDealt then InfiniteAmount else if damageDealt < 0 then Whole 1 else NaNAmount)"
| "amount_of damageDealt MinusInfinity =
     (if damageDealt < 0 then InfiniteAmount else if 0 < damageDealt then Whole 1 else NaNAmount)"
| "amount_of damageDealt NotANumber = NaNAmount"

text \<open>An amount inside a template literal.\<close>

fun showAmount :: "Amount \<Rightarrow> string" where
  "showAmount (Whole n) = showInt n"
| "showAmount InfiniteAmount = ''Infinity''"
| "showAmount NaNAmount = ''NaN''"

text \<open>\<open>Math.max(0, currentHp - amount)\<close> and \<open>Math.min(maxHp, currentHp + amount)\<close>. The
  result is a whole number unless the amount is \<open>NaN\<close>, where it is \<open>NaN\<close> as well
  (\<open>None\<close>).\<close>

fun health_minus :: "int \<Rightarrow> Amount \<Rightarrow> int option" where
  "health_minus currentHp (Whole n) = Some (max 0 (currentHp - n))"
| "health_minus currentHp InfiniteAmount = Some 0"
| "health_minus currentHp NaNAmount = None"

fun health_plus :: "int \<Rightarrow> int \<Rightarrow> Amount \<Rightarrow> int option" where
  "health_plus maxHp currentHp (Whole n) = Some (min maxHp (currentHp + n))"
| "health_plus maxHp currentHp InfiniteAmount = Some maxHp"
| "health_plus maxHp currentHp NaNAmount = None"

text \<open>The three stages of the pipeline, in the order of the source. Each takes the
  working snapshot and the description parts so far, and returns them updated together
  with the flag of its early return. \<open>userPokemon\<close> and \<open>targetPokemon\<close> are the objects
  read before the first stage, as in the source: a later stage does not read the slot
  again.

  A health that is \<open>NaN\<close> is the one value of the source that the whole-number health of
  a Pokemon cannot hold. The recoil and the drain stage compute it only for a fraction
  with denominator 0 on a damage of exactly 0; the source then stores \<open>NaN\<close> in the
  actor's slot, and the stages here add their sentence to the description and leave the
  slot as it is.\<close>

definition damageStage ::
  "CalcdexBattleState \<Rightarrow> string list \<Rightarrow> CalcdexPlayerKey \<Rightarrow> int \<Rightarrow> CalcdexPokemon \<Rightarrow> DexMove \<Rightarrow>
   CalcdexMatchupResult option \<Rightarrow> CalcdexBattleState \<times> string list \<times> bool" where
  "damageStage s parts targetPlayerKey targetIndex targetPokemon dexMove matchupResult =
     (if category dexMove \<noteq> Status \<and> range_present matchupResult then
        let damage = damage_amount matchupResult
        in if damage > 0 then
             let currentHp = current_hp targetPokemon;
                 newHp = max 0 (currentHp - damage);
                 s' = set_pokemon s targetPlayerKey targetIndex
                        (targetPokemon\<lparr>hp := Some newHp, dirtyHp := Some newHp\<rparr>);
                 parts' = parts @ [''It dealt '' @ showInt damage @ '' damage.'']
             in if newHp = 0
                then (s', parts' @ [speciesForme targetPokemon @ '' fainted!''], True)
                else (s', parts', False)
           else (s, parts, False)
      else (s, parts, False))"

definition recoilStage ::
  "CalcdexBattleState \<Rightarrow> string list \<Rightarrow> CalcdexPlayerKey \<Rightarrow> int \<Rightarrow> CalcdexPokemon \<Rightarrow> DexMove \<Rightarrow>
   CalcdexMatchupResult option \<Rightarrow> CalcdexBattleState \<times> string list \<times> bool" where
  "recoilStage s parts userPlayerKey userIndex userPokemon dexMove matchupResult =
     (case recoil dexMove of
        None \<Rightarrow> (s, parts, False)
      | Some ratio \<Rightarrow>
          let recoilPercent = percent_of ratio
          in if is_positive recoilPercent \<and> range_present matchupResult then
               let damageDealt = damage_amount matchupResult;
                   recoilDamage = amount_of damageDealt recoilPercent;
                   currentHp = current_hp userPokemon;
                   parts' = parts @
                     [speciesForme userPokemon @ '' took '' @ showAmount recoilDamage @ '' recoil damage.'']
               in case health_minus currentHp recoilDamage of
                    None \<Rightarrow> (s, parts', False)
                  | Some newHp \<Rightarrow>
                      let s' = set_pokemon s userPlayerKey userIndex
                                 (userPokemon\<lparr>hp := Some newHp, dirtyHp := Some newHp\<rparr>)
                      in if newHp = 0
                         then (s', parts' @ [speciesForme userPokemon @ '' fainted from recoil!''], True)
                         else (s', parts', False)
             else (s, parts, False))"

definition drainStage ::
  "CalcdexBattleState \<Rightarrow> string list \<Rightarrow> CalcdexPlayerKey \<Rightarrow> int \<Rightarrow> CalcdexPokemon \<Rightarrow> DexMove \<Rightarrow>
   CalcdexMatchupResult option \<Rightarrow> CalcdexBattleState \<times> string list" where
  "drainStage s parts userPlayerKey userIndex userPokemon dexMove matchupResult =
     (case drain dexMove of
        None \<Rightarrow> (s, parts)
      | Some ratio \<Rightarrow>
          let drainPercent = percent_of ratio
          in if is_positive drainPercent \<and> range_present matchupResult then
               let damageDealt = damage_amount matchupResult;
                   healAmount = amount_of damageDealt drainPercent;
                   currentHp = current_hp userPokemon;
                   maxHp = max_hp userPokemon;
                   parts' = parts @
                     [speciesForme userPokemon @ '' restored '' @ showAmount healAmount @ '' HP.'']
               in case health_plus maxHp currentHp healAmount of
                    None \<Rightarrow> (s, parts')
                  | Some newHp \<Rightarrow>
                      (set_pokemon s userPlayerKey userIndex
                         (userPokemon\<lparr>hp := Some newHp, dirtyHp := Some newHp\<rparr>), parts')
             else (s, parts))"

definition effect_failure :: "CalcdexBattleState \<Rightarrow> string \<Rightarrow> MoveEffectApplicationResult" where
  "effect_failure s msg =
     \<lparr> battleState = s, targetFainted = False, userFainted = False,
       description = None, errors = Some [msg] \<rparr>"

text \<open>The condition under which the recoil stage leaves the actor at zero health and
  returns from the call.\<close>

definition recoil_removes_actor :: "DexMove \<Rightarrow> CalcdexMatchupResult option \<Rightarrow> CalcdexPokemon \<Rightarrow> bool" where
  "recoil_removes_actor dm mu upk =
     (case recoil dm of
        None \<Rightarrow> False
      | Some r \<Rightarrow> is_positive (percent_of r) \<and> range_present mu \<and>
                 health_minus (current_hp upk) (amount_of (damage_amount mu) (percent_of r)) = Some 0)"

text \<open>The pipeline after the checks of the arguments: the description starts with the
  move being used, then the stages run in order; the damage stage and the recoil stage
  each return from the whole call when a combatant is left at zero health.\<close>

definition run_stages ::
  "CalcdexBattleState \<Rightarrow> CalcdexPlayerKey \<Rightarrow> int \<Rightarrow> CalcdexPokemon \<Rightarrow> CalcdexPlayerKey \<Rightarrow> int \<Rightarrow>
   CalcdexPokemon \<Rightarrow> MoveName \<Rightarrow> DexMove \<Rightarrow> CalcdexMatchupResult option \<Rightarrow>
   MoveEffectApplicationResult" where
  "run_stages newBattleState userPlayerKey userIndex userPokemon targetPlayerKey targetIndex
       targetPokemon move dexMove matchupResult =
     (let parts0 = [speciesForme userPokemon @ '' used '' @ move @ ''!''];
          (s1, parts1, targetOut) =
            damageStage newBattleState parts0 targetPlayerKey targetIndex targetPokemon
              dexMove matchupResult
      in if targetOut then
           \<lparr> battleState = s1, targetFainted = True, userFainted = False,
             description = Some (join_parts parts1), errors = None \<rparr>
         else
           let (s2, parts2, userOut) =
                 recoilStage s1 parts1 userPlayerKey userIndex userPokemon dexMove matchupResult
           in if userOut then
                \<lparr> battleState = s2, targetFainted = False, userFainted = True,
                  description = Some (join_parts parts2), errors = None \<rparr>
              else
                let (s3, parts3) =
                      drainStage s2 parts2 userPlayerKey userIndex userPokemon dexMove
                        matchupResult
                in \<lparr> battleState = s3, targetFainted = False, userFainted = False,
                     description = Some (join_parts parts3), errors = None \<rparr>)"

definition applyMoveEffects ::
  "DexProvider \<Rightarrow> CalcdexBattleState \<Rightarrow> CalcdexPlayerKey \<Rightarrow> CalcdexPlayerKey \<Rightarrow> MoveName \<Rightarrow>
   CalcdexMatchupResult option \<Rightarrow> Format option \<Rightarrow> MoveEffectApplicationResult" where
  "applyMoveEffects getDexForFormat bs userPlayerKey targetPlayerKey move matchupResult fmt =
     (let newBattleState = cloneBattleState bs
      in case (player_of newBattleState userPlayerKey, player_of newBattleState targetPlayerKey) of
           (Some userPlayer, Some targetPlayer) \<Rightarrow>
             (let userIndex = active_index userPlayer;
                  targetIndex = active_index targetPlayer
              in case (at_index (pokemon userPlayer) userIndex,
                       at_index (pokemon targetPlayer) targetIndex) of
                   (Some userPokemon, Some targetPokemon) \<Rightarrow>
                     (case (case getDexForFormat fmt of None \<Rightarrow> None | Some dex \<Rightarrow> dex move) of
                        None \<Rightarrow>
                          effect_failure newBattleState (''Move '' @ move @ '' not found in dex'')
                      | Some dexMove \<Rightarrow>
                          run_stages newBattleState userPlayerKey userIndex userPokemon
                            targetPlayerKey targetIndex targetPokemon move dexMove matchupResult)
                 | _ \<Rightarrow> effect_failure newBattleState ''Invalid Pokemon'')
         | _ \<Rightarrow> effect_failure newBattleState ''Invalid player keys'')"

text \<open>The situation in which the stages run: the acting and the target side have an
  active Pokemon in the snapshot, and the dex knows the move.\<close>

definition index_of :: "CalcdexBattleState \<Rightarrow> CalcdexPlayerKey \<Rightarrow> int" where
  "index_of s k = (case player_of s k of None \<Rightarrow> 0 | Some pl \<Rightarrow> active_index pl)"

definition dex_move :: "DexProvider \<Rightarrow> Format option \<Rightarrow> MoveName \<Rightarrow> DexMove option" where
  "dex_move getDexForFormat fmt mv = (case getDexForFormat fmt of None \<Rightarrow> None | Some dex \<Rightarrow> dex mv)"

definition applies ::
  "DexProvider \<Rightarrow> CalcdexBattleState \<Rightarrow> CalcdexPlayerKey \<Rightarrow> CalcdexPlayerKey \<Rightarrow> MoveName \<Rightarrow>
   Format option \<Rightarrow> CalcdexPokemon \<Rightarrow> CalcdexPokemon \<Rightarrow> DexMove \<Rightarrow> bool" where
  "applies getDexForFormat bs userKey targetKey mv fmt userPokemon targetPokemon dexMove =
     (active_of bs userKey = Some userPokemon \<and> active_of bs targetKey = Some targetPokemon \<and>
      dex_move getDexForFormat fmt mv = Some dexMove)"

section \<open>Turn orchestration: \<open>simulateTurn\<close>\<close>

record PlayAheadMoveResult =
  mr_pokemon :: "CalcdexPokemon option"
  mr_move :: MoveName
  mr_playerKey :: CalcdexPlayerKey
  mr_damageRange :: "DamageRange option"
  mr_damagePercent :: "string option"
  mr_koChance :: "string option"
  movesFirst :: bool
  mr_priority :: int
  effectiveSpeed :: int

record TurnSimulationResult =
  ts_battleState :: CalcdexBattleState
  moveResults :: "PlayAheadMoveResult list"
  ts_errors :: "string list option"

text \<open>Reading a property of \<open>undefined\<close> throws.\<close>

datatype js_error = TypeError

text \<open>The damage calculator \<open>calcSmogonMatchup\<close> is external: a parameter, called with
  the format, the game type, attacker, defender, move, both players, the player list and
  the field (the settings argument is the empty object at both call sites).\<close>

type_synonym MatchupCalc =
  "Format option \<Rightarrow> string \<Rightarrow> CalcdexPokemon option \<Rightarrow> CalcdexPokemon option \<Rightarrow> MoveName \<Rightarrow>
   CalcdexPlayer \<Rightarrow> CalcdexPlayer \<Rightarrow> CalcdexPlayer list \<Rightarrow> CalcdexBattleField option \<Rightarrow>
   CalcdexMatchupResult option"

text \<open>The record pushed to \<open>moveResults\<close> for one executed move.\<close>

definition move_result ::
  "CalcdexPokemon option \<Rightarrow> MoveName \<Rightarrow> CalcdexPlayerKey \<Rightarrow> CalcdexMatchupResult option \<Rightarrow>
   bool \<Rightarrow> int \<Rightarrow> int \<Rightarrow> PlayAheadMoveResult" where
  "move_result pk mv key matchup isFirst prio spe =
     \<lparr> mr_pokemon = pk, mr_move = mv, mr_playerKey = key,
       mr_damageRange = range_of matchup,
       mr_damagePercent = (case matchup of None \<Rightarrow> None | Some m \<Rightarrow> matchupDescription m),
       mr_koChance = (case matchup of None \<Rightarrow> None | Some m \<Rightarrow> koChance m),
       movesFirst = isFirst, mr_priority = prio, effectiveSpeed = spe \<rparr>"

text \<open>\<open>errors.length > 0 ? errors : undefined\<close>.\<close>

definition errors_or_undefined :: "string list \<Rightarrow> string list option" where
  "errors_or_undefined es = (if es \<noteq> [] then Some es else None)"

text \<open>One move of the turn, as both the "execute first move" and the "execute second
  move" block of the source do it: look up the two players (reading \<open>activeIndices\<close> of
  a missing player throws), read their active Pokemon, ask the calculator for the
  matchup and apply the effects. Returns the application result, the Pokemon that
  moved and the matchup.\<close>

definition run_move ::
  "DexProvider \<Rightarrow> MatchupCalc \<Rightarrow> CalcdexBattleState \<Rightarrow> CalcdexPlayerKey \<Rightarrow> CalcdexPlayerKey \<Rightarrow>
   MoveName \<Rightarrow> Format option \<Rightarrow>
   js_error + (MoveEffectApplicationResult \<times> CalcdexPokemon option \<times> CalcdexMatchupResult option)" where
  "run_move getDexForFormat calcSmogonMatchup cur userKey targetKey mv fmt =
     (case player_of cur userKey of
        None \<Rightarrow> Inl TypeError
      | Some moveUser \<Rightarrow>
          (case player_of cur targetKey of
             None \<Rightarrow> Inl TypeError
           | Some moveTarget \<Rightarrow>
               (let moveUserPokemon = at_index (pokemon moveUser) (active_index moveUser);
                    moveTargetPokemon = at_index (pokemon moveTarget) (active_index moveTarget);
                    matchup =
                      calcSmogonMatchup (format_or fmt (format cur)) (gameType cur)
                        moveUserPokemon moveTargetPokemon mv moveUser moveTarget
                        [moveUser, moveTarget] (field cur);
                    moveResult =
                      applyMoveEffects getDexForFormat cur userKey targetKey mv matchup
                        (format_or fmt (format cur))
                in Inr (moveResult, moveUserPokemon, matchup))))"

definition simulateTurn ::
  "DexProvider \<Rightarrow> StatsCalc \<Rightarrow> MatchupCalc \<Rightarrow> rat \<Rightarrow> CalcdexBattleState \<Rightarrow> CalcdexPlayerKey \<Rightarrow>
   CalcdexPlayerKey \<Rightarrow> MoveName \<Rightarrow> MoveName \<Rightarrow> Format option \<Rightarrow> js_error + TurnSimulationResult" where
  "simulateTurn getDexForFormat calcSpe calcSmogonMatchup rnd bs plKey oppKey plMove oppMove fmt =
     (let cur = cloneBattleState bs
      in case (player_of cur plKey, player_of cur oppKey) of
           (Some player, Some opponent) \<Rightarrow>
             (case (at_index (pokemon player) (active_index player),
                    at_index (pokemon opponent) (active_index opponent)) of
                (Some playerPokemon, Some opponentPokemon) \<Rightarrow>
                  (let moveOrder =
                         determineMoveOrder getDexForFormat calcSpe rnd (format_or fmt (format cur))
                           playerPokemon opponentPokemon plMove oppMove
                           (Some player) (Some opponent) (field cur) (Some [player, opponent])
                   in case run_move getDexForFormat calcSmogonMatchup cur
                             (firstPlayerKey moveOrder) (secondPlayerKey moveOrder)
                             (firstMove moveOrder) fmt of
                        Inl e \<Rightarrow> Inl e
                      | Inr (firstMoveResult, firstMoveUserPokemon, firstMatchup) \<Rightarrow>
                          (let cur1 = battleState firstMoveResult;
                               moveResults1 =
                                 [move_result firstMoveUserPokemon (firstMove moveOrder)
                                    (firstPlayerKey moveOrder) firstMatchup True
                                    (firstPriority moveOrder) (firstSpeed moveOrder)];
                               errors1 = nullish (errors firstMoveResult) []
                           in if targetFainted firstMoveResult then
                                Inr \<lparr> ts_battleState = cur1, moveResults = moveResults1,
                                      ts_errors = errors_or_undefined errors1 \<rparr>
                              else if userFainted firstMoveResult then
                                Inr \<lparr> ts_battleState = cur1, moveResults = moveResults1,
                                      ts_errors = errors_or_undefined errors1 \<rparr>
                              else
                                case run_move getDexForFormat calcSmogonMatchup cur1
                                       (secondPlayerKey moveOrder) (firstPlayerKey moveOrder)
                                       (secondMove moveOrder) fmt of
                                  Inl e \<Rightarrow> Inl e
                                | Inr (secondMoveResult, secondMoveUserPokemon, secondMatchup) \<Rightarrow>
                                    Inr \<lparr> ts_battleState = battleState secondMoveResult,
                                          moveResults = moveResults1 @
                                            [move_result secondMoveUserPokemon (secondMove moveOrder)
                                               (secondPlayerKey moveOrder) secondMatchup False
                                               (secondPriority moveOrder) (secondSpeed moveOrder)],
                                          ts_errors = errors_or_undefined
                                            (errors1 @ nullish (errors secondMoveResult) []) \<rparr>))
              | _ \<Rightarrow>
                  Inr \<lparr> ts_battleState = cur, moveResults = [],
                        ts_errors = Some [''No active Pokemon''] \<rparr>)
         | _ \<Rightarrow>
             Inr \<lparr> ts_battleState = cur, moveResults = [],
                   ts_errors = Some [''Invalid player keys''] \<rparr>)"

section \<open>Session state: the reducers of \<open>playAheadSlice\<close>\<close>

datatype DecisionType =
  SwitchIn | RandomEffect | MultiHit | FocusSash | BerryActivation | AbilityTrigger

record DecisionMetadata =
  availablePokemonIndices :: "int list option"
  probability :: "rat option"
  effectName :: "string option"
  hitRange :: "(int \<times> int) option"
  triggerName :: "string option"

record PlayAheadPendingDecision =
  decisionType :: DecisionType
  pd_playerKey :: CalcdexPlayerKey
  moveName :: "MoveName option"
  pd_description :: string
  metadata :: "DecisionMetadata option"

record TurnHistoryEntry =
  turn :: int
  th_playerMove :: MoveName
  th_opponentMove :: MoveName
  results :: "PlayAheadMoveResult list"

record PlayAheadState =
  battleId :: "string option"
  active :: bool
  simulatedTurns :: int
  playerMove :: "MoveName option"
  opponentMove :: "MoveName option"
  simulatedBattleState :: "CalcdexBattleState option"
  turnResults :: "PlayAheadMoveResult list option"
  pendingDecisions :: "PlayAheadPendingDecision list"
  turnHistory :: "TurnHistoryEntry list option"
  pa_errors :: "string list option"

text \<open>The slice maps a battle id to the simulation state of that battle.\<close>

type_synonym PlayAheadSliceState = "string \<Rightarrow> PlayAheadState option"

text \<open>The guard of every reducer but \<open>initSimulation\<close>:
  \<open>!battleId || !state[battleId]?.active\<close> returns without touching the state.\<close>

definition guard_rejects :: "PlayAheadSliceState \<Rightarrow> string \<Rightarrow> bool" where
  "guard_rejects st bid =
     (bid = [] \<or> (case st bid of None \<Rightarrow> True | Some pas \<Rightarrow> \<not> active pas))"

definition initSimulation ::
  "PlayAheadSliceState \<Rightarrow> string \<Rightarrow> CalcdexBattleState option \<Rightarrow> PlayAheadSliceState" where
  "initSimulation st bid bs =
     (if bid = [] then st
      else case bs of
             None \<Rightarrow> st
           | Some b \<Rightarrow>
               st(bid \<mapsto>
                 \<lparr> battleId = Some bid, active = True, simulatedTurns = 0,
                   playerMove = None, opponentMove = None,
                   simulatedBattleState = Some (cloneBattleState b),
                   turnResults = Some [], pendingDecisions = [],
                   turnHistory = Some [], pa_errors = Some [] \<rparr>))"

definition setPlayerMove :: "PlayAheadSliceState \<Rightarrow> string \<Rightarrow> MoveName option \<Rightarrow> PlayAheadSliceState" where
  "setPlayerMove st bid mv =
     (if guard_rejects st bid then st
      else case st bid of None \<Rightarrow> st | Some pas \<Rightarrow> st(bid \<mapsto> pas\<lparr>playerMove := mv\<rparr>))"

definition setOpponentMove :: "PlayAheadSliceState \<Rightarrow> string \<Rightarrow> MoveName option \<Rightarrow> PlayAheadSliceState" where
  "setOpponentMove st bid mv =
     (if guard_rejects st bid then st
      else case st bid of None \<Rightarrow> st | Some pas \<Rightarrow> st(bid \<mapsto> pas\<lparr>opponentMove := mv\<rparr>))"

definition updateSimulatedState ::
  "PlayAheadSliceState \<Rightarrow> string \<Rightarrow> CalcdexBattleState \<Rightarrow> PlayAheadMoveResult list \<Rightarrow>
   PlayAheadSliceState" where
  "updateSimulatedState st bid bs rs =
     (if guard_rejects st bid then st
      else case st bid of
             None \<Rightarrow> st
           | Some pas \<Rightarrow>
               st(bid \<mapsto> pas\<lparr>simulatedBattleState := Some bs, turnResults := Some rs\<rparr>))"

definition addPendingDecision ::
  "PlayAheadSliceState \<Rightarrow> string \<Rightarrow> PlayAheadPendingDecision \<Rightarrow> PlayAheadSliceState" where
  "addPendingDecision st bid d =
     (if guard_rejects st bid then st
      else case st bid of
             None \<Rightarrow> st
           | Some pas \<Rightarrow> st(bid \<mapsto> pas\<lparr>pendingDecisions := pendingDecisions pas @ [d]\<rparr>))"

text \<open>\<open>xs.splice(i, 1)\<close>: a negative index counts from the end, an index beyond the end
  removes nothing.\<close>

definition splice_one :: "'a list \<Rightarrow> int \<Rightarrow> 'a list" where
  "splice_one xs i =
     (let n = int (length xs);
          start = (if i < 0 then max (n + i) 0 else min i n)
      in take (nat start) xs @ drop (nat start + 1) xs)"

definition resolvePendingDecision :: "PlayAheadSliceState \<Rightarrow> string \<Rightarrow> int \<Rightarrow> PlayAheadSliceState" where
  "resolvePendingDecision st bid decisionIndex =
     (if guard_rejects st bid then st
      else case st bid of
             None \<Rightarrow> st
           | Some pas \<Rightarrow>
               st(bid \<mapsto> pas\<lparr>pendingDecisions := splice_one (pendingDecisions pas) decisionIndex\<rparr>))"

text \<open>The history entry is pushed when both move selections and \<open>turnResults\<close> are
  truthy; an array, also the empty one, is truthy.\<close>

definition save_turn :: "PlayAheadState \<Rightarrow> PlayAheadState" where
  "save_turn pas =
     (case (playerMove pas, opponentMove pas, turnResults pas) of
        (Some pm, Some om, Some rs) \<Rightarrow>
          if pm \<noteq> [] \<and> om \<noteq> [] then
            pas\<lparr>turnHistory := Some (nullish (turnHistory pas) [] @
              [\<lparr> turn = simulatedTurns pas + 1, th_playerMove = pm, th_opponentMove = om,
                 results = rs \<rparr>])\<rparr>
          else pas
      | _ \<Rightarrow> pas)"

definition advanceTurn :: "PlayAheadSliceState \<Rightarrow> string \<Rightarrow> PlayAheadSliceState" where
  "advanceTurn st bid =
     (if guard_rejects st bid then st
      else case st bid of
             None \<Rightarrow> st
           | Some playAheadState \<Rightarrow>
               (let saved = save_turn playAheadState
                in st(bid \<mapsto>
                     saved\<lparr>simulatedTurns := simulatedTurns saved + 1,
                       playerMove := None, opponentMove := None, turnResults := Some []\<rparr>)))"

definition resetSimulation :: "PlayAheadSliceState \<Rightarrow> string \<Rightarrow> PlayAheadSliceState" where
  "resetSimulation st bid = (if bid = [] \<or> st bid = None then st else st(bid := None))"

text \<open>\<open>destroy\<close> takes one battle id or a list of them; a single id is the list of
  length one.\<close>

fun destroy :: "PlayAheadSliceState \<Rightarrow> string list \<Rightarrow> PlayAheadSliceState" where
  "destroy st [] = st"
| "destroy st (bid # bids) = destroy (if st bid = None then st else st(bid := None)) bids"

section \<open>The engine on a store\<close>

text \<open>
  The only assignment the engine makes to an object it did not create itself is
  \<open>player.pokemon[index] = value\<close>, into the \<open>pokemon\<close> array of a player. To speak about
  what a call does to the snapshot it was given, those arrays are kept in a store and a
  snapshot refers to them by address: two snapshots share an array when they hold the
  same address. A Pokemon object is never assigned into (the engine replaces the slot
  by a new object), so the arrays hold Pokemon by value. Allocation appends to the
  store.
\<close>

type_synonym Store = "CalcdexPokemon list list"

record PlayerRef =
  ref_activeIndices :: "int list option"
  ref_selectionIndex :: "int option"
  ref_pokemon :: "nat option"

record SnapshotRef =
  ref_p1 :: "PlayerRef option"
  ref_p2 :: "PlayerRef option"
  ref_p3 :: "PlayerRef option"
  ref_p4 :: "PlayerRef option"
  ref_field :: "CalcdexBattleField option"
  ref_format :: "Format option"
  ref_gameType :: string

definition array_at :: "Store \<Rightarrow> nat \<Rightarrow> CalcdexPokemon list" where
  "array_at h a = (if a < length h then h ! a else [])"

text \<open>The value a player or a snapshot has in a store.\<close>

definition read_player :: "Store \<Rightarrow> PlayerRef \<Rightarrow> CalcdexPlayer" where
  "read_player h pl =
     \<lparr> activeIndices = ref_activeIndices pl, selectionIndex = ref_selectionIndex pl,
       pokemon = map_option (array_at h) (ref_pokemon pl) \<rparr>"

definition read_snapshot :: "Store \<Rightarrow> SnapshotRef \<Rightarrow> CalcdexBattleState" where
  "read_snapshot h s =
     \<lparr> p1 = map_option (read_player h) (ref_p1 s), p2 = map_option (read_player h) (ref_p2 s),
       p3 = map_option (read_player h) (ref_p3 s), p4 = map_option (read_player h) (ref_p4 s),
       field = ref_field s, format = ref_format s, gameType = ref_gameType s \<rparr>"

fun ref_player_of :: "SnapshotRef \<Rightarrow> CalcdexPlayerKey \<Rightarrow> PlayerRef option" where
  "ref_player_of s P1 = ref_p1 s"
| "ref_player_of s P2 = ref_p2 s"
| "ref_player_of s P3 = ref_p3 s"
| "ref_player_of s P4 = ref_p4 s"

text \<open>\<open>player.pokemon[index] = value\<close>, in place. As on values, the engine only assigns
  to a slot it has read a Pokemon from.\<close>

definition assign_pokemon :: "Store \<Rightarrow> PlayerRef \<Rightarrow> int \<Rightarrow> CalcdexPokemon \<Rightarrow> Store" where
  "assign_pokemon h pl i v =
     (case ref_pokemon pl of
        None \<Rightarrow> h
      | Some a \<Rightarrow>
          if a < length h \<and> 0 \<le> i \<and> i < int (length (h ! a))
          then h[a := (h ! a)[nat i := v]]
          else h)"

text \<open>Modelled from the spec: \<open>cloneBattleState\<close> is not part of the sources at hand; the
  specification says that it returns a deep copy of the snapshot. Here it allocates a new
  array for the \<open>pokemon\<close> of every player of the snapshot and returns the snapshot that
  refers to the new arrays.\<close>

definition clone_player :: "Store \<Rightarrow> PlayerRef option \<Rightarrow> Store \<times> PlayerRef option" where
  "clone_player h p =
     (case p of
        None \<Rightarrow> (h, None)
      | Some pl \<Rightarrow>
          (case ref_pokemon pl of
             None \<Rightarrow> (h, Some pl)
           | Some a \<Rightarrow> (h @ [array_at h a], Some (pl\<lparr>ref_pokemon := Some (length h)\<rparr>))))"

definition cloneBattleState_store :: "Store \<Rightarrow> SnapshotRef \<Rightarrow> Store \<times> SnapshotRef" where
  "cloneBattleState_store h s =
     (let (h1, q1) = clone_player h (ref_p1 s);
          (h2, q2) = clone_player h1 (ref_p2 s);
          (h3, q3) = clone_player h2 (ref_p3 s);
          (h4, q4) = clone_player h3 (ref_p4 s)
      in (h4, s\<lparr>ref_p1 := q1, ref_p2 := q2, ref_p3 := q3, ref_p4 := q4\<rparr>))"

record EffectResultRef =
  ref_battleState :: SnapshotRef
  ref_targetFainted :: bool
  ref_userFainted :: bool
  ref_description :: "string option"
  ref_errors :: "string list option"

text \<open>The stages again, now assigning through the player object into the store.\<close>

definition damageStage_store ::
  "Store \<Rightarrow> string list \<Rightarrow> PlayerRef \<Rightarrow> int \<Rightarrow> CalcdexPokemon \<Rightarrow> DexMove \<Rightarrow>
   CalcdexMatchupResult option \<Rightarrow> Store \<times> string list \<times> bool" where
  "damageStage_store h parts targetPlayer targetIndex targetPokemon dexMove matchupResult =
     (if category dexMove \<noteq> Status \<and> range_present matchupResult then
        let damage = damage_amount matchupResult
        in if damage > 0 then
             let currentHp = current_hp targetPokemon;
                 newHp = max 0 (currentHp - damage);
                 h' = assign_pokemon h targetPlayer targetIndex
                        (targetPokemon\<lparr>hp := Some newHp, dirtyHp := Some newHp\<rparr>);
                 parts' = parts @ [''It dealt '' @ showInt damage @ '' damage.'']
             in if newHp = 0
                then (h', parts' @ [speciesForme targetPokemon @ '' fainted!''], True)
                else (h', parts', False)
           else (h, parts, False)
      else (h, parts, False))"

definition recoilStage_store ::
  "Store \<Rightarrow> string list \<Rightarrow> PlayerRef \<Rightarrow> int \<Rightarrow> CalcdexPokemon \<Rightarrow> DexMove \<Rightarrow>
   CalcdexMatchupResult option \<Rightarrow> Store \<times> string list \<times> bool" where
  "recoilStage_store h parts userPlayer userIndex userPokemon dexMove matchupResult =
     (case recoil dexMove of
        None \<Rightarrow> (h, parts, False)
      | Some ratio \<Rightarrow>
          let recoilPercent = percent_of ratio
          in if is_positive recoilPercent \<and> range_present matchupResult then
               let damageDealt = damage_amount matchupResult;
                   recoilDamage = amount_of damageDealt recoilPercent;
                   currentHp = current_hp userPokemon;
                   parts' = parts @
                     [speciesForme userPokemon @ '' took '' @ showAmount recoilDamage @ '' recoil damage.'']
               in case health_minus currentHp recoilDamage of
                    None \<Rightarrow> (h, parts', False)
                  | Some newHp \<Rightarrow>
                      let h' = assign_pokemon h userPlayer userIndex
                                 (userPokemon\<lparr>hp := Some newHp, dirtyHp := Some newHp\<rparr>)
                      in if newHp = 0
                         then (h', parts' @ [speciesForme userPokemon @ '' fainted from recoil!''], True)
                         else (h', parts', False)
             else (h, parts, False))"

definition drainStage_store ::
  "Store \<Rightarrow> string list \<Rightarrow> PlayerRef \<Rightarrow> int \<Rightarrow> CalcdexPokemon \<Rightarrow> DexMove \<Rightarrow>
   CalcdexMatchupResult option \<Rightarrow> Store \<times> string list" where
  "drainStage_store h parts userPlayer userIndex userPokemon dexMove matchupResult =
     (case drain dexMove of
        None \<Rightarrow> (h, parts)
      | Some ratio \<Rightarrow>
          let drainPercent = percent_of ratio
          in if is_positive drainPercent \<and> range_present matchupResult then
               let damageDealt = damage_amount matchupResult;
                   healAmount = amount_of damageDealt drainPercent;
                   currentHp = current_hp userPokemon;
                   maxHp = max_hp userPokemon;
                   parts' = parts @
                     [speciesForme userPokemon @ '' restored '' @ showAmount healAmount @ '' HP.'']
               in case health_plus maxHp currentHp healAmount of
                    None \<Rightarrow> (h, parts')
                  | Some newHp \<Rightarrow>
                      (assign_pokemon h userPlayer userIndex
                         (userPokemon\<lparr>hp := Some newHp, dirtyHp := Some newHp\<rparr>), parts')
             else (h, parts))"

definition effect_failure_store :: "SnapshotRef \<Rightarrow> string \<Rightarrow> EffectResultRef" where
  "effect_failure_store s msg =
     \<lparr> ref_battleState = s, ref_targetFainted = False, ref_userFainted = False,
       ref_description = None, ref_errors = Some [msg] \<rparr>"

definition run_stages_store ::
  "Store \<Rightarrow> SnapshotRef \<Rightarrow> PlayerRef \<Rightarrow> int \<Rightarrow> CalcdexPokemon \<Rightarrow> PlayerRef \<Rightarrow> int \<Rightarrow>
   CalcdexPokemon \<Rightarrow> MoveName \<Rightarrow> DexMove \<Rightarrow> CalcdexMatchupResult option \<Rightarrow>
   Store \<times> EffectResultRef" where
  "run_stages_store h newBattleState userPlayer userIndex userPokemon targetPlayer targetIndex
       targetPokemon move dexMove matchupResult =
     (let parts0 = [speciesForme userPokemon @ '' used '' @ move @ ''!''];
          (h1, parts1, targetOut) =
            damageStage_store h parts0 targetPlayer targetIndex targetPokemon dexMove
              matchupResult
      in if targetOut then
           (h1, \<lparr> ref_battleState = newBattleState, ref_targetFainted = True,
                  ref_userFainted = False, ref_description = Some (join_parts parts1),
                  ref_errors = None \<rparr>)
         else
           let (h2, parts2, userOut) =
                 recoilStage_store h1 parts1 userPlayer userIndex userPokemon dexMove
                   matchupResult
           in if userOut then
                (h2, \<lparr> ref_battleState = newBattleState, ref_targetFainted = False,
                       ref_userFainted = True, ref_description = Some (join_parts parts2),
                       ref_errors = None \<rparr>)
              else
                let (h3, parts3) =
                      drainStage_store h2 parts2 userPlayer userIndex userPokemon dexMove
                        matchupResult
                in (h3, \<lparr> ref_battleState = newBattleState, ref_targetFainted = False,
                          ref_userFainted = False, ref_description = Some (join_parts parts3),
                          ref_errors = None \<rparr>))"

definition applyMoveEffects_store ::
  "DexProvider \<Rightarrow> Store \<Rightarrow> SnapshotRef \<Rightarrow> CalcdexPlayerKey \<Rightarrow> CalcdexPlayerKey \<Rightarrow> MoveName \<Rightarrow>
   CalcdexMatchupResult option \<Rightarrow> Format option \<Rightarrow> Store \<times> EffectResultRef" where
  "applyMoveEffects_store getDexForFormat h bs userPlayerKey targetPlayerKey move matchupResult fmt =
     (let (h0, newBattleState) = cloneBattleState_store h bs
      in case (ref_player_of newBattleState userPlayerKey,
               ref_player_of newBattleState targetPlayerKey) of
           (Some userPlayer, Some targetPlayer) \<Rightarrow>
             (let userIndex = active_index (read_player h0 userPlayer);
                  targetIndex = active_index (read_player h0 targetPlayer)
              in case (at_index (pokemon (read_player h0 userPlayer)) userIndex,
                       at_index (pokemon (read_player h0 targetPlayer)) targetIndex) of
                   (Some userPokemon, Some targetPokemon) \<Rightarrow>
                     (case dex_move getDexForFormat fmt move of
                        None \<Rightarrow>
                          (h0, effect_failure_store newBattleState
                                 (''Move '' @ move @ '' not found in dex''))
                      | Some dexMove \<Rightarrow>
                          run_stages_store h0 newBattleState userPlayer userIndex userPokemon
                            targetPlayer targetIndex targetPokemon move dexMove matchupResult)
                 | _ \<Rightarrow> (h0, effect_failure_store newBattleState ''Invalid Pokemon''))
         | _ \<Rightarrow> (h0, effect_failure_store newBattleState ''Invalid player keys''))"

record TurnResultRef =
  ref_turnState :: SnapshotRef
  ref_moveResults :: "PlayAheadMoveResult list"
  ref_turnErrors :: "string list option"

definition run_move_store ::
  "DexProvider \<Rightarrow> MatchupCalc \<Rightarrow> Store \<Rightarrow> SnapshotRef \<Rightarrow> CalcdexPlayerKey \<Rightarrow> CalcdexPlayerKey \<Rightarrow>
   MoveName \<Rightarrow> Format option \<Rightarrow>
   Store \<times> (js_error + (EffectResultRef \<times> CalcdexPokemon option \<times> CalcdexMatchupResult option))" where
  "run_move_store getDexForFormat calcSmogonMatchup h cur userKey targetKey mv fmt =
     (case ref_player_of cur userKey of
        None \<Rightarrow> (h, Inl TypeError)
      | Some moveUser \<Rightarrow>
          (case ref_player_of cur targetKey of
             None \<Rightarrow> (h, Inl TypeError)
           | Some moveTarget \<Rightarrow>
               (let user = read_player h moveUser;
                    target = read_player h moveTarget;
                    moveUserPokemon = at_index (pokemon user) (active_index user);
                    moveTargetPokemon = at_index (pokemon target) (active_index target);
                    matchup =
                      calcSmogonMatchup (format_or fmt (ref_format cur)) (ref_gameType cur)
                        moveUserPokemon moveTargetPokemon mv user target [user, target]
                        (ref_field cur);
                    (h', moveResult) =
                      applyMoveEffects_store getDexForFormat h cur userKey targetKey mv matchup
                        (format_or fmt (ref_format cur))
                in (h', Inr (moveResult, moveUserPokemon, matchup)))))"

definition simulateTurn_store ::
  "DexProvider \<Rightarrow> StatsCalc \<Rightarrow> MatchupCalc \<Rightarrow> rat \<Rightarrow> Store \<Rightarrow> SnapshotRef \<Rightarrow> CalcdexPlayerKey \<Rightarrow>
   CalcdexPlayerKey \<Rightarrow> MoveName \<Rightarrow> MoveName \<Rightarrow> Format option \<Rightarrow>
   Store \<times> (js_error + TurnResultRef)" where
  "simulateTurn_store getDexForFormat calcSpe calcSmogonMatchup rnd h bs plKey oppKey
       plMove oppMove fmt =
     (let (h0, cur) = cloneBattleState_store h bs
      in case (ref_player_of cur plKey, ref_player_of cur oppKey) of
           (Some playerRef, Some opponentRef) \<Rightarrow>
             (let player = read_player h0 playerRef;
                  opponent = read_player h0 opponentRef
              in case (at_index (pokemon player) (active_index player),
                       at_index (pokemon opponent) (active_index opponent)) of
                (Some playerPokemon, Some opponentPokemon) \<Rightarrow>
                  (let moveOrder =
                         determineMoveOrder getDexForFormat calcSpe rnd
                           (format_or fmt (ref_format cur))
                           playerPokemon opponentPokemon plMove oppMove
                           (Some player) (Some opponent) (ref_field cur)
                           (Some [player, opponent])
                   in case run_move_store getDexForFormat calcSmogonMatchup h0 cur
                             (firstPlayerKey moveOrder) (secondPlayerKey moveOrder)
                             (firstMove moveOrder) fmt of
                        (h1, Inl e) \<Rightarrow> (h1, Inl e)
                      | (h1, Inr (firstMoveResult, firstMoveUserPokemon, firstMatchup)) \<Rightarrow>
                          (let cur1 = ref_battleState firstMoveResult;
                               moveResults1 =
                                 [move_result firstMoveUserPokemon (firstMove moveOrder)
                                    (firstPlayerKey moveOrder) firstMatchup True
                                    (firstPriority moveOrder) (firstSpeed moveOrder)];
                               errors1 = nullish (ref_errors firstMoveResult) []
                           in if ref_targetFainted firstMoveResult then
                                (h1, Inr \<lparr> ref_turnState = cur1, ref_moveResults = moveResults1,
                                           ref_turnErrors = errors_or_undefined errors1 \<rparr>)
                              else if ref_userFainted firstMoveResult then
                                (h1, Inr \<lparr> ref_turnState = cur1, ref_moveResults = moveResults1,
                                           ref_turnErrors = errors_or_undefined errors1 \<rparr>)
                              else
                                case run_move_store getDexForFormat calcSmogonMatchup h1 cur1
                                       (secondPlayerKey moveOrder) (firstPlayerKey moveOrder)
                                       (secondMove moveOrder) fmt of
                                  (h2, Inl e) \<Rightarrow> (h2, Inl e)
                                | (h2, Inr (secondMoveResult, secondMoveUserPokemon,
                                            secondMatchup)) \<Rightarrow>
                                    (h2, Inr \<lparr> ref_turnState = ref_battleState secondMoveResult,
                                          ref_moveResults = moveResults1 @
                                            [move_result secondMoveUserPokemon (secondMove moveOrder)
                                               (secondPlayerKey moveOrder) secondMatchup False
                                               (secondPriority moveOrder) (secondSpeed moveOrder)],
                                          ref_turnErrors = errors_or_undefined
                                            (errors1 @ nullish (ref_errors secondMoveResult) []) \<rparr>)))
              | _ \<Rightarrow>
                  (h0, Inr \<lparr> ref_turnState = cur, ref_moveResults = [],
                             ref_turnErrors = Some [''No active Pokemon''] \<rparr>))
         | _ \<Rightarrow>
             (h0, Inr \<lparr> ref_turnState = cur, ref_moveResults = [],
                        ref_turnErrors = Some [''Invalid player keys''] \<rparr>))"

text \<open>A store extends another when it still holds every array of the other, unchanged,
  at its address. \<open>arrays_of\<close> lists the arrays a snapshot refers to; a snapshot lives in
  a store that holds all of them, and it is fresh for a call when all of them were
  allocated during the call.\<close>

definition extends :: "Store \<Rightarrow> Store \<Rightarrow> bool" where
  "extends h h' = (length h \<le> length h' \<and> take (length h) h' = h)"

definition arrays_of :: "SnapshotRef \<Rightarrow> nat list" where
  "arrays_of s =
     concat (map (\<lambda>k. case ref_player_of s k of
                         None \<Rightarrow> []
                       | Some pl \<Rightarrow> (case ref_pokemon pl of None \<Rightarrow> [] | Some a \<Rightarrow> [a]))
                 [P1, P2, P3, P4])"

definition lives_in :: "Store \<Rightarrow> SnapshotRef \<Rightarrow> bool" where
  "lives_in h s = (\<forall>a \<in> set (arrays_of s). a < length h)"

definition fresh_in :: "Store \<Rightarrow> Store \<Rightarrow> SnapshotRef \<Rightarrow> bool" where
  "fresh_in h h' s = (\<forall>a \<in> set (arrays_of s). length h \<le> a \<and> a < length h')"

text \<open>The value of a result in a store.\<close>

definition read_result :: "Store \<Rightarrow> EffectResultRef \<Rightarrow> MoveEffectApplicationResult" where
  "read_result h res =
     \<lparr> battleState = read_snapshot h (ref_battleState res),
       targetFainted = ref_targetFainted res, userFainted = ref_userFainted res,
       description = ref_description res, errors = ref_errors res \<rparr>"

definition read_turn :: "Store \<Rightarrow> TurnResultRef \<Rightarrow> TurnSimulationResult" where
  "read_turn h t =
     \<lparr> ts_battleState = read_snapshot h (ref_turnState t), moveResults = ref_moveResults t,
       ts_errors = ref_turnErrors t \<rparr>"

section \<open>Example data\<close>

text \<open>A small dex, combatants and a speed table for the concrete scenarios.\<close>

definition quick_attack :: DexMove where
  "quick_attack = \<lparr>priority = Some 1, category = Physical, recoil = None, drain = None\<rparr>"

definition earthquake :: DexMove where
  "earthquake = \<lparr>priority = Some 0, category = Physical, recoil = None, drain = None\<rparr>"

definition tackle :: DexMove where
  "tackle = \<lparr>priority = None, category = Physical, recoil = None, drain = None\<rparr>"

definition double_edge :: DexMove where
  "double_edge = \<lparr>priority = Some 0, category = Physical, recoil = Some (1, 3), drain = None\<rparr>"

definition giga_drain :: DexMove where
  "giga_drain = \<lparr>priority = Some 0, category = Special, recoil = None, drain = Some (1, 2)\<rparr>"

definition example_dex :: DexProvider where
  "example_dex f = Some (\<lambda>m.
     if m = ''Quick Attack'' then Some quick_attack
     else if m = ''Earthquake'' then Some earthquake
     else if m = ''Tackle'' then Some tackle
     else if m = ''Double-Edge'' then Some double_edge
     else if m = ''Giga Drain'' then Some giga_drain
     else None)"

text \<open>Two moves that no dex holds but that the type of the metadata allows: a recoil and
  a drain fraction on the same move. And two moves with the fraction 7/10, which is not a
  double.\<close>

definition reckless_drain :: DexMove where
  "reckless_drain = \<lparr>priority = Some 0, category = Physical, recoil = Some (1, 3), drain = Some (1, 2)\<rparr>"

definition all_in_drain :: DexMove where
  "all_in_drain = \<lparr>priority = Some 0, category = Physical, recoil = Some (1, 1), drain = Some (1, 2)\<rparr>"

definition heavy_recoil :: DexMove where
  "heavy_recoil = \<lparr>priority = Some 0, category = Physical, recoil = Some (7, 10), drain = None\<rparr>"

definition heavy_drain :: DexMove where
  "heavy_drain = \<lparr>priority = Some 0, category = Special, recoil = None, drain = Some (7, 10)\<rparr>"

definition mixed_dex :: DexProvider where
  "mixed_dex f = Some (\<lambda>m.
     if m = ''Reckless Drain'' then Some reckless_drain
     else if m = ''All-In Drain'' then Some all_in_drain
     else if m = ''Heavy Recoil'' then Some heavy_recoil
     else if m = ''Heavy Drain'' then Some heavy_drain
     else None)"

definition example_pokemon :: "CalcdexPlayerKey \<Rightarrow> string \<Rightarrow> int \<Rightarrow> int \<Rightarrow> CalcdexPokemon" where
  "example_pokemon k name h m = \<lparr>playerKey = Some k, speciesForme = name, hp = Some h, maxhp = Some m, dirtyHp = None\<rparr>"

definition example_speeds :: "int \<Rightarrow> int \<Rightarrow> StatsCalc" where
  "example_speeds a b fmt pk opp pl1 pl2 fld allp = (if playerKey pk = Some P1 then Some a else Some b)"

definition example_player :: "CalcdexPokemon \<Rightarrow> CalcdexPlayer" where
  "example_player pk = \<lparr>activeIndices = Some [0], selectionIndex = None, pokemon = Some [pk]\<rparr>"

definition example_state :: "CalcdexPokemon \<Rightarrow> CalcdexPokemon \<Rightarrow> CalcdexBattleState" where
  "example_state a b =
     \<lparr>p1 = Some (example_player a), p2 = Some (example_player b), p3 = None, p4 = None,
      field = None, format = None, gameType = ''Singles''\<rparr>"

definition example_matchup :: "int \<Rightarrow> int \<Rightarrow> CalcdexMatchupResult option" where
  "example_matchup low high =
     Some \<lparr>damageRange = Some (Range low high), matchupDescription = None, koChance = None\<rparr>"

definition example_calc :: "int \<Rightarrow> int \<Rightarrow> MatchupCalc" where
  "example_calc low high fmt gt attacker defender mv user target players fld =
     example_matchup low high"

definition example_decision :: PlayAheadPendingDecision where
  "example_decision =
     \<lparr> decisionType = SwitchIn, pd_playerKey = P2, moveName = Some ''U-turn'',
       pd_description = ''Which Pokemon does the opponent switch to?'', metadata = None \<rparr>"

definition example_session ::
  "MoveName option \<Rightarrow> MoveName option \<Rightarrow> PlayAheadMoveResult list \<Rightarrow>
   PlayAheadPendingDecision list \<Rightarrow> PlayAheadState" where
  "example_session pm om rs ds =
     \<lparr> battleId = Some ''battle-1'', active = True, simulatedTurns = 0,
       playerMove = pm, opponentMove = om, simulatedBattleState = None,
       turnResults = Some rs, pendingDecisions = ds, turnHistory = Some [],
       pa_errors = Some [] \<rparr>"

definition example_slice :: "PlayAheadState \<Rightarrow> PlayAheadSliceState" where
  "example_slice pas = Map.empty(''battle-1'' \<mapsto> pas)"

definition example_result :: PlayAheadMoveResult where
  "example_result = move_result None ''Earthquake'' P1 (example_matchup 80 94) True 0 328"

definition example_player_ref :: "nat \<Rightarrow> PlayerRef" where
  "example_player_ref a =
     \<lparr>ref_activeIndices = Some [0], ref_selectionIndex = None, ref_pokemon = Some a\<rparr>"

definition example_snapshot :: SnapshotRef where
  "example_snapshot =
     \<lparr>ref_p1 = Some (example_player_ref 0), ref_p2 = Some (example_player_ref 1),
      ref_p3 = None, ref_p4 = None, ref_field = None, ref_format = None,
      ref_gameType = ''Singles''\<rparr>"

definition example_store :: "CalcdexPokemon \<Rightarrow> CalcdexPokemon \<Rightarrow> Store" where
  "example_store a b = [[a], [b]]"

section \<open>Order resolution\<close>

lemma move_priority_missing:
  "move_priority None m = 0"
  "d m = None \<Longrightarrow> move_priority (Some d) m = 0"
  "d m = Some dm \<Longrightarrow> priority dm = None \<Longrightarrow> move_priority (Some d) m = 0"
  "d m = Some dm \<Longrightarrow> priority dm = Some k \<Longrightarrow> move_priority (Some d) m = k"
  by (simp_all add: move_priority_def nullish_def)

text \<open>
  Claim C3. When the priority brackets of the two moves differ (a move whose priority is
  missing from the metadata counts as priority 0, see \<open>move_priority_missing\<close>), the
  action with the higher priority is ordered first whatever the two effective speeds
  are, the reason is \<open>priority\<close>, and the order decision still records both priorities
  and both effective speeds, each under the side it belongs to.
\<close>

theorem determineMoveOrder_priority:
  fixes getDex :: DexProvider and calcSpe :: StatsCalc
  assumes diff: "move_priority (getDex fmt) m1 \<noteq> move_priority (getDex fmt) m2"
  shows "let r = determineMoveOrder getDex calcSpe rnd fmt pk1 pk2 m1 m2 pl1 pl2 fld allp;
             pr1 = move_priority (getDex fmt) m1;
             pr2 = move_priority (getDex fmt) m2;
             sp1 = nullish (calcSpe fmt pk1 pk2 pl1 pl2 fld allp) 0;
             sp2 = nullish (calcSpe fmt pk2 pk1 pl2 pl1 fld allp) 0;
             k1 = nullish (playerKey pk1) P1;
             k2 = nullish (playerKey pk2) P2
         in reason r = ReasonPriority \<and>
            firstPriority r > secondPriority r \<and>
            (pr1 > pr2 \<longrightarrow>
               firstPlayerKey r = k1 \<and> secondPlayerKey r = k2 \<and>
               firstMove r = m1 \<and> secondMove r = m2 \<and>
               firstPriority r = pr1 \<and> secondPriority r = pr2 \<and>
               firstSpeed r = sp1 \<and> secondSpeed r = sp2) \<and>
            (pr2 > pr1 \<longrightarrow>
               firstPlayerKey r = k2 \<and> secondPlayerKey r = k1 \<and>
               firstMove r = m2 \<and> secondMove r = m1 \<and>
               firstPriority r = pr2 \<and> secondPriority r = pr1 \<and>
               firstSpeed r = sp2 \<and> secondSpeed r = sp1)"
  using diff by (auto simp add: determineMoveOrder_def Let_def)

lemma example_priorities:
  "move_priority (example_dex f) ''Quick Attack'' = 1"
  "move_priority (example_dex f) ''Earthquake'' = 0"
  "move_priority (example_dex f) ''Tackle'' = 0"
  "move_priority (example_dex f) ''Splash'' = 0"
  by (simp_all add: move_priority_def example_dex_def nullish_def quick_attack_def
      earthquake_def tackle_def)

text \<open>The scenario of the specification: a priority +1 move at speed 250 against a
  priority 0 move at speed 400.\<close>

theorem determineMoveOrder_priority_witness:
  "move_priority (example_dex None) ''Quick Attack'' \<noteq> move_priority (example_dex None) ''Earthquake'' \<and>
   (let r = determineMoveOrder example_dex (example_speeds 250 400) 0 None
              (example_pokemon P1 ''Attacker'' 100 100) (example_pokemon P2 ''Defender'' 100 100)
              ''Quick Attack'' ''Earthquake'' None None None None
    in reason r = ReasonPriority \<and> firstPlayerKey r = P1 \<and> firstMove r = ''Quick Attack'' \<and>
       firstPriority r = 1 \<and> secondPriority r = 0 \<and> firstSpeed r = 250 \<and> secondSpeed r = 400)"
  using determineMoveOrder_priority [of example_dex None "''Quick Attack''" "''Earthquake''"
      "example_speeds 250 400" 0 "example_pokemon P1 ''Attacker'' 100 100"
      "example_pokemon P2 ''Defender'' 100 100" None None None None]
  by (simp add: example_priorities Let_def nullish_def example_speeds_def example_pokemon_def)

text \<open>
  Claim C4. When the priorities are equal and the effective speeds differ, the faster
  action is ordered first with reason \<open>speed\<close> if Trick Room (the speed-reversal
  condition of the field) is inactive, and the slower action is ordered first with
  reason \<open>trick-room\<close> if it is active.
\<close>

theorem determineMoveOrder_speed:
  fixes getDex :: DexProvider and calcSpe :: StatsCalc
  assumes tie: "move_priority (getDex fmt) m1 = move_priority (getDex fmt) m2"
    and diff: "nullish (calcSpe fmt pk1 pk2 pl1 pl2 fld allp) 0 \<noteq>
               nullish (calcSpe fmt pk2 pk1 pl2 pl1 fld allp) 0"
  shows "let r = determineMoveOrder getDex calcSpe rnd fmt pk1 pk2 m1 m2 pl1 pl2 fld allp;
             sp1 = nullish (calcSpe fmt pk1 pk2 pl1 pl2 fld allp) 0;
             sp2 = nullish (calcSpe fmt pk2 pk1 pl2 pl1 fld allp) 0;
             k1 = nullish (playerKey pk1) P1;
             k2 = nullish (playerKey pk2) P2;
             p1First = (firstPlayerKey r = k1 \<and> secondPlayerKey r = k2 \<and>
                        firstMove r = m1 \<and> secondMove r = m2);
             p2First = (firstPlayerKey r = k2 \<and> secondPlayerKey r = k1 \<and>
                        firstMove r = m2 \<and> secondMove r = m1)
         in (\<not> trick_room_active fld \<longrightarrow>
               reason r = ReasonSpeed \<and> firstSpeed r > secondSpeed r \<and>
               firstSpeed r = max sp1 sp2 \<and> secondSpeed r = min sp1 sp2 \<and>
               (sp1 > sp2 \<longrightarrow> p1First) \<and> (sp2 > sp1 \<longrightarrow> p2First)) \<and>
            (trick_room_active fld \<longrightarrow>
               reason r = ReasonTrickRoom \<and> firstSpeed r < secondSpeed r \<and>
               firstSpeed r = min sp1 sp2 \<and> secondSpeed r = max sp1 sp2 \<and>
               (sp1 < sp2 \<longrightarrow> p1First) \<and> (sp2 < sp1 \<longrightarrow> p2First))"
  using tie diff by (auto simp add: determineMoveOrder_def Let_def)

text \<open>The scenario of the specification: speeds 328 and 299 at equal priority, without
  and with Trick Room.\<close>

theorem determineMoveOrder_speed_witness:
  "move_priority (example_dex None) ''Earthquake'' = move_priority (example_dex None) ''Tackle'' \<and>
   (let att = example_pokemon P1 ''Attacker'' 100 100;
        def = example_pokemon P2 ''Defender'' 100 100;
        r = determineMoveOrder example_dex (example_speeds 328 299) 0 None att def
              ''Earthquake'' ''Tackle'' None None (Some \<lparr>isTrickRoom = None\<rparr>) None;
        t = determineMoveOrder example_dex (example_speeds 328 299) 0 None att def
              ''Earthquake'' ''Tackle'' None None (Some \<lparr>isTrickRoom = Some True\<rparr>) None
    in reason r = ReasonSpeed \<and> firstPlayerKey r = P1 \<and> firstSpeed r = 328 \<and> secondSpeed r = 299 \<and>
       reason t = ReasonTrickRoom \<and> firstPlayerKey t = P2 \<and> firstSpeed t = 299 \<and> secondSpeed t = 328)"
  using determineMoveOrder_speed [of example_dex None "''Earthquake''" "''Tackle''"
      "example_speeds 328 299" "example_pokemon P1 ''Attacker'' 100 100"
      "example_pokemon P2 ''Defender'' 100 100" None None "Some \<lparr>isTrickRoom = None\<rparr>" None 0]
    determineMoveOrder_speed [of example_dex None "''Earthquake''" "''Tackle''"
      "example_speeds 328 299" "example_pokemon P1 ''Attacker'' 100 100"
      "example_pokemon P2 ''Defender'' 100 100" None None "Some \<lparr>isTrickRoom = Some True\<rparr>" None 0]
  by (simp add: example_priorities Let_def nullish_def example_speeds_def example_pokemon_def
      trick_room_active_def)

text \<open>
  Claim C10. When the priorities are equal and the effective speeds are exactly equal,
  the order is decided by the random draw alone, with reason \<open>random\<close>: the first side
  is the first argument if the draw is below one half and the second argument otherwise.
  The decision is the same record whether or not Trick Room is active; the flag does not
  occur in it.
\<close>

theorem determineMoveOrder_speed_tie:
  fixes getDex :: DexProvider and calcSpe :: StatsCalc
  assumes tie: "move_priority (getDex fmt) m1 = move_priority (getDex fmt) m2"
    and same: "nullish (calcSpe fmt pk1 pk2 pl1 pl2 fld allp) 0 =
               nullish (calcSpe fmt pk2 pk1 pl2 pl1 fld allp) 0"
  shows "determineMoveOrder getDex calcSpe rnd fmt pk1 pk2 m1 m2 pl1 pl2 fld allp =
         (let k1 = nullish (playerKey pk1) P1;
              k2 = nullish (playerKey pk2) P2;
              p1GoesFirst = (rnd < 1 / 2)
          in \<lparr> firstPlayerKey = (if p1GoesFirst then k1 else k2),
               secondPlayerKey = (if p1GoesFirst then k2 else k1),
               firstMove = (if p1GoesFirst then m1 else m2),
               secondMove = (if p1GoesFirst then m2 else m1),
               firstPriority = move_priority (getDex fmt) m1,
               secondPriority = move_priority (getDex fmt) m2,
               firstSpeed = nullish (calcSpe fmt pk1 pk2 pl1 pl2 fld allp) 0,
               secondSpeed = nullish (calcSpe fmt pk2 pk1 pl2 pl1 fld allp) 0,
               reason = ReasonRandom \<rparr>)"
  using tie same by (simp add: determineMoveOrder_def Let_def)

text \<open>A speed tie under Trick Room, for a draw below and a draw above one half.\<close>

theorem determineMoveOrder_speed_tie_witness:
  "trick_room_active (Some \<lparr>isTrickRoom = Some True\<rparr>) \<and>
   (let att = example_pokemon P1 ''Attacker'' 100 100;
        def = example_pokemon P2 ''Defender'' 100 100;
        lo = determineMoveOrder example_dex (example_speeds 300 300) (1 / 4) None att def
              ''Earthquake'' ''Tackle'' None None (Some \<lparr>isTrickRoom = Some True\<rparr>) None;
        hi = determineMoveOrder example_dex (example_speeds 300 300) (3 / 4) None att def
              ''Earthquake'' ''Tackle'' None None (Some \<lparr>isTrickRoom = Some True\<rparr>) None
    in reason lo = ReasonRandom \<and> firstPlayerKey lo = P1 \<and>
       reason hi = ReasonRandom \<and> firstPlayerKey hi = P2)"
  using determineMoveOrder_speed_tie [of example_dex None "''Earthquake''" "''Tackle''"
      "example_speeds 300 300" "example_pokemon P1 ''Attacker'' 100 100"
      "example_pokemon P2 ''Defender'' 100 100" None None "Some \<lparr>isTrickRoom = Some True\<rparr>" None "1 / 4"]
    determineMoveOrder_speed_tie [of example_dex None "''Earthquake''" "''Tackle''"
      "example_speeds 300 300" "example_pokemon P1 ''Attacker'' 100 100"
      "example_pokemon P2 ''Defender'' 100 100" None None "Some \<lparr>isTrickRoom = Some True\<rparr>" None "3 / 4"]
  by (simp add: example_priorities Let_def nullish_def example_speeds_def example_pokemon_def
      trick_room_active_def)


section \<open>Effect application\<close>

subsection \<open>Reading and writing slots of a snapshot\<close>

lemma player_of_set_player:
  "player_of (set_player s k pl) k' = (if k' = k then pl else player_of s k')"
  by (cases k; cases k') simp_all

lemma set_player_frame:
  "field (set_player s k pl) = field s"
  "format (set_player s k pl) = format s"
  "gameType (set_player s k pl) = gameType s"
  by (cases k; simp)+

lemma player_of_set_pokemon_other:
  "k' \<noteq> k \<Longrightarrow> player_of (set_pokemon s k i v) k' = player_of s k'"
  by (simp add: set_pokemon_def player_of_set_player split: option.splits)

lemma player_of_set_pokemon_None:
  "player_of (set_pokemon s k i v) k' = None \<longleftrightarrow> player_of s k' = None"
  by (auto simp add: set_pokemon_def player_of_set_player split: option.splits if_splits)

lemma active_of_SomeD:
  assumes "active_of s k = Some pk"
  obtains pl xs where "player_of s k = Some pl" "pokemon pl = Some xs"
    "0 \<le> active_index pl" "active_index pl < int (length xs)" "xs ! nat (active_index pl) = pk"
  using assms
  by (auto simp add: active_of_def active_pokemon_def at_index_def split: option.splits if_splits)

lemma active_index_pokemon_update:
  "active_index (pl\<lparr>pokemon := x\<rparr>) = active_index pl"
  by (simp add: active_index_def split: option.splits)

lemma index_of_set_pokemon:
  "index_of (set_pokemon s k i v) k' = index_of s k'"
  by (cases "k' = k")
     (auto simp add: index_of_def set_pokemon_def player_of_set_player
       active_index_pokemon_update split: option.splits)

lemma active_of_set_pokemon_other:
  "k' \<noteq> k \<Longrightarrow> active_of (set_pokemon s k i v) k' = active_of s k'"
  by (simp add: active_of_def player_of_set_pokemon_other)

lemma active_of_set_pokemon_same:
  assumes "active_of s k = Some old"
  shows "active_of (set_pokemon s k (index_of s k) v) k = Some v"
proof -
  from assms obtain pl xs where pl: "player_of s k = Some pl" "pokemon pl = Some xs"
    "0 \<le> active_index pl" "active_index pl < int (length xs)"
    by (rule active_of_SomeD)
  then show ?thesis
    by (simp add: active_of_def set_pokemon_def index_of_def player_of_set_player
        active_pokemon_def at_index_def active_index_pokemon_update)
qed

lemma health_of_set_pokemon_same:
  "active_of s k = Some old \<Longrightarrow>
   health_of (set_pokemon s k (index_of s k) (u\<lparr>hp := Some h, dirtyHp := Some h\<rparr>)) k = Some h"
  by (simp add: health_of_def active_of_set_pokemon_same current_hp_def nullish_def)

lemma health_of_set_pokemon_other:
  "k' \<noteq> k \<Longrightarrow> health_of (set_pokemon s k i v) k' = health_of s k'"
  by (simp add: health_of_def active_of_set_pokemon_other)

lemma applies_run_stages:
  assumes "applies gd bs uk tk mv fmt upk tpk dm"
  shows "applyMoveEffects gd bs uk tk mv mu fmt =
         run_stages bs uk (index_of bs uk) upk tk (index_of bs tk) tpk mv dm mu"
proof -
  from assms have u: "active_of bs uk = Some upk" and t: "active_of bs tk = Some tpk"
    and d: "dex_move gd fmt mv = Some dm"
    by (simp_all add: applies_def)
  from u obtain upl where upl: "player_of bs uk = Some upl"
    "at_index (pokemon upl) (active_index upl) = Some upk"
    by (auto simp add: active_of_def active_pokemon_def split: option.splits)
  from t obtain tpl where tpl: "player_of bs tk = Some tpl"
    "at_index (pokemon tpl) (active_index tpl) = Some tpk"
    by (auto simp add: active_of_def active_pokemon_def split: option.splits)
  from upl tpl d show ?thesis
    by (simp add: applyMoveEffects_def cloneBattleState_def index_of_def dex_move_def Let_def)
qed

lemma damage_amount_range:
  "range_of mu = Some (Range low high) \<Longrightarrow> damage_amount mu = (low + high) div 2"
  "range_of mu = Some (Scalar n) \<Longrightarrow> damage_amount mu = n"
proof -
  have "(rat_of_int low + rat_of_int high) / 2 = of_int (low + high) / of_int 2" by simp
  then have "\<lfloor>(rat_of_int low + rat_of_int high) / 2\<rfloor> = (low + high) div 2"
    by (simp only: floor_divide_of_int_eq)
  then show "range_of mu = Some (Range low high) \<Longrightarrow> damage_amount mu = (low + high) div 2"
    by (simp add: damage_amount_def)
  show "range_of mu = Some (Scalar n) \<Longrightarrow> damage_amount mu = n"
    by (simp add: damage_amount_def)
qed

text \<open>Rounding to a double keeps a positive number positive: the significand of the
  result is at least \<open>2^52\<close>.\<close>

lemma binade_le:
  assumes "0 < y"
  shows "power_int 2 (binade y) \<le> y"
proof -
  obtain a b where q: "quotient_of y = (a, b)" by (cases "quotient_of y")
  have b: "0 < b" using q by (rule quotient_of_denom_pos)
  have y: "y = of_int a / of_int b" using q by (rule quotient_of_div)
  have a: "0 < a" using assms b y by (simp add: zero_less_divide_iff)
  let ?k = "bitlen a - bitlen b"
  have la: "1 \<le> bitlen a" using a bitlen_eq_zero_iff [of a] bitlen_nonneg [of a] by linarith
  have lb: "1 \<le> bitlen b" using b bitlen_eq_zero_iff [of b] bitlen_nonneg [of b] by linarith
  have A: "(2::int) ^ nat (bitlen a - 1) \<le> a" using bitlen_bounds [OF a] by simp
  have B: "b < (2::int) ^ nat (bitlen b)" using bitlen_bounds [OF b] by simp
  have A': "(2::rat) ^ nat (bitlen a - 1) \<le> of_int a"
    using A by (metis of_int_le_iff of_int_numeral of_int_power)
  have B': "of_int b \<le> (2::rat) ^ nat (bitlen b)"
    using B by (metis less_imp_le of_int_le_iff of_int_numeral of_int_power)
  have low: "power_int 2 (?k - 1) \<le> y"
  proof -
    have "power_int (2::rat) (?k - 1) = power_int 2 (bitlen a - 1) / power_int 2 (bitlen b)"
      by (simp add: power_int_diff)
    also have "\<dots> = 2 ^ nat (bitlen a - 1) / 2 ^ nat (bitlen b)"
      using la lb by (simp add: power_int_def)
    also have "\<dots> \<le> of_int a / of_int b"
      using A' B' a b by (intro frac_le) auto
    finally show ?thesis using y by simp
  qed
  show ?thesis
    using low q by (simp add: binade_def Let_def)
qed

lemma round_half_even_ge: "\<lfloor>m\<rfloor> \<le> round_half_even m"
  by (simp add: round_half_even_def Let_def)

lemma round_double_pos:
  assumes "0 < x"
  shows "0 < round_double x"
proof -
  let ?u = "power_int (2::rat) (binade x - 52)"
  have u: "0 < ?u" by simp
  have "?u * 2 ^ 52 = power_int 2 (binade x)"
    by (simp add: power_int_diff)
  then have "?u \<le> power_int 2 (binade x)" using u
    by (metis (no_types) mult.right_neutral mult_le_cancel_left_pos one_le_numeral one_le_power)
  then have "?u \<le> x" using binade_le [OF assms] by linarith
  then have "1 \<le> x / ?u" using u by (simp add: le_divide_eq)
  then have "1 \<le> \<lfloor>x / ?u\<rfloor>" by (simp add: le_floor_iff)
  then have "0 < round_half_even (x / ?u)" using round_half_even_ge [of "x / ?u"] by linarith
  then show ?thesis using assms u by (simp add: round_double_def Let_def)
qed

text \<open>The result is a nearest number with a significand of 53 bits: a whole multiple
  \<open>M\<close> of \<open>2^(e-52)\<close> with \<open>2^52 \<le> M \<le> 2^53\<close>, at most half of \<open>2^(e-52)\<close> away.\<close>

lemma binade_less:
  assumes "0 < y"
  shows "y < power_int 2 (binade y + 1)"
proof -
  obtain a b where q: "quotient_of y = (a, b)" by (cases "quotient_of y")
  have b: "0 < b" using q by (rule quotient_of_denom_pos)
  have y: "y = of_int a / of_int b" using q by (rule quotient_of_div)
  have a: "0 < a" using assms b y by (simp add: zero_less_divide_iff)
  let ?k = "bitlen a - bitlen b"
  have la: "1 \<le> bitlen a" using a bitlen_eq_zero_iff [of a] bitlen_nonneg [of a] by linarith
  have lb: "1 \<le> bitlen b" using b bitlen_eq_zero_iff [of b] bitlen_nonneg [of b] by linarith
  have A: "a < (2::int) ^ nat (bitlen a)" using bitlen_bounds [OF a] by simp
  have B: "(2::int) ^ nat (bitlen b - 1) \<le> b" using bitlen_bounds [OF b] by simp
  have A': "of_int a < (2::rat) ^ nat (bitlen a)"
    using A by (metis of_int_less_iff of_int_numeral of_int_power)
  have B': "(2::rat) ^ nat (bitlen b - 1) \<le> of_int b"
    using B by (metis of_int_le_iff of_int_numeral of_int_power)
  have high: "y < power_int 2 (?k + 1)"
  proof -
    have "of_int a / of_int b < (2::rat) ^ nat (bitlen a) / 2 ^ nat (bitlen b - 1)"
      using A' B' a b by (intro frac_less) auto
    also have "\<dots> = power_int 2 (bitlen a) / power_int 2 (bitlen b - 1)"
      using la lb by (simp add: power_int_def)
    also have "\<dots> = power_int (2::rat) (?k + 1)"
      by (simp add: power_int_diff power_int_add)
    finally show ?thesis using y by simp
  qed
  show ?thesis
  proof (cases "power_int 2 ?k \<le> y")
    case True
    with high q show ?thesis by (simp add: binade_def Let_def)
  next
    case False
    with q show ?thesis by (simp add: binade_def Let_def)
  qed
qed

lemma round_half_even_near: "\<bar>of_int (round_half_even m) - m\<bar> \<le> 1 / 2"
proof -
  define r where "r = m - of_int \<lfloor>m\<rfloor>"
  have r: "0 \<le> r" "r < 1" unfolding r_def by linarith+
  have m: "m = of_int \<lfloor>m\<rfloor> + r" unfolding r_def by simp
  consider "r < 1 / 2" | "1 / 2 < r" | "r = 1 / 2" by linarith
  then show ?thesis
  proof cases
    case 1
    then have "round_half_even m = \<lfloor>m\<rfloor>"
      by (simp add: round_half_even_def Let_def r_def)
    then have "of_int (round_half_even m) - m = - r" unfolding r_def by simp
    with 1 r show ?thesis by simp
  next
    case 2
    then have "round_half_even m = \<lfloor>m\<rfloor> + 1"
      by (simp add: round_half_even_def Let_def r_def)
    then have "of_int (round_half_even m) - m = 1 - r" unfolding r_def by simp
    with 2 r show ?thesis by simp
  next
    case 3
    then have "round_half_even m = \<lfloor>m\<rfloor> \<or> round_half_even m = \<lfloor>m\<rfloor> + 1"
      by (simp add: round_half_even_def Let_def r_def)
    then have "of_int (round_half_even m) - m = - r \<or> of_int (round_half_even m) - m = 1 - r"
      unfolding r_def by auto
    with 3 show ?thesis by auto
  qed
qed

lemma round_double_near:
  assumes "0 < x"
  shows "\<exists>M. round_double x = of_int M * power_int 2 (binade x - 52) \<and>
             2 ^ 52 \<le> M \<and> M \<le> 2 ^ 53 \<and>
             \<bar>round_double x - x\<bar> \<le> power_int 2 (binade x - 52) / 2"
proof -
  let ?u = "power_int (2::rat) (binade x - 52)"
  let ?M = "round_half_even (x / ?u)"
  have u: "0 < ?u" by simp
  have rd: "round_double x = of_int ?M * ?u"
    using assms by (simp add: round_double_def Let_def)
  have e: "?u * 2 ^ 52 = power_int 2 (binade x)" by (simp add: power_int_diff)
  have e': "?u * 2 ^ 53 = power_int 2 (binade x + 1)" by (simp add: power_int_diff power_int_add)
  have lo: "2 ^ 52 \<le> x / ?u"
    using binade_le [OF assms] e u by (simp add: le_divide_eq mult.commute)
  have hi: "x / ?u < 2 ^ 53"
    using binade_less [OF assms] e' u by (simp add: divide_less_eq mult.commute)
  have near: "\<bar>of_int ?M - x / ?u\<bar> \<le> 1 / 2" by (rule round_half_even_near)
  have M1: "2 ^ 52 \<le> ?M"
  proof -
    have "(2::int) ^ 52 \<le> \<lfloor>x / ?u\<rfloor>" using lo by (simp add: le_floor_iff)
    then show ?thesis using round_half_even_ge [of "x / ?u"] by linarith
  qed
  have M2: "?M \<le> 2 ^ 53"
  proof -
    have "\<lfloor>x / ?u\<rfloor> < (2::int) ^ 53" using hi by (simp add: floor_less_iff)
    moreover have "round_half_even (x / ?u) \<le> \<lfloor>x / ?u\<rfloor> + 1"
      by (simp add: round_half_even_def Let_def)
    ultimately show ?thesis by linarith
  qed
  have "of_int ?M * ?u - x = (of_int ?M - x / ?u) * ?u"
    using u by (simp add: field_simps)
  then have "\<bar>of_int ?M * ?u - x\<bar> = \<bar>of_int ?M - x / ?u\<bar> * ?u"
    using u by (simp add: abs_mult abs_of_pos)
  also have "\<dots> \<le> (1 / 2) * ?u" using near u by (intro mult_right_mono) simp_all
  finally have "\<bar>round_double x - x\<bar> \<le> ?u / 2" by (simp add: rd)
  with rd M1 M2 show ?thesis by blast
qed

lemma fraction_pos: "0 < n \<Longrightarrow> 0 < d \<Longrightarrow> 0 < fraction (n, d)"
  by (simp add: fraction_def round_double_pos)

lemma percent_of_pos:
  "0 < n \<Longrightarrow> 0 < d \<Longrightarrow> percent_of (n, d) = Finite (fraction (n, d))"
  by (simp add: percent_of_def)

text \<open>The doubles of the scenarios below. One third and one half of 90 are the 30 and 45
  of exact arithmetic. The double nearest to 1/10 is \<open>3602879701896397 / 2^55\<close>. The double
  nearest to 7/10 lies below it, the product with 90 is rounded to the double just below
  63, and \<open>Math.floor\<close> gives 62 where the exact product is 63.\<close>

lemma fraction_examples:
  "0 < fraction (1, 3)" "0 < fraction (1, 2)" "0 < fraction (1, 1)" "0 < fraction (7, 10)"
  by code_simp+

lemma fraction_doubles:
  "fraction (1, 2) = 1 / 2" "fraction (1, 1) = 1"
  "fraction (1, 10) = 3602879701896397 / 36028797018963968"
  "fraction (7, 10) < 7 / 10"
  by code_simp+

lemma scaled_amount_examples:
  "scaled_amount 90 (fraction (1, 3)) = 30"
  "scaled_amount 90 (fraction (1, 2)) = 45"
  "scaled_amount 90 (fraction (1, 1)) = 90"
  "scaled_amount 90 (fraction (7, 10)) = 62"
  "\<lfloor>(90 :: rat) * (7 / 10)\<rfloor> = 63"
  by code_simp+

text \<open>What each stage computes.\<close>

lemma damageStage_hit:
  assumes "category dm \<noteq> Status" "range_present mu" "0 < damage_amount mu"
  shows "fst (damageStage s parts tk ti tpk dm mu) =
           set_pokemon s tk ti (tpk\<lparr>hp := Some (max 0 (current_hp tpk - damage_amount mu)),
                                    dirtyHp := Some (max 0 (current_hp tpk - damage_amount mu))\<rparr>)"
    and "snd (snd (damageStage s parts tk ti tpk dm mu)) \<longleftrightarrow>
           max 0 (current_hp tpk - damage_amount mu) = 0"
  using assms by (auto simp add: damageStage_def Let_def max_def)

lemma damageStage_skip:
  assumes "category dm = Status \<or> \<not> range_present mu \<or> damage_amount mu \<le> 0"
  shows "damageStage s parts tk ti tpk dm mu = (s, parts, False)"
  using assms by (auto simp add: damageStage_def Let_def)

lemma recoilStage_other:
  "recoilStage s parts uk ui upk dm mu = (s', parts', out) \<Longrightarrow> k \<noteq> uk \<Longrightarrow>
   active_of s' k = active_of s k"
  by (auto simp add: recoilStage_def Let_def active_of_set_pokemon_other
      split: option.splits if_splits)

lemma drainStage_other:
  "drainStage s parts uk ui upk dm mu = (s', parts') \<Longrightarrow> k \<noteq> uk \<Longrightarrow>
   active_of s' k = active_of s k"
  by (auto simp add: drainStage_def Let_def active_of_set_pokemon_other
      split: option.splits if_splits)

lemma run_stages_target:
  assumes "uk \<noteq> tk"
  shows "active_of (battleState (run_stages s uk ui upk tk ti tpk mv dm mu)) tk =
         active_of (fst (damageStage s [speciesForme upk @ '' used '' @ mv @ ''!''] tk ti tpk dm mu)) tk"
    and "targetFainted (run_stages s uk ui upk tk ti tpk mv dm mu) =
         snd (snd (damageStage s [speciesForme upk @ '' used '' @ mv @ ''!''] tk ti tpk dm mu))"
  using assms
  by (auto simp add: run_stages_def Let_def split: prod.splits
      dest!: recoilStage_other [where k = tk] drainStage_other [where k = tk])

lemma recoilStage_none: "recoil dm = None \<Longrightarrow> recoilStage s parts uk ui upk dm mu = (s, parts, False)"
  by (simp add: recoilStage_def)

lemma drainStage_none: "drain dm = None \<Longrightarrow> drainStage s parts uk ui upk dm mu = (s, parts)"
  by (simp add: drainStage_def)

lemma recoilStage_applied:
  assumes "recoil dm = Some (n, d)" "0 < n" "0 < d" "range_present mu"
  shows "fst (recoilStage s parts uk ui upk dm mu) =
           set_pokemon s uk ui
             (upk\<lparr>hp := Some (max 0 (current_hp upk - scaled_amount (damage_amount mu) (fraction (n, d)))),
                  dirtyHp := Some (max 0 (current_hp upk - scaled_amount (damage_amount mu) (fraction (n, d))))\<rparr>)"
    and "snd (snd (recoilStage s parts uk ui upk dm mu)) \<longleftrightarrow>
           max 0 (current_hp upk - scaled_amount (damage_amount mu) (fraction (n, d))) = 0"
  using assms fraction_pos [of n d]
  by (auto simp add: recoilStage_def percent_of_pos Let_def max_def)


lemma damageStage_survive:
  assumes "category dm \<noteq> Status" "range_present mu" "0 < damage_amount mu"
    "damage_amount mu < current_hp tpk"
  shows "damageStage s parts tk ti tpk dm mu =
           (set_pokemon s tk ti (tpk\<lparr>hp := Some (current_hp tpk - damage_amount mu),
                                      dirtyHp := Some (current_hp tpk - damage_amount mu)\<rparr>),
            parts @ [''It dealt '' @ showInt (damage_amount mu) @ '' damage.''], False)"
  using assms by (simp add: damageStage_def Let_def max_def)

lemma damageStage_knockout:
  assumes "category dm \<noteq> Status" "range_present mu" "0 < damage_amount mu"
    "current_hp tpk \<le> damage_amount mu"
  shows "damageStage s parts tk ti tpk dm mu =
           (set_pokemon s tk ti (tpk\<lparr>hp := Some 0, dirtyHp := Some 0\<rparr>),
            parts @ [''It dealt '' @ showInt (damage_amount mu) @ '' damage.'',
                     speciesForme tpk @ '' fainted!''], True)"
  using assms by (simp add: damageStage_def Let_def max_def)



text \<open>A denominator 0: the recoil is infinite and removes the actor whatever its health,
  the drain is infinite and fills the actor up to its maximum.\<close>

lemma recoilStage_infinite:
  assumes "recoil dm = Some (n, 0)" "0 < n" "range_present mu" "0 < damage_amount mu"
  shows "recoilStage s parts uk ui upk dm mu =
           (set_pokemon s uk ui (upk\<lparr>hp := Some 0, dirtyHp := Some 0\<rparr>),
            parts @ [speciesForme upk @ '' took Infinity recoil damage.'',
                     speciesForme upk @ '' fainted from recoil!''], True)"
    and "recoil_removes_actor dm mu upk"
  using assms by (simp_all add: recoilStage_def recoil_removes_actor_def percent_of_def Let_def)

lemma drainStage_infinite:
  assumes "drain dm = Some (n, 0)" "0 < n" "range_present mu" "0 < damage_amount mu"
  shows "drainStage s parts uk ui upk dm mu =
           (set_pokemon s uk ui (upk\<lparr>hp := Some (max_hp upk), dirtyHp := Some (max_hp upk)\<rparr>),
            parts @ [speciesForme upk @ '' restored Infinity HP.''])"
  using assms by (simp add: drainStage_def percent_of_def Let_def)

lemmas example_defs =
  example_state_def example_player_def example_pokemon_def example_matchup_def example_dex_def
  quick_attack_def earthquake_def tackle_def double_edge_def giga_drain_def
  mixed_dex_def reckless_drain_def all_in_drain_def heavy_recoil_def heavy_drain_def

lemmas engine_defs =
  applies_def active_of_def active_pokemon_def active_index_def at_index_def nullish_def
  dex_move_def health_of_def current_hp_def max_hp_def range_present_def range_of_def
  damage_amount_def applyMoveEffects_def cloneBattleState_def run_stages_def damageStage_def
  recoilStage_def drainStage_def set_pokemon_def percent_of_def fraction_examples
  scaled_amount_examples effect_failure_def index_of_def recoil_removes_actor_def

subsection \<open>The damage stage\<close>

text \<open>
  Claim C5, amended. For an application of a damaging move (category other than
  \<open>Status\<close>) by one side against the other with a damage range \<open>[low, high]\<close> or a
  non-zero number present, the amount is \<open>floor((low + high) / 2)\<close> for a range and the
  number itself otherwise. When the amount is positive, the target's health in the
  returned snapshot is \<open>max(0, current health - amount)\<close> and \<open>targetFainted\<close> is reported
  exactly when that is 0. When the amount is not positive the stage is skipped: the
  target's health is unchanged and \<open>targetFainted\<close> is false.
\<close>

theorem applyMoveEffects_damage:
  assumes ctx: "applies gd bs uk tk mv fmt upk tpk dm"
    and damaging: "category dm \<noteq> Status"
    and present: "range_present mu"
    and sides: "uk \<noteq> tk"
  shows "let D = damage_amount mu;
             h = current_hp tpk;
             res = applyMoveEffects gd bs uk tk mv mu fmt
         in (\<forall>low high. range_of mu = Some (Range low high) \<longrightarrow> D = (low + high) div 2) \<and>
            (\<forall>n. range_of mu = Some (Scalar n) \<longrightarrow> D = n) \<and>
            (0 < D \<longrightarrow> health_of (battleState res) tk = Some (max 0 (h - D)) \<and>
                       (targetFainted res \<longleftrightarrow> max 0 (h - D) = 0)) \<and>
            (D \<le> 0 \<longrightarrow> health_of (battleState res) tk = Some h \<and> \<not> targetFainted res)"
proof -
  let ?res = "applyMoveEffects gd bs uk tk mv mu fmt"
  let ?D = "damage_amount mu"
  let ?h = "current_hp tpk"
  let ?parts = "[speciesForme upk @ '' used '' @ mv @ ''!'']"
  from ctx have t: "active_of bs tk = Some tpk" by (simp add: applies_def)
  have res: "?res = run_stages bs uk (index_of bs uk) upk tk (index_of bs tk) tpk mv dm mu"
    using ctx by (rule applies_run_stages)
  have act: "active_of (battleState ?res) tk =
             active_of (fst (damageStage bs ?parts tk (index_of bs tk) tpk dm mu)) tk"
    and out: "targetFainted ?res =
              snd (snd (damageStage bs ?parts tk (index_of bs tk) tpk dm mu))"
    unfolding res using sides by (rule run_stages_target)+
  have hit: "health_of (battleState ?res) tk = Some (max 0 (?h - ?D)) \<and>
             (targetFainted ?res \<longleftrightarrow> max 0 (?h - ?D) = 0)" if "0 < ?D"
  proof -
    from damaging present that
    have "fst (damageStage bs ?parts tk (index_of bs tk) tpk dm mu) =
            set_pokemon bs tk (index_of bs tk)
              (tpk\<lparr>hp := Some (max 0 (?h - ?D)), dirtyHp := Some (max 0 (?h - ?D))\<rparr>)"
      and "snd (snd (damageStage bs ?parts tk (index_of bs tk) tpk dm mu)) \<longleftrightarrow>
            max 0 (?h - ?D) = 0"
      by (rule damageStage_hit)+
    with act out t show ?thesis
      by (simp add: health_of_def active_of_set_pokemon_same current_hp_def nullish_def)
  qed
  have skip: "health_of (battleState ?res) tk = Some ?h \<and> \<not> targetFainted ?res" if "?D \<le> 0"
  proof -
    from that have "damageStage bs ?parts tk (index_of bs tk) tpk dm mu = (bs, ?parts, False)"
      by (simp add: damageStage_skip)
    with act out t show ?thesis by (simp add: health_of_def)
  qed
  from hit skip show ?thesis
    by (simp add: Let_def damage_amount_range)
qed


text \<open>The scenario of the specification: a target at 100/100 takes the midpoint 87 and
  is left at 13; it takes the midpoint 105 and is left at 0, removed.\<close>

theorem applyMoveEffects_damage_witness:
  "(let att = example_pokemon P1 ''Attacker'' 100 100;
        def = example_pokemon P2 ''Defender'' 100 100;
        light = applyMoveEffects example_dex (example_state att def) P1 P2 ''Earthquake''
                  (example_matchup 80 94) None;
        heavy = applyMoveEffects example_dex (example_state att def) P1 P2 ''Earthquake''
                  (example_matchup 100 110) None
    in applies example_dex (example_state att def) P1 P2 ''Earthquake'' None att def earthquake \<and>
       category earthquake \<noteq> Status \<and> range_present (example_matchup 80 94) \<and>
       damage_amount (example_matchup 80 94) = 87 \<and>
       health_of (battleState light) P2 = Some 13 \<and> \<not> targetFainted light \<and>
       damage_amount (example_matchup 100 110) = 105 \<and>
       health_of (battleState heavy) P2 = Some 0 \<and> targetFainted heavy)"
  using applyMoveEffects_damage [of example_dex
      "example_state (example_pokemon P1 ''Attacker'' 100 100) (example_pokemon P2 ''Defender'' 100 100)"
      P1 P2 "''Earthquake''" None "example_pokemon P1 ''Attacker'' 100 100"
      "example_pokemon P2 ''Defender'' 100 100" earthquake "example_matchup 80 94"]
    applyMoveEffects_damage [of example_dex
      "example_state (example_pokemon P1 ''Attacker'' 100 100) (example_pokemon P2 ''Defender'' 100 100)"
      P1 P2 "''Earthquake''" None "example_pokemon P1 ''Attacker'' 100 100"
      "example_pokemon P2 ''Defender'' 100 100" earthquake "example_matchup 100 110"]
  by (simp add: example_defs engine_defs Let_def)

text \<open>The claim as first stated fails where no damage is applied: a target that is
  already at zero health and takes the range \<open>[0, 0]\<close> has the new health
  \<open>max(0, 0 - 0) = 0\<close>, and \<open>targetFainted\<close> is false.\<close>

theorem applyMoveEffects_zero_damage_counterexample:
  "category earthquake \<noteq> Status \<and>
   range_present (example_matchup 0 0) \<and>
   health_of (example_state (example_pokemon P1 ''Attacker'' 100 100)
                (example_pokemon P2 ''Defender'' 0 100)) P2 = Some 0 \<and>
   damage_amount (example_matchup 0 0) = 0 \<and>
   health_of (battleState (applyMoveEffects example_dex
       (example_state (example_pokemon P1 ''Attacker'' 100 100)
          (example_pokemon P2 ''Defender'' 0 100))
       P1 P2 ''Earthquake'' (example_matchup 0 0) None)) P2 = Some 0 \<and>
   max 0 (0 - 0) = (0::int) \<and>
   \<not> targetFainted (applyMoveEffects example_dex
       (example_state (example_pokemon P1 ''Attacker'' 100 100)
          (example_pokemon P2 ''Defender'' 0 100))
       P1 P2 ''Earthquake'' (example_matchup 0 0) None)"
  by (simp add: example_defs engine_defs Let_def)

subsection \<open>Knocking the target out\<close>

text \<open>
  Claim C6, amended. When the damage stage brings the target's health to zero, the call
  returns at once with \<open>targetFainted\<close> true and \<open>userFainted\<close> false. The returned snapshot
  is the input with the target's slot at health 0 and nothing else changed: the actor's
  Pokemon is the one of the input, so neither the recoil nor the drain stage has
  been applied.
\<close>

theorem applyMoveEffects_knockout:
  assumes ctx: "applies gd bs uk tk mv fmt upk tpk dm"
    and damaging: "category dm \<noteq> Status"
    and present: "range_present mu"
    and dealt: "0 < damage_amount mu"
    and zero: "current_hp tpk \<le> damage_amount mu"
    and sides: "uk \<noteq> tk"
  shows "let res = applyMoveEffects gd bs uk tk mv mu fmt
         in targetFainted res \<and> \<not> userFainted res \<and>
            battleState res =
              set_pokemon bs tk (index_of bs tk) (tpk\<lparr>hp := Some 0, dirtyHp := Some 0\<rparr>) \<and>
            health_of (battleState res) tk = Some 0 \<and>
            active_of (battleState res) uk = Some upk"
proof -
  from ctx have u: "active_of bs uk = Some upk" and t: "active_of bs tk = Some tpk"
    by (simp_all add: applies_def)
  have "applyMoveEffects gd bs uk tk mv mu fmt =
        run_stages bs uk (index_of bs uk) upk tk (index_of bs tk) tpk mv dm mu"
    using ctx by (rule applies_run_stages)
  with damaging present dealt zero u t sides show ?thesis
    by (simp add: run_stages_def damageStage_knockout Let_def health_of_set_pokemon_same
        active_of_set_pokemon_other)
qed


text \<open>Double-Edge (recoil 1/3) dealing 90 to a target at 50: the target is removed and the
  actor is still the Pokemon of the input.\<close>

theorem applyMoveEffects_knockout_witness:
  "(let att = example_pokemon P1 ''Attacker'' 150 150;
        def = example_pokemon P2 ''Defender'' 50 100;
        res = applyMoveEffects example_dex (example_state att def) P1 P2 ''Double-Edge''
                (example_matchup 85 95) None
    in applies example_dex (example_state att def) P1 P2 ''Double-Edge'' None att def double_edge \<and>
       0 < damage_amount (example_matchup 85 95) \<and>
       current_hp def \<le> damage_amount (example_matchup 85 95) \<and>
       targetFainted res \<and> \<not> userFainted res \<and>
       health_of (battleState res) P2 = Some 0 \<and> active_of (battleState res) P1 = Some att)"
  using applyMoveEffects_knockout [of example_dex
      "example_state (example_pokemon P1 ''Attacker'' 150 150) (example_pokemon P2 ''Defender'' 50 100)"
      P1 P2 "''Double-Edge''" None "example_pokemon P1 ''Attacker'' 150 150"
      "example_pokemon P2 ''Defender'' 50 100" double_edge "example_matchup 85 95"]
  by (simp add: example_defs engine_defs Let_def)

text \<open>The claim as first stated fails: after a knock-out by Double-Edge the actor at 150
  has not taken the recoil of 30, and after a knock-out by Giga Drain the actor at
  100/150 has not received the 45 of the drain.\<close>

theorem applyMoveEffects_knockout_counterexample:
  "recoil double_edge = Some (1, 3) \<and>
   scaled_amount (damage_amount (example_matchup 85 95)) (fraction (1, 3)) = 30 \<and>
   targetFainted (applyMoveEffects example_dex
       (example_state (example_pokemon P1 ''Attacker'' 150 150)
          (example_pokemon P2 ''Defender'' 50 100))
       P1 P2 ''Double-Edge'' (example_matchup 85 95) None) \<and>
   health_of (battleState (applyMoveEffects example_dex
       (example_state (example_pokemon P1 ''Attacker'' 150 150)
          (example_pokemon P2 ''Defender'' 50 100))
       P1 P2 ''Double-Edge'' (example_matchup 85 95) None)) P1 = Some 150 \<and>
   drain giga_drain = Some (1, 2) \<and>
   scaled_amount (damage_amount (example_matchup 85 95)) (fraction (1, 2)) = 45 \<and>
   targetFainted (applyMoveEffects example_dex
       (example_state (example_pokemon P1 ''Attacker'' 100 150)
          (example_pokemon P2 ''Defender'' 50 100))
       P1 P2 ''Giga Drain'' (example_matchup 85 95) None) \<and>
   health_of (battleState (applyMoveEffects example_dex
       (example_state (example_pokemon P1 ''Attacker'' 100 150)
          (example_pokemon P2 ''Defender'' 50 100))
       P1 P2 ''Giga Drain'' (example_matchup 85 95) None)) P1 = Some 100"
  by (simp add: example_defs engine_defs Let_def)

subsection \<open>The recoil stage\<close>

text \<open>
  Claim C7, amended. For a move with a declared recoil fraction \<open>n/d\<close> (\<open>n, d > 0\<close>) that
  deals damage \<open>D > 0\<close> without removing the target, the recoil stage leaves the actor at
  \<open>max(0, health - r)\<close>, where the health is the actor's health at the start of the call
  and \<open>r = max(1, floor(D * (n/d)))\<close> with the quotient and the product each rounded to a
  double, as the engine computes them. If that is zero, \<open>userFainted\<close> is reported and the
  returned snapshot is the one the recoil stage produced, whatever the move declares as
  drain: no later stage has run. If the actor survives, \<open>userFainted\<close> is false, and for a
  move without a drain fraction the returned snapshot is again the one of the recoil
  stage.
\<close>

theorem applyMoveEffects_recoil:
  assumes ctx: "applies gd bs uk tk mv fmt upk tpk dm"
    and damaging: "category dm \<noteq> Status"
    and present: "range_present mu"
    and dealt: "0 < damage_amount mu"
    and survives: "damage_amount mu < current_hp tpk"
    and declared: "recoil dm = Some (n, d)" "0 < n" "0 < d"
  shows "let D = damage_amount mu;
             r = scaled_amount D (fraction (n, d));
             new = max 0 (current_hp upk - r);
             res = applyMoveEffects gd bs uk tk mv mu fmt;
             s1 = set_pokemon bs tk (index_of bs tk)
                    (tpk\<lparr>hp := Some (current_hp tpk - D), dirtyHp := Some (current_hp tpk - D)\<rparr>);
             s2 = set_pokemon s1 uk (index_of bs uk) (upk\<lparr>hp := Some new, dirtyHp := Some new\<rparr>)
         in 1 \<le> r \<and>
            fst (recoilStage s1 parts uk (index_of bs uk) upk dm mu) = s2 \<and>
            health_of s2 uk = Some new \<and>
            \<not> targetFainted res \<and>
            (new = 0 \<longrightarrow> userFainted res \<and> battleState res = s2) \<and>
            (0 < new \<longrightarrow> \<not> userFainted res \<and> (drain dm = None \<longrightarrow> battleState res = s2))"
proof -
  let ?D = "damage_amount mu"
  let ?amount = "scaled_amount ?D (fraction (n, d))"
  let ?new = "max 0 (current_hp upk - ?amount)"
  let ?s1 = "set_pokemon bs tk (index_of bs tk)
               (tpk\<lparr>hp := Some (current_hp tpk - ?D), dirtyHp := Some (current_hp tpk - ?D)\<rparr>)"
  let ?s2 = "set_pokemon ?s1 uk (index_of bs uk) (upk\<lparr>hp := Some ?new, dirtyHp := Some ?new\<rparr>)"
  let ?res = "applyMoveEffects gd bs uk tk mv mu fmt"
  from ctx have u: "active_of bs uk = Some upk" and t: "active_of bs tk = Some tpk"
    by (simp_all add: applies_def)
  have res: "?res = run_stages bs uk (index_of bs uk) upk tk (index_of bs tk) tpk mv dm mu"
    using ctx by (rule applies_run_stages)
  have stage: "fst (recoilStage s p uk (index_of bs uk) upk dm mu) =
      set_pokemon s uk (index_of bs uk) (upk\<lparr>hp := Some ?new, dirtyHp := Some ?new\<rparr>)"
    and flag: "snd (snd (recoilStage s p uk (index_of bs uk) upk dm mu)) \<longleftrightarrow> ?new = 0" for s p
    using declared present by (rule recoilStage_applied)+
  have "\<exists>old. active_of ?s1 uk = Some old"
  proof (cases "uk = tk")
    case True
    with t show ?thesis by (simp add: active_of_set_pokemon_same)
  next
    case False
    with u show ?thesis by (simp add: active_of_set_pokemon_other)
  qed
  then obtain old where "active_of ?s1 uk = Some old" ..
  then have health: "health_of ?s2 uk = Some ?new"
    using health_of_set_pokemon_same [where s = ?s1 and k = uk and old = old and u = upk and h = ?new]
    by (simp add: index_of_set_pokemon)
  let ?p0 = "[speciesForme upk @ '' used '' @ mv @ ''!'']"
  let ?p1 = "?p0 @ [''It dealt '' @ showInt ?D @ '' damage.'']"
  have ds: "damageStage bs ?p0 tk (index_of bs tk) tpk dm mu = (?s1, ?p1, False)"
    using damaging present dealt survives by (rule damageStage_survive)
  obtain s2 p2 out where rs: "recoilStage ?s1 ?p1 uk (index_of bs uk) upk dm mu = (s2, p2, out)"
    by (cases "recoilStage ?s1 ?p1 uk (index_of bs uk) upk dm mu") blast
  with stage [of ?s1 ?p1] flag [of ?s1 ?p1] have s2: "s2 = ?s2" and out: "out \<longleftrightarrow> ?new = 0"
    by simp_all
  have final: "\<not> targetFainted ?res \<and> (?new = 0 \<longrightarrow> userFainted ?res \<and> battleState ?res = ?s2) \<and>
      (0 < ?new \<longrightarrow> \<not> userFainted ?res \<and> (drain dm = None \<longrightarrow> battleState ?res = ?s2))"
  proof -
    have "?res =
      (if out then
         \<lparr> battleState = s2, targetFainted = False, userFainted = True,
           description = Some (join_parts p2), errors = None \<rparr>
       else
         case drainStage s2 p2 uk (index_of bs uk) upk dm mu of
           (s3, parts3) \<Rightarrow>
             \<lparr> battleState = s3, targetFainted = False, userFainted = False,
               description = Some (join_parts parts3), errors = None \<rparr>)"
      by (simp only: res run_stages_def Let_def ds rs prod.case if_False)
    with s2 out show ?thesis
      by (auto simp add: drainStage_none split: prod.splits)
  qed
  have least: "1 \<le> ?amount" by (simp add: scaled_amount_def)
  from least stage [of ?s1 parts] health final show ?thesis
    unfolding Let_def by blast
qed


text \<open>The scenario of the specification: an actor at 150/150 deals 90 with a recoil of
  1/3 and ends at 120; an actor at 20 is removed by the same recoil.\<close>

theorem applyMoveEffects_recoil_witness:
  "(let att = example_pokemon P1 ''Attacker'' 150 150;
        weak = example_pokemon P1 ''Attacker'' 20 150;
        def = example_pokemon P2 ''Defender'' 100 100;
        res = applyMoveEffects example_dex (example_state att def) P1 P2 ''Double-Edge''
                (example_matchup 85 95) None;
        out = applyMoveEffects example_dex (example_state weak def) P1 P2 ''Double-Edge''
                (example_matchup 85 95) None
    in applies example_dex (example_state att def) P1 P2 ''Double-Edge'' None att def double_edge \<and>
       applies example_dex (example_state weak def) P1 P2 ''Double-Edge'' None weak def double_edge \<and>
       damage_amount (example_matchup 85 95) = 90 \<and>
       damage_amount (example_matchup 85 95) < current_hp def \<and>
       recoil double_edge = Some (1, 3) \<and>
       scaled_amount 90 (fraction (1, 3)) = 30 \<and>
       health_of (battleState res) P1 = Some 120 \<and> health_of (battleState res) P2 = Some 10 \<and>
       \<not> userFainted res \<and> \<not> targetFainted res \<and>
       health_of (battleState out) P1 = Some 0 \<and> userFainted out \<and> \<not> targetFainted out)"
  using applyMoveEffects_recoil [of example_dex
      "example_state (example_pokemon P1 ''Attacker'' 150 150) (example_pokemon P2 ''Defender'' 100 100)"
      P1 P2 "''Double-Edge''" None "example_pokemon P1 ''Attacker'' 150 150"
      "example_pokemon P2 ''Defender'' 100 100" double_edge "example_matchup 85 95" 1 3 "[]"]
    applyMoveEffects_recoil [of example_dex
      "example_state (example_pokemon P1 ''Attacker'' 20 150) (example_pokemon P2 ''Defender'' 100 100)"
      P1 P2 "''Double-Edge''" None "example_pokemon P1 ''Attacker'' 20 150"
      "example_pokemon P2 ''Defender'' 100 100" double_edge "example_matchup 85 95" 1 3 "[]"]
  by (simp add: example_defs engine_defs Let_def)

text \<open>The claim as first stated fails in two ways. A move that declares a drain as well as
  a recoil: the actor at 100/150 deals 90 and survives the recoil of 30, but the drain
  stage starts from the health read before the recoil and the returned snapshot has the
  actor at 145, not at 70. And a recoil of 7/10 on a damage of 90: the doubles give a
  recoil of 62 and leave the actor at 38, where \<open>max(1, floor(90 * 7/10))\<close> is 63.\<close>

theorem applyMoveEffects_recoil_counterexample:
  "recoil reckless_drain = Some (1, 3) \<and>
   scaled_amount (damage_amount (example_matchup 85 95)) (fraction (1, 3)) = 30 \<and>
   \<not> targetFainted (applyMoveEffects mixed_dex
       (example_state (example_pokemon P1 ''Attacker'' 100 150)
          (example_pokemon P2 ''Defender'' 100 100))
       P1 P2 ''Reckless Drain'' (example_matchup 85 95) None) \<and>
   \<not> userFainted (applyMoveEffects mixed_dex
       (example_state (example_pokemon P1 ''Attacker'' 100 150)
          (example_pokemon P2 ''Defender'' 100 100))
       P1 P2 ''Reckless Drain'' (example_matchup 85 95) None) \<and>
   health_of (battleState (applyMoveEffects mixed_dex
       (example_state (example_pokemon P1 ''Attacker'' 100 150)
          (example_pokemon P2 ''Defender'' 100 100))
       P1 P2 ''Reckless Drain'' (example_matchup 85 95) None)) P1 = Some 145 \<and>
   recoil heavy_recoil = Some (7, 10) \<and> drain heavy_recoil = None \<and>
   max 1 \<lfloor>(90 :: rat) * (7 / 10)\<rfloor> = 63 \<and>
   \<not> targetFainted (applyMoveEffects mixed_dex
       (example_state (example_pokemon P1 ''Attacker'' 100 150)
          (example_pokemon P2 ''Defender'' 100 100))
       P1 P2 ''Heavy Recoil'' (example_matchup 85 95) None) \<and>
   health_of (battleState (applyMoveEffects mixed_dex
       (example_state (example_pokemon P1 ''Attacker'' 100 150)
          (example_pokemon P2 ''Defender'' 100 100))
       P1 P2 ''Heavy Recoil'' (example_matchup 85 95) None)) P1 = Some 38"
  by (simp add: example_defs engine_defs Let_def)

subsection \<open>The drain stage\<close>





section \<open>Turn orchestration\<close>

text \<open>The stages never add or remove a player of the snapshot, so the second move of a
  turn finds the players the first move found.\<close>

lemma damageStage_players:
  "player_of (fst (damageStage s parts tk ti tpk dm mu)) k = None \<longleftrightarrow> player_of s k = None"
  by (simp add: damageStage_def Let_def player_of_set_pokemon_None)

lemma recoilStage_players:
  "player_of (fst (recoilStage s parts uk ui upk dm mu)) k = None \<longleftrightarrow> player_of s k = None"
  by (simp add: recoilStage_def Let_def player_of_set_pokemon_None split: option.splits)

lemma drainStage_players:
  "player_of (fst (drainStage s parts uk ui upk dm mu)) k = None \<longleftrightarrow> player_of s k = None"
  by (simp add: drainStage_def Let_def player_of_set_pokemon_None split: option.splits)

lemma run_stages_players:
  "player_of (battleState (run_stages s uk ui upk tk ti tpk mv dm mu)) k = None \<longleftrightarrow>
   player_of s k = None"
proof -
  let ?p0 = "[speciesForme upk @ '' used '' @ mv @ ''!'']"
  obtain s1 p1 o1 where ds: "damageStage s ?p0 tk ti tpk dm mu = (s1, p1, o1)"
    by (cases "damageStage s ?p0 tk ti tpk dm mu") blast
  obtain s2 p2 o2 where rs: "recoilStage s1 p1 uk ui upk dm mu = (s2, p2, o2)"
    by (cases "recoilStage s1 p1 uk ui upk dm mu") blast
  obtain s3 p3 where dr: "drainStage s2 p2 uk ui upk dm mu = (s3, p3)"
    by (cases "drainStage s2 p2 uk ui upk dm mu") blast
  from ds damageStage_players [of s ?p0 tk ti tpk dm mu k]
  have 1: "player_of s1 k = None \<longleftrightarrow> player_of s k = None" by simp
  from rs recoilStage_players [of s1 p1 uk ui upk dm mu k]
  have 2: "player_of s2 k = None \<longleftrightarrow> player_of s1 k = None" by simp
  from dr drainStage_players [of s2 p2 uk ui upk dm mu k]
  have 3: "player_of s3 k = None \<longleftrightarrow> player_of s2 k = None" by simp
  have "battleState (run_stages s uk ui upk tk ti tpk mv dm mu) =
        (if o1 then s1 else if o2 then s2 else s3)"
    by (simp only: run_stages_def Let_def ds rs dr prod.case)
       (simp split: if_splits)
  with 1 2 3 show ?thesis by simp
qed

lemma applyMoveEffects_players:
  "player_of (battleState (applyMoveEffects gd bs uk tk mv mu fmt)) k = None \<longleftrightarrow>
   player_of bs k = None"
  by (simp add: applyMoveEffects_def cloneBattleState_def effect_failure_def Let_def
      run_stages_players split: option.splits)

lemma run_move_Inr:
  assumes "run_move gd cm s uk tk mv fmt = Inr (res, pk, mu)"
  shows "player_of s uk \<noteq> None" "player_of s tk \<noteq> None"
    "res = applyMoveEffects gd s uk tk mv mu (format_or fmt (format s))"
  using assms by (auto simp add: run_move_def Let_def split: option.splits)

lemma run_move_defined:
  assumes "player_of s uk \<noteq> None" "player_of s tk \<noteq> None"
  shows "\<exists>res pk mu. run_move gd cm s uk tk mv fmt = Inr (res, pk, mu)"
  using assms by (auto simp add: run_move_def Let_def split: option.splits)

text \<open>A turn that does not find both players returns before any action, with no move
  result.\<close>

lemma simulateTurn_not_started:
  assumes "player_of bs plKey = None \<or> player_of bs oppKey = None"
  shows "simulateTurn gd cs cm rnd bs plKey oppKey plMove oppMove fmt =
         Inr \<lparr> ts_battleState = bs, moveResults = [],
               ts_errors = Some [''Invalid player keys''] \<rparr>"
  using assms
  by (auto simp add: simulateTurn_def cloneBattleState_def split: option.splits)

text \<open>
  Claim C2. Take a turn that gets as far as applying its first action: both sides have
  an active Pokemon, the order is \<open>mo\<close>, and the first application returns \<open>fr\<close>. If
  \<open>fr\<close> reports the target or the actor removed, the turn result holds exactly one move
  result, that of the first action, and its snapshot is the snapshot of \<open>fr\<close>: the second
  action has not been applied to it. Otherwise the second action is applied to the
  snapshot of \<open>fr\<close>, and the turn result holds exactly two move results and the snapshot
  of the second application.
\<close>

theorem simulateTurn_outcomes:
  assumes players: "player_of bs plKey = Some player" "player_of bs oppKey = Some opponent"
    and actives: "active_pokemon player = Some playerPokemon"
      "active_pokemon opponent = Some opponentPokemon"
    and order: "mo = determineMoveOrder gd cs rnd (format_or fmt (format bs))
                  playerPokemon opponentPokemon plMove oppMove (Some player) (Some opponent)
                  (field bs) (Some [player, opponent])"
    and first: "run_move gd cm bs (firstPlayerKey mo) (secondPlayerKey mo) (firstMove mo) fmt =
                  Inr (fr, fpk, fmu)"
  shows "(targetFainted fr \<or> userFainted fr \<longrightarrow>
            simulateTurn gd cs cm rnd bs plKey oppKey plMove oppMove fmt =
              Inr \<lparr> ts_battleState = battleState fr,
                    moveResults =
                      [move_result fpk (firstMove mo) (firstPlayerKey mo) fmu True
                         (firstPriority mo) (firstSpeed mo)],
                    ts_errors = errors_or_undefined (nullish (errors fr) []) \<rparr>) \<and>
         (\<not> targetFainted fr \<and> \<not> userFainted fr \<longrightarrow>
            (\<exists>sr spk smu.
               run_move gd cm (battleState fr) (secondPlayerKey mo) (firstPlayerKey mo)
                 (secondMove mo) fmt = Inr (sr, spk, smu) \<and>
               simulateTurn gd cs cm rnd bs plKey oppKey plMove oppMove fmt =
                 Inr \<lparr> ts_battleState = battleState sr,
                       moveResults =
                         [move_result fpk (firstMove mo) (firstPlayerKey mo) fmu True
                            (firstPriority mo) (firstSpeed mo),
                          move_result spk (secondMove mo) (secondPlayerKey mo) smu False
                            (secondPriority mo) (secondSpeed mo)],
                       ts_errors = errors_or_undefined
                         (nullish (errors fr) [] @ nullish (errors sr) []) \<rparr>))"
proof -
  from actives have a: "at_index (pokemon player) (active_index player) = Some playerPokemon"
    "at_index (pokemon opponent) (active_index opponent) = Some opponentPokemon"
    by (simp_all add: active_pokemon_def)
  from first have fr: "fr = applyMoveEffects gd bs (firstPlayerKey mo) (secondPlayerKey mo)
      (firstMove mo) fmu (format_or fmt (format bs))"
    and ex: "player_of bs (firstPlayerKey mo) \<noteq> None" "player_of bs (secondPlayerKey mo) \<noteq> None"
    by (simp_all add: run_move_Inr)
  from ex have "player_of (battleState fr) (secondPlayerKey mo) \<noteq> None"
    "player_of (battleState fr) (firstPlayerKey mo) \<noteq> None"
    unfolding fr by (simp_all add: applyMoveEffects_players)
  then obtain sr spk smu where second:
    "run_move gd cm (battleState fr) (secondPlayerKey mo) (firstPlayerKey mo) (secondMove mo) fmt =
       Inr (sr, spk, smu)"
    using run_move_defined by blast
  have sim: "simulateTurn gd cs cm rnd bs plKey oppKey plMove oppMove fmt =
    (let cur1 = battleState fr;
         moveResults1 = [move_result fpk (firstMove mo) (firstPlayerKey mo) fmu True
                           (firstPriority mo) (firstSpeed mo)];
         errors1 = nullish (errors fr) []
     in if targetFainted fr then
          Inr \<lparr> ts_battleState = cur1, moveResults = moveResults1,
                ts_errors = errors_or_undefined errors1 \<rparr>
        else if userFainted fr then
          Inr \<lparr> ts_battleState = cur1, moveResults = moveResults1,
                ts_errors = errors_or_undefined errors1 \<rparr>
        else
          Inr \<lparr> ts_battleState = battleState sr,
                moveResults = moveResults1 @
                  [move_result spk (secondMove mo) (secondPlayerKey mo) smu False
                     (secondPriority mo) (secondSpeed mo)],
                ts_errors = errors_or_undefined (errors1 @ nullish (errors sr) []) \<rparr>)"
    using players a first second
    by (simp add: simulateTurn_def cloneBattleState_def Let_def order [symmetric])
  from second show ?thesis
    by (auto simp add: sim Let_def)
qed

lemmas turn_defs =
  simulateTurn_def run_move_def determineMoveOrder_def move_priority_def format_or_def
  truthy_format_def trick_room_active_def move_result_def errors_or_undefined_def
  example_calc_def example_speeds_def

text \<open>Double-Edge against Tackle at speeds 328 and 299. Against a target at 50 the first
  move knocks it out and the turn has one result; against a target at 100 both moves
  run: the target ends at 10 and the actor at 150 - 30 - 90 = 30.\<close>

theorem simulateTurn_outcomes_witness:
  "(let att = example_pokemon P1 ''Attacker'' 150 150;
        frail = example_pokemon P2 ''Defender'' 50 100;
        sturdy = example_pokemon P2 ''Defender'' 100 100
    in (case simulateTurn example_dex (example_speeds 328 299) (example_calc 85 95) 0
               (example_state att frail) P1 P2 ''Double-Edge'' ''Tackle'' None of
          Inl e \<Rightarrow> False
        | Inr t \<Rightarrow> length (moveResults t) = 1 \<and> health_of (ts_battleState t) P2 = Some 0 \<and>
                   health_of (ts_battleState t) P1 = Some 150) \<and>
       (case simulateTurn example_dex (example_speeds 328 299) (example_calc 85 95) 0
               (example_state att sturdy) P1 P2 ''Double-Edge'' ''Tackle'' None of
          Inl e \<Rightarrow> False
        | Inr t \<Rightarrow> length (moveResults t) = 2 \<and> health_of (ts_battleState t) P2 = Some 10 \<and>
                   health_of (ts_battleState t) P1 = Some 30))"
  using simulateTurn_outcomes [where gd = example_dex and cs = "example_speeds 328 299"
      and cm = "example_calc 85 95" and rnd = 0 and fmt = None and plKey = P1 and oppKey = P2
      and plMove = "''Double-Edge''" and oppMove = "''Tackle''"
      and bs = "example_state (example_pokemon P1 ''Attacker'' 150 150)
                  (example_pokemon P2 ''Defender'' 50 100)"
      and player = "example_player (example_pokemon P1 ''Attacker'' 150 150)"
      and opponent = "example_player (example_pokemon P2 ''Defender'' 50 100)"
      and playerPokemon = "example_pokemon P1 ''Attacker'' 150 150"
      and opponentPokemon = "example_pokemon P2 ''Defender'' 50 100"
      and mo = "determineMoveOrder example_dex (example_speeds 328 299) 0 None
                  (example_pokemon P1 ''Attacker'' 150 150) (example_pokemon P2 ''Defender'' 50 100)
                  ''Double-Edge'' ''Tackle''
                  (Some (example_player (example_pokemon P1 ''Attacker'' 150 150)))
                  (Some (example_player (example_pokemon P2 ''Defender'' 50 100)))
                  None
                  (Some [example_player (example_pokemon P1 ''Attacker'' 150 150),
                         example_player (example_pokemon P2 ''Defender'' 50 100)])"
      and fr = "applyMoveEffects example_dex
                  (example_state (example_pokemon P1 ''Attacker'' 150 150)
                     (example_pokemon P2 ''Defender'' 50 100))
                  P1 P2 ''Double-Edge'' (example_matchup 85 95) None"
      and fpk = "Some (example_pokemon P1 ''Attacker'' 150 150)"
      and fmu = "example_matchup 85 95"]
    simulateTurn_outcomes [where gd = example_dex and cs = "example_speeds 328 299"
      and cm = "example_calc 85 95" and rnd = 0 and fmt = None and plKey = P1 and oppKey = P2
      and plMove = "''Double-Edge''" and oppMove = "''Tackle''"
      and bs = "example_state (example_pokemon P1 ''Attacker'' 150 150)
                  (example_pokemon P2 ''Defender'' 100 100)"
      and player = "example_player (example_pokemon P1 ''Attacker'' 150 150)"
      and opponent = "example_player (example_pokemon P2 ''Defender'' 100 100)"
      and playerPokemon = "example_pokemon P1 ''Attacker'' 150 150"
      and opponentPokemon = "example_pokemon P2 ''Defender'' 100 100"
      and mo = "determineMoveOrder example_dex (example_speeds 328 299) 0 None
                  (example_pokemon P1 ''Attacker'' 150 150) (example_pokemon P2 ''Defender'' 100 100)
                  ''Double-Edge'' ''Tackle''
                  (Some (example_player (example_pokemon P1 ''Attacker'' 150 150)))
                  (Some (example_player (example_pokemon P2 ''Defender'' 100 100)))
                  None
                  (Some [example_player (example_pokemon P1 ''Attacker'' 150 150),
                         example_player (example_pokemon P2 ''Defender'' 100 100)])"
      and fr = "applyMoveEffects example_dex
                  (example_state (example_pokemon P1 ''Attacker'' 150 150)
                     (example_pokemon P2 ''Defender'' 100 100))
                  P1 P2 ''Double-Edge'' (example_matchup 85 95) None"
      and fpk = "Some (example_pokemon P1 ''Attacker'' 150 150)"
      and fmu = "example_matchup 85 95"]
  by (simp add: example_defs engine_defs turn_defs Let_def)

section \<open>Advancing the session\<close>

lemma save_turn_frame:
  "simulatedTurns (save_turn pas) = simulatedTurns pas"
  "pendingDecisions (save_turn pas) = pendingDecisions pas"
  "active (save_turn pas) = active pas"
  "battleId (save_turn pas) = battleId pas"
  "simulatedBattleState (save_turn pas) = simulatedBattleState pas"
  "pa_errors (save_turn pas) = pa_errors pas"
  by (simp_all add: save_turn_def split: option.splits)

lemma save_turn_history:
  "turnHistory (save_turn pas) =
     (case (playerMove pas, opponentMove pas, turnResults pas) of
        (Some pm, Some om, Some rs) \<Rightarrow>
          if pm \<noteq> [] \<and> om \<noteq> [] then
            Some (nullish (turnHistory pas) [] @
              [\<lparr> turn = simulatedTurns pas + 1, th_playerMove = pm, th_opponentMove = om,
                 results = rs \<rparr>])
          else turnHistory pas
      | _ \<Rightarrow> turnHistory pas)"
  by (simp add: save_turn_def split: option.splits)

text \<open>
  Claim C1, amended. \<open>advanceTurn\<close> leaves the slice unchanged exactly when the battle id
  is empty or the slice holds no active session for it; neither the pending decisions
  nor the presence of turn results is consulted. When it is accepted, it increments the
  turn counter by exactly 1, clears both move selections and the latest turn results,
  and leaves the pending decisions, the active flag and the snapshot as they are. It
  appends exactly one entry to the history (turn number, both moves, the turn results)
  when both move selections are set and the turn results are defined, and leaves the
  history as it is otherwise.
\<close>

theorem advanceTurn_effect:
  "(advanceTurn st bid = st \<longleftrightarrow> guard_rejects st bid) \<and>
   (\<forall>pas. \<not> guard_rejects st bid \<and> st bid = Some pas \<longrightarrow>
      (\<exists>pas'. advanceTurn st bid = st(bid \<mapsto> pas') \<and>
         simulatedTurns pas' = simulatedTurns pas + 1 \<and>
         playerMove pas' = None \<and> opponentMove pas' = None \<and>
         turnResults pas' = Some [] \<and>
         pendingDecisions pas' = pendingDecisions pas \<and>
         active pas' = active pas \<and>
         simulatedBattleState pas' = simulatedBattleState pas \<and>
         (\<forall>pm om rs.
            playerMove pas = Some pm \<and> pm \<noteq> [] \<and> opponentMove pas = Some om \<and> om \<noteq> [] \<and>
            turnResults pas = Some rs \<longrightarrow>
            turnHistory pas' =
              Some (nullish (turnHistory pas) [] @
                [\<lparr> turn = simulatedTurns pas + 1, th_playerMove = pm, th_opponentMove = om,
                   results = rs \<rparr>])) \<and>
         (\<not> truthy_string (playerMove pas) \<or> \<not> truthy_string (opponentMove pas) \<or>
          turnResults pas = None \<longrightarrow>
            turnHistory pas' = turnHistory pas)))"
proof (intro conjI allI impI)
  show "advanceTurn st bid = st \<longleftrightarrow> guard_rejects st bid"
  proof
    assume same: "advanceTurn st bid = st"
    show "guard_rejects st bid"
    proof (rule ccontr)
      assume accepted: "\<not> guard_rejects st bid"
      then obtain pas where pas: "st bid = Some pas"
        by (auto simp add: guard_rejects_def split: option.splits)
      with accepted have "map_option simulatedTurns (advanceTurn st bid bid) =
          Some (simulatedTurns pas + 1)"
        by (simp add: advanceTurn_def Let_def save_turn_frame)
      with same pas show False by simp
    qed
  next
    assume "guard_rejects st bid"
    then show "advanceTurn st bid = st" by (simp add: advanceTurn_def)
  qed
next
  fix pas
  assume h: "\<not> guard_rejects st bid \<and> st bid = Some pas"
  let ?pas' = "(save_turn pas)\<lparr>simulatedTurns := simulatedTurns (save_turn pas) + 1,
                  playerMove := None, opponentMove := None, turnResults := Some []\<rparr>"
  from h have "advanceTurn st bid = st(bid \<mapsto> ?pas')"
    by (simp add: advanceTurn_def Let_def)
  moreover have "\<forall>pm om rs.
            playerMove pas = Some pm \<and> pm \<noteq> [] \<and> opponentMove pas = Some om \<and> om \<noteq> [] \<and>
            turnResults pas = Some rs \<longrightarrow>
            turnHistory ?pas' =
              Some (nullish (turnHistory pas) [] @
                [\<lparr> turn = simulatedTurns pas + 1, th_playerMove = pm, th_opponentMove = om,
                   results = rs \<rparr>])"
    by (simp add: save_turn_history)
  moreover have "\<not> truthy_string (playerMove pas) \<or> \<not> truthy_string (opponentMove pas) \<or>
          turnResults pas = None \<longrightarrow> turnHistory ?pas' = turnHistory pas"
    by (auto simp add: save_turn_history truthy_string_def split: option.splits)
  ultimately show "\<exists>pas'. advanceTurn st bid = st(bid \<mapsto> pas') \<and>
         simulatedTurns pas' = simulatedTurns pas + 1 \<and>
         playerMove pas' = None \<and> opponentMove pas' = None \<and>
         turnResults pas' = Some [] \<and>
         pendingDecisions pas' = pendingDecisions pas \<and>
         active pas' = active pas \<and>
         simulatedBattleState pas' = simulatedBattleState pas \<and>
         (\<forall>pm om rs.
            playerMove pas = Some pm \<and> pm \<noteq> [] \<and> opponentMove pas = Some om \<and> om \<noteq> [] \<and>
            turnResults pas = Some rs \<longrightarrow>
            turnHistory pas' =
              Some (nullish (turnHistory pas) [] @
                [\<lparr> turn = simulatedTurns pas + 1, th_playerMove = pm, th_opponentMove = om,
                   results = rs \<rparr>])) \<and>
         (\<not> truthy_string (playerMove pas) \<or> \<not> truthy_string (opponentMove pas) \<or>
          turnResults pas = None \<longrightarrow>
            turnHistory pas' = turnHistory pas)"
    by (intro exI [of _ ?pas']) (simp add: save_turn_frame)
qed

lemmas session_defs =
  advanceTurn_def guard_rejects_def save_turn_def example_session_def example_slice_def
  example_decision_def example_result_def truthy_string_def nullish_def

text \<open>The claim as first stated fails: an active session with a pending decision is
  advanced (its counter goes from 0 to 1), and so is an active session in which no turn
  has been simulated (no selections, empty turn results).\<close>

theorem advanceTurn_pending_counterexample:
  "pendingDecisions (example_session (Some ''Earthquake'') (Some ''Tackle'') [example_result]
      [example_decision]) \<noteq> [] \<and>
   advanceTurn (example_slice (example_session (Some ''Earthquake'') (Some ''Tackle'')
      [example_result] [example_decision])) ''battle-1'' \<noteq>
     example_slice (example_session (Some ''Earthquake'') (Some ''Tackle'') [example_result]
       [example_decision]) \<and>
   map_option simulatedTurns
     (advanceTurn (example_slice (example_session (Some ''Earthquake'') (Some ''Tackle'')
        [example_result] [example_decision])) ''battle-1'' ''battle-1'') = Some 1 \<and>
   turnResults (example_session None None [] []) = Some [] \<and>
   advanceTurn (example_slice (example_session None None [] [])) ''battle-1'' \<noteq>
     example_slice (example_session None None [] []) \<and>
   map_option simulatedTurns
     (advanceTurn (example_slice (example_session None None [] [])) ''battle-1'' ''battle-1'') =
     Some 1"
proof -
  have differ: "f ''battle-1'' \<noteq> g ''battle-1'' \<Longrightarrow> f \<noteq> g" for f g :: PlayAheadSliceState
    by auto
  show ?thesis
    by (intro conjI differ) (simp_all add: session_defs Let_def)
qed

text \<open>A session with both moves selected and one turn result is advanced; an unknown
  battle id and an inactive session are rejected.\<close>

theorem advanceTurn_effect_witness:
  "(let waiting = example_session (Some ''Earthquake'') (Some ''Tackle'') [example_result] [];
        st = example_slice waiting
    in \<not> guard_rejects st ''battle-1'' \<and> st ''battle-1'' = Some waiting \<and>
       map_option simulatedTurns (advanceTurn st ''battle-1'' ''battle-1'') = Some 1 \<and>
       map_option playerMove (advanceTurn st ''battle-1'' ''battle-1'') = Some None \<and>
       map_option opponentMove (advanceTurn st ''battle-1'' ''battle-1'') = Some None \<and>
       map_option turnHistory (advanceTurn st ''battle-1'' ''battle-1'') =
         Some (Some [\<lparr> turn = 1, th_playerMove = ''Earthquake'', th_opponentMove = ''Tackle'',
                       results = [example_result] \<rparr>]) \<and>
       guard_rejects st ''battle-2'' \<and> advanceTurn st ''battle-2'' = st \<and>
       guard_rejects (example_slice (waiting\<lparr>active := False\<rparr>)) ''battle-1'' \<and>
       advanceTurn (example_slice (waiting\<lparr>active := False\<rparr>)) ''battle-1'' =
         example_slice (waiting\<lparr>active := False\<rparr>))"
  using advanceTurn_effect [of
      "example_slice (example_session (Some ''Earthquake'') (Some ''Tackle'') [example_result] [])"
      "''battle-1''"]
    advanceTurn_effect [of
      "example_slice (example_session (Some ''Earthquake'') (Some ''Tackle'') [example_result] [])"
      "''battle-2''"]
    advanceTurn_effect [of
      "example_slice ((example_session (Some ''Earthquake'') (Some ''Tackle'') [example_result] [])
         \<lparr>active := False\<rparr>)"
      "''battle-1''"]
  by (simp add: session_defs Let_def)

section \<open>The input snapshot is never mutated\<close>

subsection \<open>Old arrays are left alone\<close>

lemma extends_refl: "extends h h"
  by (simp add: extends_def)

lemma extends_trans: "extends h h' \<Longrightarrow> extends h' h'' \<Longrightarrow> extends h h''"
proof -
  assume a: "extends h h'" and b: "extends h' h''"
  then have len: "length h \<le> length h'" "length h' \<le> length h''"
    by (simp_all add: extends_def)
  from a b have "take (length h) h'' = take (length h) (take (length h') h'')"
    using len by (simp add: min_def)
  also from b have "\<dots> = take (length h) h'" by (simp add: extends_def)
  also from a have "\<dots> = h" by (simp add: extends_def)
  finally show ?thesis using len by (simp add: extends_def)
qed

lemma extends_append: "extends h (h @ xs)"
  by (simp add: extends_def)

lemma extends_array_at: "extends h h' \<Longrightarrow> a < length h \<Longrightarrow> array_at h' a = array_at h a"
proof -
  assume e: "extends h h'" and a: "a < length h"
  then have "h' ! a = take (length h) h' ! a" by simp
  with e a show ?thesis by (simp add: extends_def array_at_def)
qed

lemma arrays_of_iff:
  "a \<in> set (arrays_of s) \<longleftrightarrow> (\<exists>k pl. ref_player_of s k = Some pl \<and> ref_pokemon pl = Some a)"
proof
  assume "a \<in> set (arrays_of s)"
  then show "\<exists>k pl. ref_player_of s k = Some pl \<and> ref_pokemon pl = Some a"
    by (auto simp add: arrays_of_def split: option.splits) (metis ref_player_of.simps)+
next
  assume "\<exists>k pl. ref_player_of s k = Some pl \<and> ref_pokemon pl = Some a"
  then obtain k pl where "ref_player_of s k = Some pl" "ref_pokemon pl = Some a" by blast
  then show "a \<in> set (arrays_of s)"
    by (cases k) (auto simp add: arrays_of_def)
qed

lemma clone_player_frame:
  assumes "clone_player h p = (h', q)"
  shows "extends h h'"
    and "q = Some pl \<Longrightarrow> ref_pokemon pl = Some a \<Longrightarrow> length h \<le> a \<and> a < length h'"
  using assms
  by (auto simp add: clone_player_def extends_def split: option.splits)

lemma cloneBattleState_store_frame:
  assumes "cloneBattleState_store h s = (h', s')"
  shows "extends h h'" and "fresh_in h h' s'"
proof -
  obtain h1 q1 where c1: "clone_player h (ref_p1 s) = (h1, q1)"
    by (cases "clone_player h (ref_p1 s)") blast
  obtain h2 q2 where c2: "clone_player h1 (ref_p2 s) = (h2, q2)"
    by (cases "clone_player h1 (ref_p2 s)") blast
  obtain h3 q3 where c3: "clone_player h2 (ref_p3 s) = (h3, q3)"
    by (cases "clone_player h2 (ref_p3 s)") blast
  obtain h4 q4 where c4: "clone_player h3 (ref_p4 s) = (h4, q4)"
    by (cases "clone_player h3 (ref_p4 s)") blast
  from assms c1 c2 c3 c4 have h': "h' = h4"
    and s': "s' = s\<lparr>ref_p1 := q1, ref_p2 := q2, ref_p3 := q3, ref_p4 := q4\<rparr>"
    by (simp_all add: cloneBattleState_store_def)
  note e1 = clone_player_frame(1) [OF c1] and e2 = clone_player_frame(1) [OF c2]
    and e3 = clone_player_frame(1) [OF c3] and e4 = clone_player_frame(1) [OF c4]
  from e1 e2 e3 e4 show "extends h h'"
    unfolding h' by (blast intro: extends_trans)
  from e1 e2 e3 e4 have len: "length h \<le> length h1" "length h1 \<le> length h2"
    "length h2 \<le> length h3" "length h3 \<le> length h4"
    by (simp_all add: extends_def)
  show "fresh_in h h' s'"
    unfolding fresh_in_def
  proof
    fix a assume "a \<in> set (arrays_of s')"
    then obtain k pl where k: "ref_player_of s' k = Some pl" "ref_pokemon pl = Some a"
      by (auto simp add: arrays_of_iff)
    then show "length h \<le> a \<and> a < length h'"
      using clone_player_frame(2) [OF c1, of pl a] clone_player_frame(2) [OF c2, of pl a]
        clone_player_frame(2) [OF c3, of pl a] clone_player_frame(2) [OF c4, of pl a] len
      unfolding h' s' by (cases k) auto
  qed
qed

lemma assign_pokemon_frame:
  assumes "\<forall>a. ref_pokemon pl = Some a \<longrightarrow> n \<le> a"
  shows "take n (assign_pokemon h pl i v) = take n h"
    and "length (assign_pokemon h pl i v) = length h"
  using assms by (auto simp add: assign_pokemon_def split: option.splits)

lemma damageStage_store_frame:
  assumes "\<forall>a. ref_pokemon tp = Some a \<longrightarrow> n \<le> a"
  shows "take n (fst (damageStage_store h parts tp ti tpk dm mu)) = take n h"
    and "length (fst (damageStage_store h parts tp ti tpk dm mu)) = length h"
  using assms by (simp_all add: damageStage_store_def Let_def assign_pokemon_frame)

lemma recoilStage_store_frame:
  assumes "\<forall>a. ref_pokemon up = Some a \<longrightarrow> n \<le> a"
  shows "take n (fst (recoilStage_store h parts up ui upk dm mu)) = take n h"
    and "length (fst (recoilStage_store h parts up ui upk dm mu)) = length h"
  using assms
  by (simp_all add: recoilStage_store_def Let_def assign_pokemon_frame split: option.splits)

lemma drainStage_store_frame:
  assumes "\<forall>a. ref_pokemon up = Some a \<longrightarrow> n \<le> a"
  shows "take n (fst (drainStage_store h parts up ui upk dm mu)) = take n h"
    and "length (fst (drainStage_store h parts up ui upk dm mu)) = length h"
  using assms
  by (simp_all add: drainStage_store_def Let_def assign_pokemon_frame split: option.splits)

lemma run_stages_store_frame:
  assumes u: "\<forall>a. ref_pokemon up = Some a \<longrightarrow> n \<le> a"
    and t: "\<forall>a. ref_pokemon tp = Some a \<longrightarrow> n \<le> a"
    and run: "run_stages_store h new up ui upk tp ti tpk mv dm mu = (h', res)"
  shows "take n h' = take n h" and "length h' = length h" and "ref_battleState res = new"
proof -
  let ?p0 = "[speciesForme upk @ '' used '' @ mv @ ''!'']"
  obtain h1 p1 o1 where ds: "damageStage_store h ?p0 tp ti tpk dm mu = (h1, p1, o1)"
    by (cases "damageStage_store h ?p0 tp ti tpk dm mu") blast
  obtain h2 p2 o2 where rs: "recoilStage_store h1 p1 up ui upk dm mu = (h2, p2, o2)"
    by (cases "recoilStage_store h1 p1 up ui upk dm mu") blast
  obtain h3 p3 where dr: "drainStage_store h2 p2 up ui upk dm mu = (h3, p3)"
    by (cases "drainStage_store h2 p2 up ui upk dm mu") blast
  from ds damageStage_store_frame [of tp n h ?p0 ti tpk dm mu] t
  have 1: "take n h1 = take n h" "length h1 = length h" by simp_all
  from rs recoilStage_store_frame [of up n h1 p1 ui upk dm mu] u
  have 2: "take n h2 = take n h1" "length h2 = length h1" by simp_all
  from dr drainStage_store_frame [of up n h2 p2 ui upk dm mu] u
  have 3: "take n h3 = take n h2" "length h3 = length h2" by simp_all
  have "run_stages_store h new up ui upk tp ti tpk mv dm mu =
     (if o1 then
        (h1, \<lparr> ref_battleState = new, ref_targetFainted = True, ref_userFainted = False,
               ref_description = Some (join_parts p1), ref_errors = None \<rparr>)
      else if o2 then
        (h2, \<lparr> ref_battleState = new, ref_targetFainted = False, ref_userFainted = True,
               ref_description = Some (join_parts p2), ref_errors = None \<rparr>)
      else
        (h3, \<lparr> ref_battleState = new, ref_targetFainted = False, ref_userFainted = False,
               ref_description = Some (join_parts p3), ref_errors = None \<rparr>))"
    by (simp only: run_stages_store_def Let_def ds rs dr prod.case)
  with run 1 2 3 show "take n h' = take n h" "length h' = length h" "ref_battleState res = new"
    by (auto split: if_splits)
qed

lemma applyMoveEffects_store_frame:
  assumes "applyMoveEffects_store gd h bs uk tk mv mu fmt = (h', res)"
  shows "extends h h'" and "fresh_in h h' (ref_battleState res)"
proof -
  obtain h0 new where cl: "cloneBattleState_store h bs = (h0, new)"
    by (cases "cloneBattleState_store h bs") blast
  note e0 = cloneBattleState_store_frame [OF cl]
  have fresh: "\<forall>a. ref_pokemon pl = Some a \<longrightarrow> length h \<le> a" if "ref_player_of new k = Some pl" for k pl
    using e0(2) that by (auto simp add: fresh_in_def arrays_of_iff)
  have "take (length h) h' = take (length h) h0 \<and> length h' = length h0 \<and>
        ref_battleState res = new"
  proof (cases "ref_player_of new uk")
    case None
    with assms cl show ?thesis
      by (auto simp add: applyMoveEffects_store_def effect_failure_store_def)
  next
    case (Some up)
    note up = this
    show ?thesis
    proof (cases "ref_player_of new tk")
      case None
      with assms cl up show ?thesis
        by (auto simp add: applyMoveEffects_store_def effect_failure_store_def)
    next
      case (Some tp)
      note tp = this
      let ?ui = "active_index (read_player h0 up)"
      let ?ti = "active_index (read_player h0 tp)"
      show ?thesis
      proof (cases "at_index (pokemon (read_player h0 up)) ?ui")
        case None
        with assms cl up tp show ?thesis
          by (auto simp add: applyMoveEffects_store_def effect_failure_store_def Let_def)
      next
        case (Some upk)
        note upk = this
        show ?thesis
        proof (cases "at_index (pokemon (read_player h0 tp)) ?ti")
          case None
          with assms cl up tp upk show ?thesis
            by (auto simp add: applyMoveEffects_store_def effect_failure_store_def Let_def)
        next
          case (Some tpk)
          note tpk = this
          show ?thesis
          proof (cases "dex_move gd fmt mv")
            case None
            with assms cl up tp upk tpk show ?thesis
              by (auto simp add: applyMoveEffects_store_def effect_failure_store_def Let_def)
          next
            case (Some dm)
            with assms cl up tp upk tpk
            have run: "run_stages_store h0 new up ?ui upk tp ?ti tpk mv dm mu = (h', res)"
              by (simp add: applyMoveEffects_store_def Let_def)
            from run_stages_store_frame [OF fresh [OF up] fresh [OF tp] run]
            show ?thesis by simp
          qed
        qed
      qed
    qed
  qed
  then have eq: "take (length h) h' = take (length h) h0" and len: "length h' = length h0"
    and st: "ref_battleState res = new" by simp_all
  from e0(1) eq len show "extends h h'" by (simp add: extends_def)
  from e0(2) len st show "fresh_in h h' (ref_battleState res)" by (simp add: fresh_in_def)
qed

lemma fresh_in_mono:
  "fresh_in h0 h1 s \<Longrightarrow> length h \<le> length h0 \<Longrightarrow> length h1 \<le> length h2 \<Longrightarrow> fresh_in h h2 s"
  by (fastforce simp add: fresh_in_def)

lemma extends_length: "extends h h' \<Longrightarrow> length h \<le> length h'"
  by (simp add: extends_def)

lemma run_move_store_frame:
  assumes "run_move_store gd cm h cur uk tk mv fmt = (h', r)"
  shows "extends h h'" and "r = Inr (res, pk, mu) \<Longrightarrow> fresh_in h h' (ref_battleState res)"
proof -
  have "extends h h' \<and> (r = Inr (res, pk, mu) \<longrightarrow> fresh_in h h' (ref_battleState res))"
  proof (cases "ref_player_of cur uk")
    case None
    with assms show ?thesis by (auto simp add: run_move_store_def extends_refl)
  next
    case (Some u)
    note u = this
    show ?thesis
    proof (cases "ref_player_of cur tk")
      case None
      with assms u show ?thesis by (auto simp add: run_move_store_def extends_refl)
    next
      case (Some t)
      let ?matchup = "cm (format_or fmt (ref_format cur)) (ref_gameType cur)
          (at_index (pokemon (read_player h u)) (active_index (read_player h u)))
          (at_index (pokemon (read_player h t)) (active_index (read_player h t)))
          mv (read_player h u) (read_player h t) [read_player h u, read_player h t]
          (ref_field cur)"
      obtain h1 r1 where ap: "applyMoveEffects_store gd h cur uk tk mv ?matchup
          (format_or fmt (ref_format cur)) = (h1, r1)"
        by (cases "applyMoveEffects_store gd h cur uk tk mv ?matchup
          (format_or fmt (ref_format cur))") blast
      with assms u Some have "h' = h1" "r = Inr (r1, at_index (pokemon (read_player h u))
          (active_index (read_player h u)), ?matchup)"
        by (simp_all add: run_move_store_def Let_def)
      with applyMoveEffects_store_frame [OF ap] show ?thesis by auto
    qed
  qed
  then show "extends h h'" and "r = Inr (res, pk, mu) \<Longrightarrow> fresh_in h h' (ref_battleState res)"
    by simp_all
qed

lemma simulateTurn_store_frame:
  assumes sim: "simulateTurn_store gd cs cm rnd h bs plKey oppKey plMove oppMove fmt = (h', r)"
  shows "extends h h'" and "r = Inr t \<Longrightarrow> fresh_in h h' (ref_turnState t)"
proof -
  obtain h0 cur where cl: "cloneBattleState_store h bs = (h0, cur)"
    by (cases "cloneBattleState_store h bs") blast
  note e0 = cloneBattleState_store_frame [OF cl]
  have early: "extends h h' \<and> (r = Inr t \<longrightarrow> fresh_in h h' (ref_turnState t))"
    if "h' = h0" "r = Inr x" "ref_turnState x = cur" for x
    using that e0 by auto
  have "extends h h' \<and> (r = Inr t \<longrightarrow> fresh_in h h' (ref_turnState t))"
  proof (cases "ref_player_of cur plKey")
    case None
    with sim cl show ?thesis by (intro early) (auto simp add: simulateTurn_store_def)
  next
    case (Some playerRef)
    note pr = this
    show ?thesis
    proof (cases "ref_player_of cur oppKey")
      case None
      with sim cl pr show ?thesis by (intro early) (auto simp add: simulateTurn_store_def)
    next
      case (Some opponentRef)
      note orf = this
      let ?player = "read_player h0 playerRef"
      let ?opponent = "read_player h0 opponentRef"
      show ?thesis
      proof (cases "at_index (pokemon ?player) (active_index ?player)")
        case None
        with sim cl pr orf show ?thesis
          by (intro early) (auto simp add: simulateTurn_store_def Let_def)
      next
        case (Some playerPokemon)
        note pp = this
        show ?thesis
        proof (cases "at_index (pokemon ?opponent) (active_index ?opponent)")
          case None
          with sim cl pr orf pp show ?thesis
            by (intro early) (auto simp add: simulateTurn_store_def Let_def)
        next
          case (Some opponentPokemon)
          note op = this
          let ?mo = "determineMoveOrder gd cs rnd (format_or fmt (ref_format cur))
              playerPokemon opponentPokemon plMove oppMove (Some ?player) (Some ?opponent)
              (ref_field cur) (Some [?player, ?opponent])"
          obtain h1 r1 where m1: "run_move_store gd cm h0 cur (firstPlayerKey ?mo)
              (secondPlayerKey ?mo) (firstMove ?mo) fmt = (h1, r1)"
            by (cases "run_move_store gd cm h0 cur (firstPlayerKey ?mo)
              (secondPlayerKey ?mo) (firstMove ?mo) fmt") blast
          note f1 = run_move_store_frame [OF m1]
          from e0(1) f1(1) have e1: "extends h h1" by (rule extends_trans)
          show ?thesis
          proof (cases r1)
            case (Inl e)
            with sim cl pr orf pp op m1 have "h' = h1" "r = Inl e"
              by (simp_all add: simulateTurn_store_def Let_def)
            with e1 show ?thesis by simp
          next
            case (Inr x)
            then obtain fr fpk fmu where r1: "r1 = Inr (fr, fpk, fmu)" by (cases x) auto
            from f1(2) [OF r1] e0(1) have fr1: "fresh_in h h1 (ref_battleState fr)"
              by (auto intro: fresh_in_mono dest: extends_length)
            show ?thesis
            proof (cases "ref_targetFainted fr \<or> ref_userFainted fr")
              case True
              with sim cl pr orf pp op m1 r1
              have "h' = h1" "\<exists>x. r = Inr x \<and> ref_turnState x = ref_battleState fr"
                by (auto simp add: simulateTurn_store_def Let_def split: if_splits)
              with e1 fr1 show ?thesis by auto
            next
              case False
              obtain h2 r2 where m2: "run_move_store gd cm h1 (ref_battleState fr)
                  (secondPlayerKey ?mo) (firstPlayerKey ?mo) (secondMove ?mo) fmt = (h2, r2)"
                by (cases "run_move_store gd cm h1 (ref_battleState fr)
                  (secondPlayerKey ?mo) (firstPlayerKey ?mo) (secondMove ?mo) fmt") blast
              note f2 = run_move_store_frame [OF m2]
              from e1 f2(1) have e2: "extends h h2" by (rule extends_trans)
              show ?thesis
              proof (cases r2)
                case (Inl e)
                with sim cl pr orf pp op m1 r1 False m2 have "h' = h2" "r = Inl e"
                  by (simp_all add: simulateTurn_store_def Let_def)
                with e2 show ?thesis by simp
              next
                case (Inr y)
                then obtain sr spk smu where r2: "r2 = Inr (sr, spk, smu)" by (cases y) auto
                from f2(2) [OF r2] e1 have fr2: "fresh_in h h2 (ref_battleState sr)"
                  by (auto intro: fresh_in_mono dest: extends_length)
                from sim cl pr orf pp op m1 r1 False m2 r2
                have "h' = h2" "\<exists>x. r = Inr x \<and> ref_turnState x = ref_battleState sr"
                  by (auto simp add: simulateTurn_store_def Let_def)
                with e2 fr2 show ?thesis by auto
              qed
            qed
          qed
        qed
      qed
    qed
  qed
  then show "extends h h'" and "r = Inr t \<Longrightarrow> fresh_in h h' (ref_turnState t)"
    by simp_all
qed

lemma read_snapshot_extends:
  assumes "extends h h'" "lives_in h s"
  shows "read_snapshot h' s = read_snapshot h s"
proof -
  have "read_player h' pl = read_player h pl" if "ref_player_of s k = Some pl" for k pl
  proof (cases "ref_pokemon pl")
    case None
    then show ?thesis by (simp add: read_player_def)
  next
    case (Some a)
    with that assms(2) have "a < length h"
      by (auto simp add: lives_in_def arrays_of_iff)
    with assms(1) Some show ?thesis by (simp add: read_player_def extends_array_at)
  qed
  from this [of P1] this [of P2] this [of P3] this [of P4] show ?thesis
    by (auto simp add: read_snapshot_def split: option.splits
        intro!: map_option_cong [OF refl] simp: map_option_case)
qed

subsection \<open>The store model agrees with the model on values\<close>

text \<open>A copy reads as the original, and its arrays are pairwise different; an
  assignment through a player of such a snapshot is the assignment \<open>set_pokemon\<close> on its
  value. So what a call returns in the store reads as what the functions on values
  return for the value of the input.\<close>

lemma player_of_read_snapshot:
  "player_of (read_snapshot h s) k = map_option (read_player h) (ref_player_of s k)"
  by (cases k) (simp_all add: read_snapshot_def)

lemma array_at_append_old: "a < length h \<Longrightarrow> array_at (h @ xs) a = array_at h a"
  by (simp add: array_at_def nth_append)

lemma array_at_append_new: "array_at (h @ [x]) (length h) = x"
  by (simp add: array_at_def)

lemma clone_player_read:
  assumes "clone_player h p = (h', q)"
  shows "map_option (read_player h') q = map_option (read_player h) p"
  using assms
  by (auto simp add: clone_player_def read_player_def array_at_append_new split: option.splits)

lemma read_player_extends:
  assumes "extends h h'" "\<forall>a. ref_pokemon pl = Some a \<longrightarrow> a < length h"
  shows "read_player h' pl = read_player h pl"
  using assms by (cases "ref_pokemon pl") (simp_all add: read_player_def extends_array_at)

lemma clone_player_read_later:
  assumes c: "clone_player h p = (h', q)" and e: "extends h' h''"
  shows "map_option (read_player h'') q = map_option (read_player h) p"
proof (cases q)
  case None
  with c show ?thesis by (auto simp add: clone_player_def split: option.splits)
next
  case (Some pl)
  from clone_player_frame(2) [OF c Some] have "\<forall>a. ref_pokemon pl = Some a \<longrightarrow> a < length h'"
    by auto
  with e have "read_player h'' pl = read_player h' pl" by (rule read_player_extends)
  with clone_player_read [OF c] Some show ?thesis by simp
qed

lemma cloneBattleState_store_read:
  assumes cl: "cloneBattleState_store h s = (h', s')" and lives: "lives_in h s"
  shows "read_snapshot h' s' = read_snapshot h s"
proof -
  obtain h1 q1 where c1: "clone_player h (ref_p1 s) = (h1, q1)"
    by (cases "clone_player h (ref_p1 s)") blast
  obtain h2 q2 where c2: "clone_player h1 (ref_p2 s) = (h2, q2)"
    by (cases "clone_player h1 (ref_p2 s)") blast
  obtain h3 q3 where c3: "clone_player h2 (ref_p3 s) = (h3, q3)"
    by (cases "clone_player h2 (ref_p3 s)") blast
  obtain h4 q4 where c4: "clone_player h3 (ref_p4 s) = (h4, q4)"
    by (cases "clone_player h3 (ref_p4 s)") blast
  from cl c1 c2 c3 c4 have h': "h' = h4"
    and s': "s' = s\<lparr>ref_p1 := q1, ref_p2 := q2, ref_p3 := q3, ref_p4 := q4\<rparr>"
    by (simp_all add: cloneBattleState_store_def)
  note e1 = clone_player_frame(1) [OF c1] and e2 = clone_player_frame(1) [OF c2]
    and e3 = clone_player_frame(1) [OF c3] and e4 = clone_player_frame(1) [OF c4]
  have old: "map_option (read_player g) (ref_player_of s k) =
             map_option (read_player h) (ref_player_of s k)" if "extends h g" for g k
  proof (cases "ref_player_of s k")
    case None
    then show ?thesis by simp
  next
    case (Some pl)
    with lives have "\<forall>a. ref_pokemon pl = Some a \<longrightarrow> a < length h"
      by (auto simp add: lives_in_def arrays_of_iff)
    with that have "read_player g pl = read_player h pl" by (rule read_player_extends)
    with Some show ?thesis by simp
  qed
  have r1: "map_option (read_player h4) q1 = map_option (read_player h) (ref_p1 s)"
    using clone_player_read_later [OF c1, of h4] e2 e3 e4 by (blast intro: extends_trans)
  have "map_option (read_player h4) q2 = map_option (read_player h1) (ref_p2 s)"
    using clone_player_read_later [OF c2, of h4] e3 e4 by (blast intro: extends_trans)
  with old [OF e1, of P2]
  have r2: "map_option (read_player h4) q2 = map_option (read_player h) (ref_p2 s)" by simp
  have "map_option (read_player h4) q3 = map_option (read_player h2) (ref_p3 s)"
    using clone_player_read_later [OF c3, of h4] e4 by blast
  with old [OF extends_trans [OF e1 e2], of P3]
  have r3: "map_option (read_player h4) q3 = map_option (read_player h) (ref_p3 s)" by simp
  have "map_option (read_player h4) q4 = map_option (read_player h3) (ref_p4 s)"
    using clone_player_read_later [OF c4, of h4] by (simp add: extends_refl)
  with old [OF extends_trans [OF extends_trans [OF e1 e2] e3], of P4]
  have r4: "map_option (read_player h4) q4 = map_option (read_player h) (ref_p4 s)" by simp
  from r1 r2 r3 r4 show ?thesis
    unfolding h' s' by (simp add: read_snapshot_def)
qed

lemma clone_player_new:
  assumes "clone_player h p = (h', q)" "q = Some pl" "ref_pokemon pl = Some a"
  shows "a = length h" "length h' = Suc (length h)"
  using assms by (auto simp add: clone_player_def split: option.splits)

lemma cloneBattleState_store_distinct:
  assumes cl: "cloneBattleState_store h s = (h', s')"
  shows "distinct (arrays_of s')"
proof -
  obtain h1 q1 where c1: "clone_player h (ref_p1 s) = (h1, q1)"
    by (cases "clone_player h (ref_p1 s)") blast
  obtain h2 q2 where c2: "clone_player h1 (ref_p2 s) = (h2, q2)"
    by (cases "clone_player h1 (ref_p2 s)") blast
  obtain h3 q3 where c3: "clone_player h2 (ref_p3 s) = (h3, q3)"
    by (cases "clone_player h2 (ref_p3 s)") blast
  obtain h4 q4 where c4: "clone_player h3 (ref_p4 s) = (h4, q4)"
    by (cases "clone_player h3 (ref_p4 s)") blast
  from cl c1 c2 c3 c4 have s': "s' = s\<lparr>ref_p1 := q1, ref_p2 := q2, ref_p3 := q3, ref_p4 := q4\<rparr>"
    by (simp_all add: cloneBattleState_store_def)
  note e1 = clone_player_frame(1) [OF c1] and e2 = clone_player_frame(1) [OF c2]
    and e3 = clone_player_frame(1) [OF c3] and e4 = clone_player_frame(1) [OF c4]
  from e1 e2 e3 e4 have len: "length h \<le> length h1" "length h1 \<le> length h2"
    "length h2 \<le> length h3" "length h3 \<le> length h4"
    by (simp_all add: extends_def)
  let ?slot = "\<lambda>q. case q of None \<Rightarrow> [] | Some pl \<Rightarrow>
                  (case ref_pokemon pl of None \<Rightarrow> [] | Some a \<Rightarrow> [a])"
  have slot: "distinct (?slot q) \<and> (\<forall>a \<in> set (?slot q). length g \<le> a \<and> a < length g')"
    if "clone_player g p = (g', q)" for g p g' q
    using clone_player_frame(2) [OF that] by (auto split: option.splits)
  have "arrays_of s' = ?slot q1 @ ?slot q2 @ ?slot q3 @ ?slot q4"
    unfolding s' arrays_of_def by simp
  moreover have "distinct (?slot q1 @ ?slot q2 @ ?slot q3 @ ?slot q4)"
    using slot [OF c1] slot [OF c2] slot [OF c3] slot [OF c4] len
    unfolding distinct_append set_append by (intro conjI; fastforce)
  ultimately show ?thesis by simp
qed

lemma state_eqI:
  assumes "\<And>k. player_of s k = player_of t k" "field s = field t" "format s = format t"
    "gameType s = gameType t"
  shows "s = t"
  using assms(1) [of P1] assms(1) [of P2] assms(1) [of P3] assms(1) [of P4] assms(2-)
  by (cases s, cases t) simp

lemma arrays_distinctD:
  assumes "distinct (arrays_of s)"
    "ref_player_of s k = Some pl" "ref_pokemon pl = Some a"
    "ref_player_of s k' = Some pl'" "ref_pokemon pl' = Some a"
  shows "k' = k"
  using assms by (cases k; cases k') (auto simp add: arrays_of_def)

lemma read_snapshot_frame:
  "field (read_snapshot h s) = ref_field s"
  "format (read_snapshot h s) = ref_format s"
  "gameType (read_snapshot h s) = ref_gameType s"
  by (simp_all add: read_snapshot_def)

lemma set_pokemon_frame:
  "field (set_pokemon s k i v) = field s"
  "format (set_pokemon s k i v) = format s"
  "gameType (set_pokemon s k i v) = gameType s"
  by (simp_all add: set_pokemon_def set_player_frame split: option.splits)

lemma assign_pokemon_read:
  assumes k: "ref_player_of s k = Some pl" and d: "distinct (arrays_of s)" and l: "lives_in h s"
  shows "read_snapshot (assign_pokemon h pl i v) s = set_pokemon (read_snapshot h s) k i v"
proof (cases "ref_pokemon pl")
  case None
  with k show ?thesis
    by (simp add: assign_pokemon_def set_pokemon_def player_of_read_snapshot read_player_def)
next
  case (Some a)
  with k l have a: "a < length h" by (auto simp add: lives_in_def arrays_of_iff)
  show ?thesis
  proof (cases "0 \<le> i \<and> i < int (length (h ! a))")
    case False
    with k Some a show ?thesis
      by (auto simp add: assign_pokemon_def set_pokemon_def player_of_read_snapshot
          read_player_def array_at_def)
  next
    case True
    let ?h' = "h[a := (h ! a)[nat i := v]]"
    from Some a True have h': "assign_pokemon h pl i v = ?h'"
      by (simp add: assign_pokemon_def)
    have upd: "set_pokemon (read_snapshot h s) k i v =
        set_player (read_snapshot h s) k
          (Some ((read_player h pl)\<lparr>pokemon := Some ((h ! a)[nat i := v])\<rparr>))"
      using k Some a True
      by (simp add: set_pokemon_def player_of_read_snapshot read_player_def array_at_def)
    have same: "read_player ?h' pl = (read_player h pl)\<lparr>pokemon := Some ((h ! a)[nat i := v])\<rparr>"
      using Some a by (simp add: read_player_def array_at_def)
    have other: "read_player ?h' pl' = read_player h pl'"
      if "ref_player_of s k' = Some pl'" "k' \<noteq> k" for k' pl'
    proof (cases "ref_pokemon pl'")
      case None
      then show ?thesis by (simp add: read_player_def)
    next
      case (Some b)
      with arrays_distinctD [OF d k \<open>ref_pokemon pl = Some a\<close> that(1)] that(2)
      have "b \<noteq> a" by auto
      with Some show ?thesis by (simp add: read_player_def array_at_def)
    qed
    show ?thesis
      unfolding h' upd
    proof (rule state_eqI)
      fix k'
      show "player_of (read_snapshot ?h' s) k' =
            player_of (set_player (read_snapshot h s) k
              (Some ((read_player h pl)\<lparr>pokemon := Some ((h ! a)[nat i := v])\<rparr>))) k'"
        using k same other [of k']
        by (cases "ref_player_of s k'")
           (auto simp add: player_of_read_snapshot player_of_set_player)
    qed (simp_all add: read_snapshot_frame set_player_frame)
  qed
qed

lemma assign_pokemon_lives:
  "lives_in h s \<Longrightarrow> lives_in (assign_pokemon h pl i v) s"
  by (auto simp add: lives_in_def assign_pokemon_def split: option.splits)

lemma damageStage_store_read:
  assumes "ref_player_of s tk = Some tp" "distinct (arrays_of s)" "lives_in h s"
  shows "damageStage (read_snapshot h s) parts tk ti tpk dm mu =
         (case damageStage_store h parts tp ti tpk dm mu of
            (h', parts', out) \<Rightarrow> (read_snapshot h' s, parts', out))"
    and "lives_in (fst (damageStage_store h parts tp ti tpk dm mu)) s"
  using assms
  by (simp_all add: damageStage_def damageStage_store_def Let_def assign_pokemon_read
      assign_pokemon_lives)

lemma recoilStage_store_read:
  assumes "ref_player_of s uk = Some up" "distinct (arrays_of s)" "lives_in h s"
  shows "recoilStage (read_snapshot h s) parts uk ui upk dm mu =
         (case recoilStage_store h parts up ui upk dm mu of
            (h', parts', out) \<Rightarrow> (read_snapshot h' s, parts', out))"
    and "lives_in (fst (recoilStage_store h parts up ui upk dm mu)) s"
  using assms
  by (simp_all add: recoilStage_def recoilStage_store_def Let_def assign_pokemon_read
      assign_pokemon_lives split: option.splits)

lemma drainStage_store_read:
  assumes "ref_player_of s uk = Some up" "distinct (arrays_of s)" "lives_in h s"
  shows "drainStage (read_snapshot h s) parts uk ui upk dm mu =
         (case drainStage_store h parts up ui upk dm mu of
            (h', parts') \<Rightarrow> (read_snapshot h' s, parts'))"
    and "lives_in (fst (drainStage_store h parts up ui upk dm mu)) s"
  using assms
  by (simp_all add: drainStage_def drainStage_store_def Let_def assign_pokemon_read
      assign_pokemon_lives split: option.splits)

lemma run_stages_store_read:
  assumes u: "ref_player_of s uk = Some up" and t: "ref_player_of s tk = Some tp"
    and d: "distinct (arrays_of s)" and l: "lives_in h s"
  shows "run_stages (read_snapshot h s) uk ui upk tk ti tpk mv dm mu =
         (case run_stages_store h s up ui upk tp ti tpk mv dm mu of
            (h', res) \<Rightarrow> read_result h' res)"
proof -
  let ?p0 = "[speciesForme upk @ '' used '' @ mv @ ''!'']"
  obtain h1 p1 o1 where ds: "damageStage_store h ?p0 tp ti tpk dm mu = (h1, p1, o1)"
    by (cases "damageStage_store h ?p0 tp ti tpk dm mu") blast
  obtain h2 p2 o2 where rs: "recoilStage_store h1 p1 up ui upk dm mu = (h2, p2, o2)"
    by (cases "recoilStage_store h1 p1 up ui upk dm mu") blast
  obtain h3 p3 where dr: "drainStage_store h2 p2 up ui upk dm mu = (h3, p3)"
    by (cases "drainStage_store h2 p2 up ui upk dm mu") blast
  from damageStage_store_read [OF t d l, of ?p0 ti tpk dm mu] ds
  have vd: "damageStage (read_snapshot h s) ?p0 tk ti tpk dm mu = (read_snapshot h1 s, p1, o1)"
    and l1: "lives_in h1 s" by simp_all
  from recoilStage_store_read [OF u d l1, of p1 ui upk dm mu] rs
  have vr: "recoilStage (read_snapshot h1 s) p1 uk ui upk dm mu = (read_snapshot h2 s, p2, o2)"
    and l2: "lives_in h2 s" by simp_all
  from drainStage_store_read [OF u d l2, of p2 ui upk dm mu] dr
  have vdr: "drainStage (read_snapshot h2 s) p2 uk ui upk dm mu = (read_snapshot h3 s, p3)"
    by simp
  have "run_stages (read_snapshot h s) uk ui upk tk ti tpk mv dm mu =
     (if o1 then
        \<lparr> battleState = read_snapshot h1 s, targetFainted = True, userFainted = False,
          description = Some (join_parts p1), errors = None \<rparr>
      else if o2 then
        \<lparr> battleState = read_snapshot h2 s, targetFainted = False, userFainted = True,
          description = Some (join_parts p2), errors = None \<rparr>
      else
        \<lparr> battleState = read_snapshot h3 s, targetFainted = False, userFainted = False,
          description = Some (join_parts p3), errors = None \<rparr>)"
    by (simp only: run_stages_def Let_def vd vr vdr prod.case)
  moreover have "run_stages_store h s up ui upk tp ti tpk mv dm mu =
     (if o1 then
        (h1, \<lparr> ref_battleState = s, ref_targetFainted = True, ref_userFainted = False,
               ref_description = Some (join_parts p1), ref_errors = None \<rparr>)
      else if o2 then
        (h2, \<lparr> ref_battleState = s, ref_targetFainted = False, ref_userFainted = True,
               ref_description = Some (join_parts p2), ref_errors = None \<rparr>)
      else
        (h3, \<lparr> ref_battleState = s, ref_targetFainted = False, ref_userFainted = False,
               ref_description = Some (join_parts p3), ref_errors = None \<rparr>))"
    by (simp only: run_stages_store_def Let_def ds rs dr prod.case)
  ultimately show ?thesis by (simp add: read_result_def)
qed

lemma fresh_in_lives: "fresh_in h h' s \<Longrightarrow> lives_in h' s"
  by (simp add: fresh_in_def lives_in_def)

lemma applyMoveEffects_store_read:
  assumes lives: "lives_in h bs"
  shows "applyMoveEffects gd (read_snapshot h bs) uk tk mv mu fmt =
         (case applyMoveEffects_store gd h bs uk tk mv mu fmt of
            (h', res) \<Rightarrow> read_result h' res)"
proof -
  obtain h0 new where cl: "cloneBattleState_store h bs = (h0, new)"
    by (cases "cloneBattleState_store h bs") blast
  from cloneBattleState_store_read [OF cl lives]
  have rd: "read_snapshot h bs = read_snapshot h0 new" by simp
  from cloneBattleState_store_distinct [OF cl] have d: "distinct (arrays_of new)" .
  from cloneBattleState_store_frame(2) [OF cl] have l0: "lives_in h0 new"
    by (rule fresh_in_lives)
  show ?thesis
  proof (cases "ref_player_of new uk")
    case None
    then show ?thesis
      by (simp add: applyMoveEffects_def applyMoveEffects_store_def cl rd cloneBattleState_def
          player_of_read_snapshot effect_failure_def effect_failure_store_def read_result_def)
  next
    case (Some up)
    note up = this
    show ?thesis
    proof (cases "ref_player_of new tk")
      case None
      with up show ?thesis
        by (simp add: applyMoveEffects_def applyMoveEffects_store_def cl rd cloneBattleState_def
            player_of_read_snapshot effect_failure_def effect_failure_store_def read_result_def)
    next
      case (Some tp)
      note tp = this
      let ?ui = "active_index (read_player h0 up)"
      let ?ti = "active_index (read_player h0 tp)"
      show ?thesis
      proof (cases "at_index (pokemon (read_player h0 up)) ?ui")
        case None
        with up tp show ?thesis
          by (simp add: applyMoveEffects_def applyMoveEffects_store_def cl rd
              cloneBattleState_def player_of_read_snapshot effect_failure_def
              effect_failure_store_def read_result_def Let_def)
      next
        case (Some upk)
        note upk = this
        show ?thesis
        proof (cases "at_index (pokemon (read_player h0 tp)) ?ti")
          case None
          with up tp upk show ?thesis
            by (simp add: applyMoveEffects_def applyMoveEffects_store_def cl rd
                cloneBattleState_def player_of_read_snapshot effect_failure_def
                effect_failure_store_def read_result_def Let_def)
        next
          case (Some tpk)
          note tpk = this
          show ?thesis
          proof (cases "dex_move gd fmt mv")
            case None
            with up tp upk tpk show ?thesis
              by (simp add: applyMoveEffects_def applyMoveEffects_store_def cl rd
                  cloneBattleState_def player_of_read_snapshot effect_failure_def
                  effect_failure_store_def read_result_def Let_def dex_move_def)
          next
            case (Some dm)
            with up tp upk tpk
            have "applyMoveEffects gd (read_snapshot h bs) uk tk mv mu fmt =
                  run_stages (read_snapshot h0 new) uk ?ui upk tk ?ti tpk mv dm mu"
              by (simp add: applyMoveEffects_def rd cloneBattleState_def
                  player_of_read_snapshot Let_def dex_move_def)
            moreover from Some up tp upk tpk
            have "applyMoveEffects_store gd h bs uk tk mv mu fmt =
                  run_stages_store h0 new up ?ui upk tp ?ti tpk mv dm mu"
              by (simp add: applyMoveEffects_store_def cl Let_def)
            ultimately show ?thesis
              by (simp add: run_stages_store_read [OF up tp d l0])
          qed
        qed
      qed
    qed
  qed
qed

lemma run_move_store_read:
  assumes lives: "lives_in h cur"
  shows "run_move gd cm (read_snapshot h cur) uk tk mv fmt =
         (case run_move_store gd cm h cur uk tk mv fmt of
            (h', Inl e) \<Rightarrow> Inl e
          | (h', Inr (res, pk, mu)) \<Rightarrow> Inr (read_result h' res, pk, mu))"
proof (cases "ref_player_of cur uk")
  case None
  then show ?thesis
    by (simp add: run_move_def run_move_store_def player_of_read_snapshot)
next
  case (Some u)
  note u = this
  show ?thesis
  proof (cases "ref_player_of cur tk")
    case None
    with u show ?thesis
      by (simp add: run_move_def run_move_store_def player_of_read_snapshot)
  next
    case (Some t)
    let ?matchup = "cm (format_or fmt (ref_format cur)) (ref_gameType cur)
        (at_index (pokemon (read_player h u)) (active_index (read_player h u)))
        (at_index (pokemon (read_player h t)) (active_index (read_player h t)))
        mv (read_player h u) (read_player h t) [read_player h u, read_player h t]
        (ref_field cur)"
    obtain h1 r1 where ap: "applyMoveEffects_store gd h cur uk tk mv ?matchup
        (format_or fmt (ref_format cur)) = (h1, r1)"
      by (cases "applyMoveEffects_store gd h cur uk tk mv ?matchup
        (format_or fmt (ref_format cur))") blast
    with applyMoveEffects_store_read [OF lives, of gd uk tk mv ?matchup
        "format_or fmt (ref_format cur)"]
    have "applyMoveEffects gd (read_snapshot h cur) uk tk mv ?matchup
        (format_or fmt (ref_format cur)) = read_result h1 r1" by simp
    with u Some ap show ?thesis
      by (simp add: run_move_def run_move_store_def player_of_read_snapshot
          read_snapshot_frame Let_def)
  qed
qed

lemma battleState_read_result: "battleState (read_result h res) = read_snapshot h (ref_battleState res)"
  and flags_read_result: "targetFainted (read_result h res) = ref_targetFainted res"
    "userFainted (read_result h res) = ref_userFainted res"
    "errors (read_result h res) = ref_errors res"
  by (simp_all add: read_result_def)

lemma simulateTurn_store_read:
  assumes lives: "lives_in h bs"
  shows "simulateTurn gd cs cm rnd (read_snapshot h bs) plKey oppKey plMove oppMove fmt =
         (case simulateTurn_store gd cs cm rnd h bs plKey oppKey plMove oppMove fmt of
            (h', Inl e) \<Rightarrow> Inl e
          | (h', Inr t) \<Rightarrow> Inr (read_turn h' t))"
proof -
  obtain h0 cur where cl: "cloneBattleState_store h bs = (h0, cur)"
    by (cases "cloneBattleState_store h bs") blast
  from cloneBattleState_store_read [OF cl lives]
  have rd: "read_snapshot h bs = read_snapshot h0 cur" by simp
  from cloneBattleState_store_frame(2) [OF cl] have l0: "lives_in h0 cur"
    by (rule fresh_in_lives)
  show ?thesis
  proof (cases "ref_player_of cur plKey")
    case None
    then show ?thesis
      by (simp add: simulateTurn_def simulateTurn_store_def cl rd cloneBattleState_def
          player_of_read_snapshot read_turn_def)
  next
    case (Some playerRef)
    note pr = this
    show ?thesis
    proof (cases "ref_player_of cur oppKey")
      case None
      with pr show ?thesis
        by (simp add: simulateTurn_def simulateTurn_store_def cl rd cloneBattleState_def
            player_of_read_snapshot read_turn_def)
    next
      case (Some opponentRef)
      note orf = this
      let ?player = "read_player h0 playerRef"
      let ?opponent = "read_player h0 opponentRef"
      show ?thesis
      proof (cases "at_index (pokemon ?player) (active_index ?player)")
        case None
        with pr orf show ?thesis
          by (simp add: simulateTurn_def simulateTurn_store_def cl rd cloneBattleState_def
              player_of_read_snapshot read_turn_def Let_def)
      next
        case (Some playerPokemon)
        note pp = this
        show ?thesis
        proof (cases "at_index (pokemon ?opponent) (active_index ?opponent)")
          case None
          with pr orf pp show ?thesis
            by (simp add: simulateTurn_def simulateTurn_store_def cl rd cloneBattleState_def
                player_of_read_snapshot read_turn_def Let_def)
        next
          case (Some opponentPokemon)
          note op = this
          let ?mo = "determineMoveOrder gd cs rnd (format_or fmt (ref_format cur))
              playerPokemon opponentPokemon plMove oppMove (Some ?player) (Some ?opponent)
              (ref_field cur) (Some [?player, ?opponent])"
          obtain h1 r1 where m1: "run_move_store gd cm h0 cur (firstPlayerKey ?mo)
              (secondPlayerKey ?mo) (firstMove ?mo) fmt = (h1, r1)"
            by (cases "run_move_store gd cm h0 cur (firstPlayerKey ?mo)
              (secondPlayerKey ?mo) (firstMove ?mo) fmt") blast
          note v1 = run_move_store_read [OF l0, of gd cm "firstPlayerKey ?mo"
              "secondPlayerKey ?mo" "firstMove ?mo" fmt, unfolded m1 prod.case]
          have val: "simulateTurn gd cs cm rnd (read_snapshot h bs) plKey oppKey plMove oppMove fmt =
            (case run_move gd cm (read_snapshot h0 cur) (firstPlayerKey ?mo)
                    (secondPlayerKey ?mo) (firstMove ?mo) fmt of
               Inl e \<Rightarrow> Inl e
             | Inr (firstMoveResult, firstMoveUserPokemon, firstMatchup) \<Rightarrow>
                 (let cur1 = battleState firstMoveResult;
                      moveResults1 =
                        [move_result firstMoveUserPokemon (firstMove ?mo) (firstPlayerKey ?mo)
                           firstMatchup True (firstPriority ?mo) (firstSpeed ?mo)];
                      errors1 = nullish (errors firstMoveResult) []
                  in if targetFainted firstMoveResult then
                       Inr \<lparr> ts_battleState = cur1, moveResults = moveResults1,
                             ts_errors = errors_or_undefined errors1 \<rparr>
                     else if userFainted firstMoveResult then
                       Inr \<lparr> ts_battleState = cur1, moveResults = moveResults1,
                             ts_errors = errors_or_undefined errors1 \<rparr>
                     else
                       case run_move gd cm cur1 (secondPlayerKey ?mo) (firstPlayerKey ?mo)
                              (secondMove ?mo) fmt of
                         Inl e \<Rightarrow> Inl e
                       | Inr (secondMoveResult, secondMoveUserPokemon, secondMatchup) \<Rightarrow>
                           Inr \<lparr> ts_battleState = battleState secondMoveResult,
                                 moveResults = moveResults1 @
                                   [move_result secondMoveUserPokemon (secondMove ?mo)
                                      (secondPlayerKey ?mo) secondMatchup False
                                      (secondPriority ?mo) (secondSpeed ?mo)],
                                 ts_errors = errors_or_undefined
                                   (errors1 @ nullish (errors secondMoveResult) []) \<rparr>))"
            using pr orf pp op
            by (simp add: simulateTurn_def rd cloneBattleState_def player_of_read_snapshot
                read_snapshot_frame Let_def)
          have sto: "simulateTurn_store gd cs cm rnd h bs plKey oppKey plMove oppMove fmt =
            (case (h1, r1) of
               (h1, Inl e) \<Rightarrow> (h1, Inl e)
             | (h1, Inr (firstMoveResult, firstMoveUserPokemon, firstMatchup)) \<Rightarrow>
                 (let cur1 = ref_battleState firstMoveResult;
                      moveResults1 =
                        [move_result firstMoveUserPokemon (firstMove ?mo) (firstPlayerKey ?mo)
                           firstMatchup True (firstPriority ?mo) (firstSpeed ?mo)];
                      errors1 = nullish (ref_errors firstMoveResult) []
                  in if ref_targetFainted firstMoveResult then
                       (h1, Inr \<lparr> ref_turnState = cur1, ref_moveResults = moveResults1,
                                  ref_turnErrors = errors_or_undefined errors1 \<rparr>)
                     else if ref_userFainted firstMoveResult then
                       (h1, Inr \<lparr> ref_turnState = cur1, ref_moveResults = moveResults1,
                                  ref_turnErrors = errors_or_undefined errors1 \<rparr>)
                     else
                       case run_move_store gd cm h1 cur1 (secondPlayerKey ?mo)
                              (firstPlayerKey ?mo) (secondMove ?mo) fmt of
                         (h2, Inl e) \<Rightarrow> (h2, Inl e)
                       | (h2, Inr (secondMoveResult, secondMoveUserPokemon, secondMatchup)) \<Rightarrow>
                           (h2, Inr \<lparr> ref_turnState = ref_battleState secondMoveResult,
                                 ref_moveResults = moveResults1 @
                                   [move_result secondMoveUserPokemon (secondMove ?mo)
                                      (secondPlayerKey ?mo) secondMatchup False
                                      (secondPriority ?mo) (secondSpeed ?mo)],
                                 ref_turnErrors = errors_or_undefined
                                   (errors1 @ nullish (ref_errors secondMoveResult) []) \<rparr>)))"
            using pr orf pp op
            by (simp add: simulateTurn_store_def cl m1 Let_def)
          show ?thesis
          proof (cases r1)
            case (Inl e)
            with v1 show ?thesis by (simp add: val sto)
          next
            case (Inr x)
            then obtain fr fpk fmu where r1: "r1 = Inr (fr, fpk, fmu)" by (cases x) auto
            from v1 r1 have rm1: "run_move gd cm (read_snapshot h0 cur) (firstPlayerKey ?mo)
                (secondPlayerKey ?mo) (firstMove ?mo) fmt = Inr (read_result h1 fr, fpk, fmu)"
              by simp
            from run_move_store_frame(2) [OF m1 r1] have l1: "lives_in h1 (ref_battleState fr)"
              by (rule fresh_in_lives)
            obtain h2 r2 where m2: "run_move_store gd cm h1 (ref_battleState fr)
                (secondPlayerKey ?mo) (firstPlayerKey ?mo) (secondMove ?mo) fmt = (h2, r2)"
              by (cases "run_move_store gd cm h1 (ref_battleState fr)
                (secondPlayerKey ?mo) (firstPlayerKey ?mo) (secondMove ?mo) fmt") blast
            note v2 = run_move_store_read [OF l1, of gd cm "secondPlayerKey ?mo"
                "firstPlayerKey ?mo" "secondMove ?mo" fmt, unfolded m2 prod.case]
            show ?thesis
            proof (cases r2)
              case (Inl e)
              with v2 show ?thesis
                by (simp add: val sto rm1 r1 m2 Let_def battleState_read_result
                    flags_read_result read_turn_def)
            next
              case (Inr y)
              then obtain sr spk smu where r2: "r2 = Inr (sr, spk, smu)" by (cases y) auto
              with v2 show ?thesis
                by (simp add: val sto rm1 r1 m2 Let_def battleState_read_result
                    flags_read_result read_turn_def)
            qed
          qed
        qed
      qed
    qed
  qed
qed

text \<open>
  Claim C9. A call of the effect pipeline or of the turn orchestrator leaves every array
  that existed before the call as it was: the store after the call extends the store
  before it, so a snapshot that lived in the store before the call, the input among
  them, reads the same before and after. The snapshot that is returned refers only to
  arrays allocated during the call, so it shares nothing with the input; read in the
  store after the call, the result is what the functions on values return for the value
  of the input: the effects of the call are all found in the copy.
\<close>

theorem input_snapshot_never_mutated:
  "(case applyMoveEffects_store gd h bs uk tk mv mu fmt of
      (h', res) \<Rightarrow>
        extends h h' \<and> fresh_in h h' (ref_battleState res) \<and>
        (lives_in h bs \<longrightarrow>
           read_snapshot h' bs = read_snapshot h bs \<and>
           read_result h' res = applyMoveEffects gd (read_snapshot h bs) uk tk mv mu fmt)) \<and>
   (case simulateTurn_store gd cs cm rnd h bs plKey oppKey plMove oppMove fmt of
      (h', r) \<Rightarrow>
        extends h h' \<and> (\<forall>t. r = Inr t \<longrightarrow> fresh_in h h' (ref_turnState t)) \<and>
        (lives_in h bs \<longrightarrow>
           read_snapshot h' bs = read_snapshot h bs \<and>
           map_sum id (read_turn h') r =
             simulateTurn gd cs cm rnd (read_snapshot h bs) plKey oppKey plMove oppMove fmt))"
proof -
  obtain h1 res where a: "applyMoveEffects_store gd h bs uk tk mv mu fmt = (h1, res)"
    by (cases "applyMoveEffects_store gd h bs uk tk mv mu fmt") blast
  obtain h2 r where s: "simulateTurn_store gd cs cm rnd h bs plKey oppKey plMove oppMove fmt = (h2, r)"
    by (cases "simulateTurn_store gd cs cm rnd h bs plKey oppKey plMove oppMove fmt") blast
  have "read_result h1 res = applyMoveEffects gd (read_snapshot h bs) uk tk mv mu fmt"
    if "lives_in h bs"
    using applyMoveEffects_store_read [OF that, of gd uk tk mv mu fmt] by (simp add: a)
  moreover have "map_sum id (read_turn h2) r =
      simulateTurn gd cs cm rnd (read_snapshot h bs) plKey oppKey plMove oppMove fmt"
    if "lives_in h bs"
    using simulateTurn_store_read [OF that, of gd cs cm rnd plKey oppKey plMove oppMove fmt]
    by (cases r) (simp_all add: s)
  ultimately show ?thesis
    using applyMoveEffects_store_frame [OF a] simulateTurn_store_frame [OF s]
    by (simp add: a s read_snapshot_extends)
qed

lemmas store_defs =
  example_player_ref_def example_snapshot_def example_store_def
  applyMoveEffects_store_def run_stages_store_def damageStage_store_def recoilStage_store_def
  drainStage_store_def cloneBattleState_store_def clone_player_def assign_pokemon_def
  array_at_def read_player_def read_snapshot_def effect_failure_store_def
  run_move_store_def simulateTurn_store_def extends_def fresh_in_def lives_in_def arrays_of_def

text \<open>Double-Edge with a damage of 90 on a store of two arrays: the call leaves the two
  arrays as they were, the returned snapshot refers to two new arrays, and the recoil and
  the damage are found there and not in the input.\<close>

theorem input_snapshot_never_mutated_witness:
  "lives_in (example_store (example_pokemon P1 ''Attacker'' 150 150)
      (example_pokemon P2 ''Defender'' 100 100)) example_snapshot \<and>
   (case applyMoveEffects_store example_dex
           (example_store (example_pokemon P1 ''Attacker'' 150 150)
              (example_pokemon P2 ''Defender'' 100 100))
           example_snapshot P1 P2 ''Double-Edge'' (example_matchup 85 95) None of
      (h', res) \<Rightarrow>
        take 2 h' = example_store (example_pokemon P1 ''Attacker'' 150 150)
              (example_pokemon P2 ''Defender'' 100 100) \<and>
        arrays_of (ref_battleState res) = [2, 3] \<and>
        health_of (read_snapshot h' (ref_battleState res)) P1 = Some 120 \<and>
        health_of (read_snapshot h' (ref_battleState res)) P2 = Some 10 \<and>
        health_of (read_snapshot h' example_snapshot) P1 = Some 150 \<and>
        health_of (read_snapshot h' example_snapshot) P2 = Some 100) \<and>
   (case simulateTurn_store example_dex (example_speeds 328 299) (example_calc 85 95) 0
           (example_store (example_pokemon P1 ''Attacker'' 150 150)
              (example_pokemon P2 ''Defender'' 100 100))
           example_snapshot P1 P2 ''Double-Edge'' ''Tackle'' None of
      (h', Inr t) \<Rightarrow>
        take 2 h' = example_store (example_pokemon P1 ''Attacker'' 150 150)
              (example_pokemon P2 ''Defender'' 100 100) \<and>
        arrays_of (ref_turnState t) = [6, 7] \<and>
        health_of (read_snapshot h' (ref_turnState t)) P1 = Some 30 \<and>
        health_of (read_snapshot h' (ref_turnState t)) P2 = Some 10 \<and>
        health_of (read_snapshot h' example_snapshot) P1 = Some 150 \<and>
        health_of (read_snapshot h' example_snapshot) P2 = Some 100
    | (h', Inl e) \<Rightarrow> False)"
  using input_snapshot_never_mutated [where gd = example_dex
      and h = "example_store (example_pokemon P1 ''Attacker'' 150 150)
                 (example_pokemon P2 ''Defender'' 100 100)"
      and bs = example_snapshot and uk = P1 and tk = P2 and mv = "''Double-Edge''"
      and mu = "example_matchup 85 95" and fmt = None and cs = "example_speeds 328 299"
      and cm = "example_calc 85 95" and rnd = 0 and plKey = P1 and oppKey = P2
      and plMove = "''Double-Edge''" and oppMove = "''Tackle''"]
  by (simp add: store_defs example_defs engine_defs turn_defs Let_def)

end
